theory Spec2Isabelle
  imports Complex_Main "HOL-Library.Sublist" "HOL-Library.AList"
begin

section \<open>Python strings\<close>

text \<open>
  Messages, catalogue fields and slot values are Python \<open>str\<close> values. They are modelled
  as \<open>string\<close> (lists of characters); case mapping, digits and white space are the ASCII
  ones, so the model speaks about ASCII text.
\<close>

definition lower_char :: "char \<Rightarrow> char" where
  "lower_char c =
     (case map_of (zip ''ABCDEFGHIJKLMNOPQRSTUVWXYZ'' ''abcdefghijklmnopqrstuvwxyz'') c of
        Some l \<Rightarrow> l | None \<Rightarrow> c)"

definition upper_char :: "char \<Rightarrow> char" where
  "upper_char c =
     (case map_of (zip ''abcdefghijklmnopqrstuvwxyz'' ''ABCDEFGHIJKLMNOPQRSTUVWXYZ'') c of
        Some l \<Rightarrow> l | None \<Rightarrow> c)"

definition lower :: "string \<Rightarrow> string" where
  "lower s = map lower_char s"

definition upper :: "string \<Rightarrow> string" where
  "upper s = map upper_char s"

definition is_digit :: "char \<Rightarrow> bool" where
  "is_digit c = (c \<in> set ''0123456789'')"

definition digit_val :: "char \<Rightarrow> nat" where
  "digit_val c =
     (case map_of (zip ''0123456789'' [0, 1, 2, 3, 4, 5, 6, 7, 8, 9]) c of
        Some d \<Rightarrow> d | None \<Rightarrow> 0)"

definition is_space :: "char \<Rightarrow> bool" where
  "is_space c =
     (c \<in> set [CHR 0x09, CHR 0x0A, CHR 0x0B, CHR 0x0C, CHR 0x0D,
               CHR 0x1C, CHR 0x1D, CHR 0x1E, CHR 0x1F, CHR 0x20])"

text \<open>\<open>s.strip()\<close>\<close>

definition strip :: "string \<Rightarrow> string" where
  "strip s = rev (dropWhile is_space (rev (dropWhile is_space s)))"

text \<open>\<open>sub in s\<close> on strings: \<open>sub\<close> occurs as a contiguous piece of \<open>s\<close>.\<close>

fun py_in :: "string \<Rightarrow> string \<Rightarrow> bool" where
  "py_in sub [] = (sub = [])"
| "py_in sub (c # cs) = (prefix sub (c # cs) \<or> py_in sub cs)"

text \<open>\<open>any(w in msg for w in ws)\<close>\<close>

definition any_in :: "string list \<Rightarrow> string \<Rightarrow> bool" where
  "any_in ws msg = list_ex (\<lambda>w. py_in w msg) ws"

text \<open>\<open>int(s)\<close> on a string of decimal digits.\<close>

definition py_int :: "string \<Rightarrow> nat" where
  "py_int s = foldl (\<lambda>a c. 10 * a + digit_val c) 0 s"

text \<open>\<open>str(n)\<close> and the format \<open>{n:02d}\<close> for a natural number.\<close>

function dec :: "nat \<Rightarrow> string" where
  "dec n = (if n < 10 then [''0123456789'' ! n]
            else dec (n div 10) @ [''0123456789'' ! (n mod 10)])"
  by pat_completeness auto
termination
  by (relation "measure id") auto

declare dec.simps [simp del]

definition fmt02 :: "nat \<Rightarrow> string" where
  "fmt02 n = (if n < 10 then CHR ''0'' # dec n else dec n)"

text \<open>\<open>x or y\<close> where \<open>x\<close> is \<open>None\<close> or a string and \<open>y\<close> a string.\<close>

definition or_str :: "string option \<Rightarrow> string \<Rightarrow> string" where
  "or_str x y = (case x of None \<Rightarrow> y | Some v \<Rightarrow> if v = [] then y else v)"

text \<open>Truth value of \<open>None\<close> or a string.\<close>

definition truthy :: "string option \<Rightarrow> bool" where
  "truthy x = (case x of None \<Rightarrow> False | Some v \<Rightarrow> v \<noteq> [])"

text \<open>\<open>Series.unique()\<close>: the distinct values in order of first appearance.\<close>

fun unique :: "'a list \<Rightarrow> 'a list" where
  "unique [] = []"
| "unique (x # xs) = x # unique (filter (\<lambda>y. y \<noteq> x) xs)"

section \<open>Clock times\<close>

text \<open>
  \<open>datetime.strptime(s, "%H:%M").time()\<close>. The library matches the whole string against
  \<open>(2[0-3]|[0-1]\d|\d):([0-5]\d|\d)\<close> and raises \<open>ValueError\<close> otherwise; \<open>None\<close> stands
  for the \<open>ValueError\<close>. A time is the pair (hour, minute).
\<close>

type_synonym clock = "nat \<times> nat"

definition parse_hour :: "string \<Rightarrow> (nat \<times> string) option" where
  "parse_hour s =
     (case s of
        [] \<Rightarrow> None
      | [h1] \<Rightarrow> if is_digit h1 then Some (digit_val h1, []) else None
      | h1 # h2 # rest \<Rightarrow>
          if (h1 = CHR ''2'' \<and> h2 \<in> set ''0123'') \<or> (h1 \<in> set ''01'' \<and> is_digit h2)
          then Some (10 * digit_val h1 + digit_val h2, rest)
          else if is_digit h1 then Some (digit_val h1, h2 # rest)
          else None)"

definition parse_minute :: "string \<Rightarrow> nat option" where
  "parse_minute s =
     (case s of
        [m1] \<Rightarrow> if is_digit m1 then Some (digit_val m1) else None
      | [m1, m2] \<Rightarrow>
          if m1 \<in> set ''012345'' \<and> is_digit m2
          then Some (10 * digit_val m1 + digit_val m2) else None
      | _ \<Rightarrow> None)"

definition strptime_HM :: "string \<Rightarrow> clock option" where
  "strptime_HM s =
     (case parse_hour s of
        None \<Rightarrow> None
      | Some (h, rest) \<Rightarrow>
          (case rest of
             [] \<Rightarrow> None
           | c # ms \<Rightarrow>
               if c = CHR '':'' then
                 (case parse_minute ms of None \<Rightarrow> None | Some m \<Rightarrow> Some (h, m))
               else None))"

text \<open>Comparison of \<open>datetime.time\<close> values: by hour, then by minute.\<close>

definition clock_le :: "clock \<Rightarrow> clock \<Rightarrow> bool" where
  "clock_le a b = (fst a < fst b \<or> (fst a = fst b \<and> snd a \<le> snd b))"

text \<open>\<open>start_t <= t <= end_t\<close>\<close>

definition in_window :: "clock \<Rightarrow> clock \<Rightarrow> clock \<Rightarrow> bool" where
  "in_window start_t t end_t = (clock_le start_t t \<and> clock_le t end_t)"

text \<open>\<open>t.strftime('%I:%M %p')\<close>: twelve-hour clock with AM or PM.\<close>

definition strftime_IMp :: "clock \<Rightarrow> string" where
  "strftime_IMp t =
     fmt02 (if fst t mod 12 = 0 then 12 else fst t mod 12) @ '':'' @ fmt02 (snd t) @ '' '' @
     (if fst t < 12 then ''AM'' else ''PM'')"

section \<open>Time extraction from a message\<close>

text \<open>
  \<open>re.search\<close> returns the leftmost match. In the patterns of \<open>app.py\<close> and \<open>chat.py\<close>
  everything after \<open>(\d{1,2})\<close> is optional, so the match starts at the first digit of the
  message and every greedy choice stands. The groups are returned as the matched texts.
\<close>

text \<open>\<open>(\d{1,2})\<close> at a digit: two digits when the next character is a digit too.\<close>

definition digits12 :: "string \<Rightarrow> string \<times> string" where
  "digits12 s =
     (case s of
        d1 # d2 # r \<Rightarrow> if is_digit d2 then ([d1, d2], r) else ([d1], d2 # r)
      | _ \<Rightarrow> (s, []))"

text \<open>\<open>(\d{2})?\<close>\<close>

definition opt_digits2 :: "string \<Rightarrow> string option \<times> string" where
  "opt_digits2 s =
     (case s of
        m1 # m2 # r \<Rightarrow> if is_digit m1 \<and> is_digit m2 then (Some [m1, m2], r) else (None, s)
      | _ \<Rightarrow> (None, s))"

text \<open>\<open>app.py\<close>: \<open>(\d{1,2})(?:[:.](\d{2}))?\s*(am|pm)?\<close> at a digit.\<close>

definition app_match_at :: "string \<Rightarrow> string \<times> string option \<times> string option" where
  "app_match_at s =
     (let (g1, r1) = digits12 s;
          (g2, r2) =
            (case r1 of
               [] \<Rightarrow> (None, r1)
             | c # r \<Rightarrow>
                 if c \<in> set '':.'' then
                   (case opt_digits2 r of (Some m, r') \<Rightarrow> (Some m, r') | (None, _) \<Rightarrow> (None, r1))
                 else (None, r1));
          r3 = dropWhile is_space r2;
          g3 = (if prefix ''am'' r3 then Some ''am''
                else if prefix ''pm'' r3 then Some ''pm'' else None)
      in (g1, g2, g3))"

fun app_time_search :: "string \<Rightarrow> (string \<times> string option \<times> string option) option" where
  "app_time_search [] = None"
| "app_time_search (c # cs) =
     (if is_digit c then Some (app_match_at (c # cs)) else app_time_search cs)"

text \<open>\<open>app.py\<close>, lines 204 to 213: the time string of a booking turn.\<close>

definition app_time_str :: "string \<Rightarrow> string" where
  "app_time_str msg =
     (case app_time_search msg of
        Some (g1, g2, g3) \<Rightarrow>
          (let hour = py_int g1;
               minute = (case g2 of Some m \<Rightarrow> py_int m | None \<Rightarrow> 0);
               hour' = (if g3 = Some ''pm'' \<and> hour \<noteq> 12 then hour + 12 else hour)
           in fmt02 hour' @ '':'' @ fmt02 minute)
      | None \<Rightarrow> ''10:00'')"

text \<open>
  \<open>chat.py\<close>: \<open>(\d{1,2})(?::|\.?)(\d{2})?\s*(am|pm)?\<close> with \<open>re.IGNORECASE\<close>, at a digit.
\<close>

definition chat_match_at :: "string \<Rightarrow> string \<times> string option \<times> string option" where
  "chat_match_at s =
     (let (g1, r1) = digits12 s;
          r1' = (case r1 of
                   [] \<Rightarrow> r1
                 | c # r \<Rightarrow> if c = CHR '':'' \<or> c = CHR ''.'' then r else r1);
          (g2, r2) = opt_digits2 r1';
          r3 = dropWhile is_space r2;
          g3 = (if lower (take 2 r3) = ''am'' \<or> lower (take 2 r3) = ''pm''
                then Some (take 2 r3) else None)
      in (g1, g2, g3))"

fun chat_time_search :: "string \<Rightarrow> (string \<times> string option \<times> string option) option" where
  "chat_time_search [] = None"
| "chat_time_search (c # cs) =
     (if is_digit c then Some (chat_match_at (c # cs)) else chat_time_search cs)"

text \<open>\<open>chat.py\<close>, lines 364 to 375: \<open>parsed_time\<close>, \<open>None\<close> when the pattern does not match.\<close>

definition chat_parsed_time :: "string \<Rightarrow> string option" where
  "chat_parsed_time msg =
     (case chat_time_search msg of
        Some (g1, g2, g3) \<Rightarrow>
          (let hour = py_int g1;
               minute = (case g2 of Some m \<Rightarrow> py_int m | None \<Rightarrow> 0);
               hour' = (case g3 of
                          None \<Rightarrow> hour
                        | Some ap \<Rightarrow>
                            (let h1 = (if lower ap = ''pm'' \<and> hour \<noteq> 12 then hour + 12 else hour)
                             in if lower ap = ''am'' \<and> h1 = 12 then 0 else h1))
           in Some (fmt02 hour' @ '':'' @ fmt02 minute))
      | None \<Rightarrow> None)"

text \<open>
  \<open>chatbot.py\<close>: \<open>(\d{1,2}):(\d{2})\<close>. At one position the two-digit hour is tried first,
  then the one-digit hour; the search takes the leftmost position that matches and the
  time string is the matched text, \<open>group(0)\<close>.
\<close>

definition chatbot_match_at :: "string \<Rightarrow> string option" where
  "chatbot_match_at s =
     (case s of
        d1 # d2 # c # m1 # m2 # _ \<Rightarrow>
          if is_digit d1 \<and> is_digit d2 \<and> c = CHR '':'' \<and> is_digit m1 \<and> is_digit m2
          then Some (take 5 s)
          else if is_digit d1 \<and> d2 = CHR '':'' \<and> is_digit c \<and> is_digit m1
          then Some (take 4 s) else None
      | [d1, c, m1, m2] \<Rightarrow>
          if is_digit d1 \<and> c = CHR '':'' \<and> is_digit m1 \<and> is_digit m2
          then Some s else None
      | _ \<Rightarrow> None)"

fun chatbot_time_search :: "string \<Rightarrow> string option" where
  "chatbot_time_search [] = None"
| "chatbot_time_search (c # cs) =
     (case chatbot_match_at (c # cs) of
        Some m \<Rightarrow> Some m
      | None \<Rightarrow> chatbot_time_search cs)"

definition chatbot_time_str :: "string \<Rightarrow> string" where
  "chatbot_time_str msg = (case chatbot_time_search msg of Some m \<Rightarrow> m | None \<Rightarrow> ''10:00'')"

section \<open>Catalogue, session state and turn results\<close>

text \<open>
  The tables \<open>hospitals.csv\<close> and \<open>doctors.csv\<close>, one record per row, in file order.
  Identifiers are kept as read from the file; the scripts only compare them. A rating is a
  finite number.
\<close>

record hospital =
  hospital_id :: string
  hospital_name :: string
  hosp_city :: string
  hosp_department :: string
  rating :: rat

record doctor =
  doctor_id :: string
  doctor_name :: string
  doc_hospital_id :: string
  doc_department :: string
  fee :: nat
  start_time :: string
  end_time :: string

record catalog =
  hospitals :: "hospital list"
  doctors :: "doctor list"

record user =
  user_name :: string
  user_email :: string
  user_city :: string
  user_age :: nat
  user_gender :: string

datatype intent = Greeting | Symptom | Booking | Doctor_list | Hospital_list | General | Unknown

text \<open>The booking dictionary handed to \<open>generate_pdf\<close>.\<close>

record booking =
  b_id :: string
  b_patient :: string
  b_age :: "nat option"
  b_gender :: "string option"
  b_hospital :: string
  b_department :: string
  b_doctor :: string
  b_date :: string
  b_time :: string

text \<open>
  The reply of a turn. Each constructor is one message template of the scripts and carries
  the values the template interpolates; the decoration around them is left out.
\<close>

datatype response =
    Hospitals_in string "hospital list"
      \<comment> \<open>"Hospitals in {city}:" and the rows shown\<close>
  | No_hospitals_in string
      \<comment> \<open>"Sorry, no hospitals found in {city}." / "No hospitals found in {city}."\<close>
  | Ask_city
      \<comment> \<open>"Please tell me your city to find nearby hospitals ..."\<close>
  | Doctors_in string string "doctor list"
      \<comment> \<open>"Available doctors in {dept} at {city}:" and the rows shown\<close>
  | No_doctors_for string string
      \<comment> \<open>"Sorry, no doctors found for {dept} in {city}."\<close>
  | Ask_department
      \<comment> \<open>"Please mention which department ..." / "Please describe your symptoms first."\<close>
  | Symptom_hospitals string string string "hospital list"
      \<comment> \<open>advice text, department, city and the hospitals shown\<close>
  | Symptom_no_hospitals string string string
      \<comment> \<open>advice text, then "no hospitals found for {dept} in {city}"\<close>
  | Outside_window string string string
      \<comment> \<open>"{doctor} is available between {start} and {end}. Please choose a time within
          this window."\<close>
  | Booked string string string string
      \<comment> \<open>"Appointment booked with {doctor} at {hospital}. Date: {date} Time: {time}"\<close>
  | No_hospitals_for string string
      \<comment> \<open>"Sorry, no hospitals found for {dept} in {city}."\<close>
  | No_doctors_listed string string
      \<comment> \<open>"Sorry - no doctors listed for {dept} at {hospital}."\<close>
  | Need_department_and_city
      \<comment> \<open>"I need the department and city to book. ..."\<close>
  | Ask_missing "string list"
      \<comment> \<open>"Please provide the {date and time} for the appointment ..."\<close>
  | Greeting_reply string
      \<comment> \<open>"Hello {name}! I'm MedBot ..."\<close>
  | General_reply string
      \<comment> \<open>the text of \<open>medbot_reply\<close>\<close>
  | Help
      \<comment> \<open>the fixed capability text of the default branch\<close>
  | Empty_response
      \<comment> \<open>the empty string\<close>

datatype chat_entry = User_msg string | Assistant_msg response

record session =
  user :: "user option"
  chat_history :: "chat_entry list"
  city :: "string option"
  pending_booking :: "(string \<times> string) list"
  last_intent :: "intent option"

datatype py_error = KeyError | IndexError | ValueError

text \<open>
  What a turn does besides changing the session: it raises, or it replies and may have
  created a booking record.
\<close>

datatype outcome = Raised py_error | Reply response "booking option"

text \<open>
  What a turn takes from outside the scripts: the hexadecimal text of \<open>uuid.uuid4()\<close>, the
  result of \<open>dateparser.parse\<close> on the message (formatted with \<open>%Y-%m-%d\<close>, \<open>None\<close> when
  the parser finds no date) and today's date in the same format.
\<close>

record ext =
  uuid_hex :: string
  parsed_date :: "string option"
  today :: string

definition init_session :: session where
  "init_session =
     \<lparr>user = None, chat_history = [], city = None, pending_booking = [], last_intent = None\<rparr>"

text \<open>
  The end of every turn: the reply is appended to the chat history. A turn that raised does
  not get there.
\<close>

definition record_reply :: "session \<times> outcome \<Rightarrow> session \<times> outcome" where
  "record_reply p =
     (case snd p of
        Raised e \<Rightarrow> p
      | Reply r b \<Rightarrow> ((fst p)\<lparr>chat_history := chat_history (fst p) @ [Assistant_msg r]\<rparr>, snd p))"

section \<open>Catalogue queries\<close>

text \<open>The loop \<open>for c in hospitals["city"].unique(): if c.lower() in msg: ...; break\<close>\<close>

definition detect_city :: "hospital list \<Rightarrow> string \<Rightarrow> string option" where
  "detect_city hs msg = find (\<lambda>c. py_in (lower c) msg) (unique (map hosp_city hs))"

definition detect_department :: "hospital list \<Rightarrow> string \<Rightarrow> string option" where
  "detect_department hs msg =
     find (\<lambda>d. py_in (lower d) msg) (unique (map hosp_department hs))"

definition hospitals_in :: "hospital list \<Rightarrow> string \<Rightarrow> hospital list" where
  "hospitals_in hs c = filter (\<lambda>h. lower (hosp_city h) = lower c) hs"

definition hospitals_for :: "hospital list \<Rightarrow> string \<Rightarrow> string \<Rightarrow> hospital list" where
  "hospitals_for hs c dept =
     filter (\<lambda>h. lower (hosp_city h) = lower c \<and> lower (hosp_department h) = lower dept) hs"

text \<open>
  \<open>sort_values(by="rating", ascending=False)\<close>. Rows of equal rating are kept in table
  order.
\<close>

fun insert_desc :: "hospital \<Rightarrow> hospital list \<Rightarrow> hospital list" where
  "insert_desc h [] = [h]"
| "insert_desc h (x # xs) =
     (if rating x \<le> rating h then h # x # xs else x # insert_desc h xs)"

definition sort_values_rating_desc :: "hospital list \<Rightarrow> hospital list" where
  "sort_values_rating_desc hs = foldr insert_desc hs []"

text \<open>The doctors of one hospital and department, in table order.\<close>

definition doctors_at :: "doctor list \<Rightarrow> hospital \<Rightarrow> string \<Rightarrow> doctor list" where
  "doctors_at ds h dept =
     filter (\<lambda>d. doc_hospital_id d = hospital_id h \<and> lower (doc_department d) = lower dept) ds"

text \<open>\<open>hosp.sort_values(by="rating", ascending=False).iloc[0]\<close>; \<open>None\<close> on an empty frame.\<close>

definition top_hospital :: "hospital list \<Rightarrow> hospital option" where
  "top_hospital hosp =
     (case sort_values_rating_desc hosp of [] \<Rightarrow> None | top_hosp # _ \<Rightarrow> Some top_hosp)"

text \<open>\<open>doctors[...].iloc[0]\<close>; \<open>None\<close> on an empty frame.\<close>

definition first_doctor :: "doctor list \<Rightarrow> hospital \<Rightarrow> string \<Rightarrow> doctor option" where
  "first_doctor ds h dept = (case doctors_at ds h dept of [] \<Rightarrow> None | doc # _ \<Rightarrow> Some doc)"

text \<open>The doctors of a department in the hospitals of a city.\<close>

definition doctors_in :: "catalog \<Rightarrow> string \<Rightarrow> string \<Rightarrow> doctor list" where
  "doctors_in cat dept c =
     filter (\<lambda>d. lower (doc_department d) = lower dept \<and>
                  doc_hospital_id d \<in> set (map hospital_id (hospitals_in (hospitals cat) c)))
            (doctors cat)"

text \<open>\<open>"A" + uuid.uuid4().hex[:6].upper()\<close>\<close>

definition new_booking_id :: "ext \<Rightarrow> string" where
  "new_booking_id x = ''A'' @ upper (take 6 (uuid_hex x))"

section \<open>The turn of app.py\<close>

definition app_intent :: "string \<Rightarrow> intent option \<Rightarrow> intent" where
  "app_intent msg prev =
     (if any_in [''hospital'', ''hospitals'', ''nearby'', ''list hospitals''] msg
      then Hospital_list
      else if any_in [''doctor'', ''doctors'', ''available'', ''specialist''] msg
      then Doctor_list
      else if any_in [''pain'', ''fever'', ''vomit'', ''rash'', ''headache'', ''ache'',
                      ''itch'', ''cough'', ''breath'', ''skin''] msg
      then Symptom
      else if any_in [''book'', ''appointment'', ''yes'', ''confirm'', ''on'', ''pm'', ''am'',
                      ''date''] msg
      then Booking
      else (case prev of Some i \<Rightarrow> i | None \<Rightarrow> Unknown))"

text \<open>Lines 233 to 274: the availability check and the booking record.\<close>

definition app_check_and_book ::
  "user \<Rightarrow> ext \<Rightarrow> hospital \<Rightarrow> doctor \<Rightarrow> string \<Rightarrow> string \<Rightarrow> string \<Rightarrow> outcome" where
  "app_check_and_book u x top_hosp doc dept date_str time_str =
     (case strptime_HM (start_time doc) of
        None \<Rightarrow> Raised ValueError
      | Some start_t \<Rightarrow>
     (case strptime_HM (end_time doc) of
        None \<Rightarrow> Raised ValueError
      | Some end_t \<Rightarrow>
     (case strptime_HM time_str of
        None \<Rightarrow> Raised ValueError
      | Some booking_t \<Rightarrow>
          if \<not> in_window start_t booking_t end_t
          then Reply (Outside_window (doctor_name doc) (strftime_IMp start_t)
                        (strftime_IMp end_t)) None
          else Reply (Booked (doctor_name doc) (hospital_name top_hosp) date_str time_str)
                 (Some \<lparr>b_id = new_booking_id x, b_patient = user_name u,
                         b_age = Some (user_age u), b_gender = Some (user_gender u),
                         b_hospital = hospital_name top_hosp, b_department = dept,
                         b_doctor = doctor_name doc, b_date = date_str,
                         b_time = time_str\<rparr>))))"

text \<open>
  Lines 215 to 219: the date of the booking is the parsed date, else the date kept in
  \<open>pending_booking\<close>, else today.
\<close>

definition app_date_str :: "ext \<Rightarrow> session \<Rightarrow> string" where
  "app_date_str x s =
     (case parsed_date x of
        Some d \<Rightarrow> d
      | None \<Rightarrow> (case map_of (pending_booking s) ''date'' of
                   Some d \<Rightarrow> d | None \<Rightarrow> today x))"

text \<open>Line 217: a parsed date is stored under \<open>"date"\<close>.\<close>

definition app_store_date :: "ext \<Rightarrow> session \<Rightarrow> session" where
  "app_store_date x s =
     (case parsed_date x of
        Some d \<Rightarrow> s\<lparr>pending_booking := AList.update ''date'' d (pending_booking s)\<rparr>
      | None \<Rightarrow> s)"

text \<open>Lines 200 to 277: the booking branch, entered with a non-empty \<open>pending_booking\<close>.\<close>

definition app_booking_branch ::
  "catalog \<Rightarrow> user \<Rightarrow> ext \<Rightarrow> string \<Rightarrow> session \<Rightarrow> session \<times> outcome" where
  "app_booking_branch cat u x msg s =
     (case map_of (pending_booking s) ''city'' of
        None \<Rightarrow> (s, Raised KeyError)
      | Some cty \<Rightarrow>
     (case map_of (pending_booking s) ''department'' of
        None \<Rightarrow> (s, Raised KeyError)
      | Some dept \<Rightarrow>
          (let time_str = app_time_str msg;
               s1 = app_store_date x s;
               date_str = app_date_str x s;
               hosp = hospitals_for (hospitals cat) cty dept
           in if hosp \<noteq> [] then
                (case top_hospital hosp of
                   None \<Rightarrow> (s1, Raised IndexError)
                 | Some top_hosp \<Rightarrow>
                     (case first_doctor (doctors cat) top_hosp dept of
                        None \<Rightarrow> (s1, Raised IndexError)
                      | Some doc \<Rightarrow>
                          (case app_check_and_book u x top_hosp doc dept date_str time_str of
                             Raised e \<Rightarrow> (s1, Raised e)
                           | Reply r b \<Rightarrow> (s1\<lparr>last_intent := Some Booking\<rparr>, Reply r b))))
              else (s1\<lparr>last_intent := Some Booking\<rparr>,
                    Reply (No_hospitals_for dept cty) None))))"

text \<open>Lines 133 to 142.\<close>

definition app_hospital_branch :: "catalog \<Rightarrow> string \<Rightarrow> session \<Rightarrow> session \<times> outcome" where
  "app_hospital_branch cat cty s =
     (let city_hosp = hospitals_in (hospitals cat) cty
      in (s\<lparr>last_intent := Some Hospital_list\<rparr>,
          Reply (if city_hosp \<noteq> [] then Hospitals_in cty (take 5 city_hosp)
                 else No_hospitals_in cty) None))"

text \<open>Lines 145 to 177.\<close>

definition app_doctor_branch ::
  "catalog \<Rightarrow> string \<Rightarrow> string \<Rightarrow> session \<Rightarrow> session \<times> outcome" where
  "app_doctor_branch cat cty msg s =
     (let dept0 = detect_department (hospitals cat) msg;
          dept = (if \<not> truthy dept0 \<and> map_of (pending_booking s) ''department'' \<noteq> None
                  then map_of (pending_booking s) ''department'' else dept0)
      in if truthy dept then
           (let doctor_list = doctors_in cat (the dept) cty
            in if doctor_list \<noteq> [] then
                 (s\<lparr>pending_booking := [(''department'', the dept), (''city'', cty)],
                    last_intent := Some Doctor_list\<rparr>,
                  Reply (Doctors_in (the dept) cty (take 5 doctor_list)) None)
               else (s\<lparr>last_intent := Some Doctor_list\<rparr>,
                     Reply (No_doctors_for (the dept) cty) None))
         else (s\<lparr>last_intent := Some Doctor_list\<rparr>, Reply Ask_department None))"

text \<open>Lines 180 to 196; \<open>predict\<close> is the department resolver.\<close>

definition app_symptom_branch ::
  "catalog \<Rightarrow> (string \<Rightarrow> string) \<Rightarrow> string \<Rightarrow> string \<Rightarrow> session \<Rightarrow> session \<times> outcome" where
  "app_symptom_branch cat predict cty user_message s =
     (let dept = predict user_message;
          results = hospitals_for (hospitals cat) cty dept
      in if results \<noteq> [] then
           (s\<lparr>pending_booking := [(''department'', dept), (''city'', cty)],
              last_intent := Some Symptom\<rparr>,
            Reply (Symptom_hospitals dept dept cty
                     (take 3 (sort_values_rating_desc results))) None)
         else (s\<lparr>last_intent := Some Symptom\<rparr>,
               Reply (Symptom_no_hospitals dept dept cty) None))"

text \<open>Lines 104 to 117: the message is recorded and a city named in it becomes the session's.\<close>

definition app_enter :: "catalog \<Rightarrow> string \<Rightarrow> session \<Rightarrow> session" where
  "app_enter cat user_message s =
     (let s1 = s\<lparr>chat_history := chat_history s @ [User_msg user_message]\<rparr>
      in case detect_city (hospitals cat) (lower user_message) of
           Some c \<Rightarrow> s1\<lparr>city := Some c\<rparr>
         | None \<Rightarrow> s1)"

text \<open>Lines 110 to 117: the local variable \<open>city\<close>.\<close>

definition app_city :: "catalog \<Rightarrow> user \<Rightarrow> string \<Rightarrow> session \<Rightarrow> string" where
  "app_city cat u user_message s =
     (case detect_city (hospitals cat) (lower user_message) of
        Some c \<Rightarrow> c
      | None \<Rightarrow> or_str (city s) (user_city u))"

text \<open>Lines 103 to 292: one chat message of a logged-in user.\<close>

definition app_turn ::
  "catalog \<Rightarrow> (string \<Rightarrow> string) \<Rightarrow> user \<Rightarrow> ext \<Rightarrow> string \<Rightarrow> session \<Rightarrow> session \<times> outcome" where
  "app_turn cat predict u x user_message s =
     (let msg = lower user_message;
          s2 = app_enter cat user_message s;
          cty = app_city cat u user_message s;
          intent = app_intent msg (last_intent s2)
      in record_reply
           (if intent = Hospital_list then app_hospital_branch cat cty s2
            else if intent = Doctor_list then app_doctor_branch cat cty msg s2
            else if intent = Symptom then app_symptom_branch cat predict cty user_message s2
            else if intent = Booking \<and> pending_booking s2 \<noteq> []
            then app_booking_branch cat u x msg s2
            else (s2\<lparr>last_intent := Some Unknown\<rparr>, Reply Help None)))"

section \<open>The turn of chat.py\<close>

text \<open>
  Lines 422 to 483: the availability check inside \<open>try\<close>. A \<open>ValueError\<close> of one of the
  three \<open>strptime\<close> calls is caught by the \<open>except\<close> branch, which creates the booking
  without the check, without age and gender, and without clearing \<open>pending_booking\<close>.
\<close>

definition chat_check_and_book ::
  "user \<Rightarrow> ext \<Rightarrow> hospital \<Rightarrow> doctor \<Rightarrow> string \<Rightarrow> string \<Rightarrow> string \<Rightarrow> session \<Rightarrow>
     session \<times> outcome" where
  "chat_check_and_book u x chosen doc department date_str time_str s =
     (case (strptime_HM (start_time doc), strptime_HM (end_time doc), strptime_HM time_str) of
        (Some start_t, Some end_t, Some requested_t) \<Rightarrow>
          if \<not> in_window start_t requested_t end_t
          then (s, Reply (Outside_window (doctor_name doc) (strftime_IMp start_t)
                            (strftime_IMp end_t)) None)
          else (s\<lparr>pending_booking := []\<rparr>,
                Reply (Booked (doctor_name doc) (hospital_name chosen) date_str time_str)
                  (Some \<lparr>b_id = new_booking_id x, b_patient = user_name u,
                          b_age = Some (user_age u), b_gender = Some (user_gender u),
                          b_hospital = hospital_name chosen, b_department = department,
                          b_doctor = doctor_name doc, b_date = date_str,
                          b_time = time_str\<rparr>))
      | _ \<Rightarrow>
          (s, Reply (Booked (doctor_name doc) (hospital_name chosen) date_str time_str)
                (Some \<lparr>b_id = new_booking_id x, b_patient = user_name u,
                        b_age = None, b_gender = None,
                        b_hospital = hospital_name chosen, b_department = department,
                        b_doctor = doctor_name doc, b_date = date_str,
                        b_time = time_str\<rparr>)))"

text \<open>
  Lines 355 to 360: a hospital named in the message. The row is the first one of that
  name; it exists, since the name is taken from the table.
\<close>

definition chat_selected_hospital :: "hospital list \<Rightarrow> string \<Rightarrow> hospital option" where
  "chat_selected_hospital hs msg_l =
     (case find (\<lambda>n. py_in (lower n) msg_l) (unique (map hospital_name hs)) of
        None \<Rightarrow> None
      | Some hn \<Rightarrow> find (\<lambda>h. lower (hospital_name h) = lower hn) hs)"

text \<open>Lines 353 to 385: the slots of the turn, \<open>booking_info\<close>.\<close>

definition chat_booking_info :: "hospital list \<Rightarrow> string \<Rightarrow> session \<Rightarrow> (string \<times> string) list" where
  "chat_booking_info hs msg_l s =
     (let b0 = pending_booking s;
          b1 = (case chat_selected_hospital hs msg_l of
                  Some h \<Rightarrow> AList.update ''city'' (hosp_city h) b0
                | None \<Rightarrow> b0)
      in case detect_department hs msg_l of
           Some d \<Rightarrow> AList.update ''department'' d b1
         | None \<Rightarrow> b1)"

definition chat_city_search :: "hospital list \<Rightarrow> user \<Rightarrow> string \<Rightarrow> session \<Rightarrow> string" where
  "chat_city_search hs u msg_l s =
     or_str (map_of (chat_booking_info hs msg_l s) ''city'') (or_str (city s) (user_city u))"

text \<open>Line 398: the hospital of the booking.\<close>

definition chat_chosen :: "hospital list \<Rightarrow> string \<Rightarrow> hospital list \<Rightarrow> hospital option" where
  "chat_chosen hs msg_l hosp_matches =
     (case chat_selected_hospital hs msg_l of
        Some h \<Rightarrow> Some h
      | None \<Rightarrow> top_hospital hosp_matches)"

text \<open>Lines 351 to 483: the booking branch.\<close>

definition chat_booking_branch ::
  "catalog \<Rightarrow> user \<Rightarrow> ext \<Rightarrow> string \<Rightarrow> string \<Rightarrow> session \<Rightarrow> session \<times> outcome" where
  "chat_booking_branch cat u x msg msg_l s =
     (let parsed_time = chat_parsed_time msg;
          department = map_of (chat_booking_info (hospitals cat) msg_l s) ''department'';
          city_search = chat_city_search (hospitals cat) u msg_l s
      in if \<not> truthy department \<or> city_search = []
         then (s, Reply Need_department_and_city None)
         else
           (let dept = the department;
                hosp_matches = hospitals_for (hospitals cat) city_search dept
            in if hosp_matches = []
               then (s, Reply (No_hospitals_for dept city_search) None)
               else
                 (case chat_chosen (hospitals cat) msg_l hosp_matches of
                    None \<Rightarrow> (s, Raised IndexError)
                  | Some chosen \<Rightarrow>
                      (case first_doctor (doctors cat) chosen dept of
                         None \<Rightarrow> (s, Reply (No_doctors_listed dept (hospital_name chosen)) None)
                       | Some doc \<Rightarrow>
                           if parsed_date x = None \<or> parsed_time = None
                           then (s\<lparr>pending_booking :=
                                     AList.update ''city'' city_search
                                       (AList.update ''department'' dept
                                          (AList.update ''hospital_id'' (hospital_id chosen)
                                             (pending_booking s)))\<rparr>,
                                 Reply (Ask_missing
                                          ((if parsed_date x = None then [''date''] else []) @
                                           (if parsed_time = None then [''time''] else [])))
                                   None)
                           else chat_check_and_book u x chosen doc dept
                                  (the (parsed_date x)) (the parsed_time) s))))"

text \<open>Lines 329 to 348; \<open>reply\<close> is \<open>medbot_reply\<close>.\<close>

definition chat_symptom_branch ::
  "catalog \<Rightarrow> (string \<Rightarrow> string) \<Rightarrow> (string \<Rightarrow> string) \<Rightarrow> user \<Rightarrow> string \<Rightarrow> session \<Rightarrow>
     session \<times> outcome" where
  "chat_symptom_branch cat predict reply u msg s =
     (let dept = predict msg;
          city_for_search = or_str (city s) (user_city u);
          s1 = s\<lparr>pending_booking := [(''department'', dept), (''city'', city_for_search)]\<rparr>;
          generated = reply msg;
          matches = hospitals_for (hospitals cat) city_for_search dept
      in (s1, Reply (if matches \<noteq> []
                     then Symptom_hospitals generated dept city_for_search
                            (take 5 (sort_values_rating_desc matches))
                     else Symptom_no_hospitals generated dept city_for_search) None))"

text \<open>Lines 486 to 511.\<close>

definition chat_doctor_branch ::
  "catalog \<Rightarrow> user \<Rightarrow> string \<Rightarrow> session \<Rightarrow> session \<times> outcome" where
  "chat_doctor_branch cat u msg_l s =
     (let dept0 = detect_department (hospitals cat) msg_l;
          dept = (if dept0 = None \<and> pending_booking s \<noteq> []
                  then map_of (pending_booking s) ''department'' else dept0)
      in if truthy dept then
           (let city_search = or_str (city s) (user_city u);
                docs = doctors_in cat (the dept) city_search
            in if docs \<noteq> [] then
                 (s\<lparr>pending_booking := [(''department'', the dept), (''city'', city_search)]\<rparr>,
                  Reply (Doctors_in (the dept) city_search (take 10 docs)) None)
               else (s, Reply (No_doctors_for (the dept) city_search) None))
         else (s, Reply Ask_department None))"

text \<open>Lines 516 to 518: the city of a hospital listing.\<close>

definition chat_hospital_city :: "user \<Rightarrow> string option \<Rightarrow> session \<Rightarrow> string" where
  "chat_hospital_city u detected_city s =
     (if truthy detected_city then the detected_city else or_str (city s) (user_city u))"

text \<open>Lines 514 to 529.\<close>

definition chat_hospital_branch ::
  "catalog \<Rightarrow> user \<Rightarrow> string option \<Rightarrow> session \<Rightarrow> session \<times> outcome" where
  "chat_hospital_branch cat u detected_city s =
     (let city_search = chat_hospital_city u detected_city s
      in if city_search \<noteq> [] then
           (let matches = hospitals_in (hospitals cat) city_search
            in (s, Reply (if matches \<noteq> [] then Hospitals_in city_search (take 10 matches)
                          else No_hospitals_in city_search) None))
         else (s, Reply Ask_city None))"

text \<open>Lines 323 to 533: the branch a message takes.\<close>

definition chat_intent :: "string \<Rightarrow> intent" where
  "chat_intent msg_l =
     (if any_in [''hi'', ''hello'', ''hey'', ''good morning'', ''good evening''] msg_l
      then Greeting
      else if any_in [''fever'', ''pain'', ''headache'', ''vomit'', ''cough'', ''rash'',
                      ''nausea'', ''dizziness'', ''migraine''] msg_l
      then Symptom
      else if any_in [''book'', ''appointment'', ''schedule'', ''reserve''] msg_l
      then Booking
      else if any_in [''who is'', ''which doctors'', ''doctors in'', ''available doctors'',
                      ''list doctors''] msg_l
      then Doctor_list
      else if any_in [''hospital'', ''hospitals'', ''nearby''] msg_l
      then Hospital_list
      else General)"

text \<open>Lines 303 to 316: the message is recorded and a city named in it becomes the session's.\<close>

definition chat_enter :: "catalog \<Rightarrow> string \<Rightarrow> session \<Rightarrow> session" where
  "chat_enter cat user_input s =
     (let msg = strip user_input;
          s1 = s\<lparr>chat_history := chat_history s @ [User_msg msg]\<rparr>
      in case detect_city (hospitals cat) (lower msg) of
           Some c \<Rightarrow> s1\<lparr>city := Some c\<rparr>
         | None \<Rightarrow> s1)"

text \<open>Lines 302 to 538: one chat message of a logged-in user.\<close>

definition chat_turn ::
  "catalog \<Rightarrow> (string \<Rightarrow> string) \<Rightarrow> (string \<Rightarrow> string) \<Rightarrow> user \<Rightarrow> ext \<Rightarrow> string \<Rightarrow> session \<Rightarrow>
     session \<times> outcome" where
  "chat_turn cat predict reply u x user_input s =
     (let msg = strip user_input;
          msg_l = lower msg;
          detected_city = detect_city (hospitals cat) msg_l;
          s2 = chat_enter cat user_input s;
          intent = chat_intent msg_l
      in record_reply
           (if intent = Greeting then (s2, Reply (Greeting_reply (user_name u)) None)
            else if intent = Symptom then chat_symptom_branch cat predict reply u msg s2
            else if intent = Booking then chat_booking_branch cat u x msg msg_l s2
            else if intent = Doctor_list then chat_doctor_branch cat u msg_l s2
            else if intent = Hospital_list then chat_hospital_branch cat u detected_city s2
            else (s2, Reply (General_reply (reply msg)) None)))"

section \<open>The turn of chatbot.py\<close>

definition chatbot_intent :: "string \<Rightarrow> intent option \<Rightarrow> intent" where
  "chatbot_intent msg prev =
     (if any_in [''pain'', ''fever'', ''rash'', ''ache'', ''vomit'', ''dizzy'', ''cough''] msg
      then Symptom
      else if py_in ''hospital'' msg then Hospital_list
      else if py_in ''doctor'' msg then Doctor_list
      else if py_in ''book'' msg \<or> py_in ''appointment'' msg then Booking
      else (case prev of Some i \<Rightarrow> i | None \<Rightarrow> Unknown))"

text \<open>Lines 215 to 262: the booking branch, entered with a non-empty \<open>pending_booking\<close>.\<close>

definition chatbot_booking_branch ::
  "catalog \<Rightarrow> user \<Rightarrow> ext \<Rightarrow> string \<Rightarrow> string \<Rightarrow> session \<Rightarrow> session \<times> outcome" where
  "chatbot_booking_branch cat u x cty msg s =
     (case map_of (pending_booking s) ''department'' of
        None \<Rightarrow> (s, Raised KeyError)
      | Some dept \<Rightarrow>
          (let date_str = (case parsed_date x of Some d \<Rightarrow> d | None \<Rightarrow> today x);
               time_str = chatbot_time_str msg;
               hosp = hospitals_for (hospitals cat) cty dept
           in if hosp \<noteq> [] then
                (case top_hospital hosp of
                   None \<Rightarrow> (s, Raised IndexError)
                 | Some top_hosp \<Rightarrow>
                     (case first_doctor (doctors cat) top_hosp dept of
                        None \<Rightarrow> (s, Raised IndexError)
                      | Some doc \<Rightarrow>
                          (s\<lparr>last_intent := Some Booking\<rparr>,
                           Reply (Booked (doctor_name doc) (hospital_name top_hosp) date_str
                                    time_str)
                             (Some \<lparr>b_id = new_booking_id x, b_patient = user_name u,
                                     b_age = Some (user_age u),
                                     b_gender = Some (user_gender u),
                                     b_hospital = hospital_name top_hosp, b_department = dept,
                                     b_doctor = doctor_name doc, b_date = date_str,
                                     b_time = time_str\<rparr>))))
              else (s\<lparr>last_intent := Some Booking\<rparr>, Reply Empty_response None)))"

text \<open>Lines 158 to 176; \<open>predict\<close> is \<open>predict_department\<close>.\<close>

definition chatbot_symptom_branch ::
  "catalog \<Rightarrow> (string \<Rightarrow> string) \<Rightarrow> string \<Rightarrow> string \<Rightarrow> session \<Rightarrow> session \<times> outcome" where
  "chatbot_symptom_branch cat predict cty user_message s =
     (let dept = predict user_message;
          results = hospitals_for (hospitals cat) cty dept
      in (s\<lparr>pending_booking := [(''department'', dept), (''city'', cty)],
            last_intent := Some Symptom\<rparr>,
          Reply (if results \<noteq> []
                 then Symptom_hospitals dept dept cty (take 3 (sort_values_rating_desc results))
                 else Symptom_no_hospitals dept dept cty) None))"

text \<open>Lines 179 to 187.\<close>

definition chatbot_hospital_branch :: "catalog \<Rightarrow> string \<Rightarrow> session \<Rightarrow> session \<times> outcome" where
  "chatbot_hospital_branch cat cty s =
     (let city_hosp = hospitals_in (hospitals cat) cty
      in (s\<lparr>last_intent := Some Hospital_list\<rparr>,
          Reply (if city_hosp \<noteq> [] then Hospitals_in cty (take 5 city_hosp)
                 else No_hospitals_in cty) None))"

text \<open>Lines 190 to 212.\<close>

definition chatbot_doctor_branch :: "catalog \<Rightarrow> string \<Rightarrow> session \<Rightarrow> session \<times> outcome" where
  "chatbot_doctor_branch cat cty s =
     (let dept = map_of (pending_booking s) ''department''
      in (s\<lparr>last_intent := Some Doctor_list\<rparr>,
          Reply (if \<not> truthy dept then Ask_department
                 else (let doctor_list = doctors_in cat (the dept) cty
                       in if doctor_list \<noteq> [] then Doctors_in (the dept) cty (take 5 doctor_list)
                          else No_doctors_for (the dept) cty)) None))"

text \<open>Lines 130 to 143: the local variable \<open>city\<close> starts from the profile, not the session.\<close>

definition chatbot_city :: "catalog \<Rightarrow> user \<Rightarrow> string \<Rightarrow> string" where
  "chatbot_city cat u user_message =
     (case detect_city (hospitals cat) (lower user_message) of
        Some c \<Rightarrow> c
      | None \<Rightarrow> user_city u)"

text \<open>Lines 130 to 143: the message is recorded and a city named in it becomes the session's.\<close>

definition chatbot_enter :: "catalog \<Rightarrow> string \<Rightarrow> session \<Rightarrow> session" where
  "chatbot_enter cat user_message s =
     (let s1 = s\<lparr>chat_history := chat_history s @ [User_msg user_message]\<rparr>
      in case detect_city (hospitals cat) (lower user_message) of
           Some c \<Rightarrow> s1\<lparr>city := Some c\<rparr>
         | None \<Rightarrow> s1)"

text \<open>Lines 129 to 274: one chat message of a logged-in user.\<close>

definition chatbot_turn ::
  "catalog \<Rightarrow> (string \<Rightarrow> string) \<Rightarrow> user \<Rightarrow> ext \<Rightarrow> string \<Rightarrow> session \<Rightarrow> session \<times> outcome" where
  "chatbot_turn cat predict u x user_message s =
     (let msg = lower user_message;
          s2 = chatbot_enter cat user_message s;
          cty = chatbot_city cat u user_message;
          intent = chatbot_intent msg (last_intent s2)
      in record_reply
           (if intent = Symptom then chatbot_symptom_branch cat predict cty user_message s2
            else if intent = Hospital_list then chatbot_hospital_branch cat cty s2
            else if intent = Doctor_list then chatbot_doctor_branch cat cty s2
            else if intent = Booking \<and> pending_booking s2 \<noteq> []
            then chatbot_booking_branch cat u x cty msg s2
            else (s2\<lparr>last_intent := Some Unknown\<rparr>, Reply Help None)))"

section \<open>Sessions\<close>

text \<open>
  What happens to a session: a login or sign-up, the logout button, the
  "Clear Conversation" button of \<open>chat.py\<close>, and a chat message together with what the turn
  takes from outside.
\<close>

datatype event = Login user | Logout | Clear_conversation | Message string ext

text \<open>The booking record of an outcome, if one was created.\<close>

definition created :: "outcome \<Rightarrow> booking option" where
  "created out = (case out of Raised e \<Rightarrow> None | Reply r b \<Rightarrow> b)"

text \<open>\<open>app.py\<close>, lines 38 to 91 and the turn.\<close>

definition app_step ::
  "catalog \<Rightarrow> (string \<Rightarrow> string) \<Rightarrow> event \<Rightarrow> session \<Rightarrow> session \<times> booking option" where
  "app_step cat predict ev s =
     (case ev of
        Login u \<Rightarrow> (if user s = None then s\<lparr>user := Some u\<rparr> else s, None)
      | Logout \<Rightarrow>
          (if user s = None then s
           else s\<lparr>user := None, chat_history := [], city := None, pending_booking := [],
                  last_intent := None\<rparr>, None)
      | Clear_conversation \<Rightarrow> (s, None)
      | Message m x \<Rightarrow>
          (case user s of
             None \<Rightarrow> (s, None)
           | Some u \<Rightarrow> (let (s', out) = app_turn cat predict u x m s in (s', created out))))"

text \<open>\<open>chat.py\<close>, lines 253 to 294 and the turn.\<close>

definition chat_step ::
  "catalog \<Rightarrow> (string \<Rightarrow> string) \<Rightarrow> (string \<Rightarrow> string) \<Rightarrow> event \<Rightarrow> session \<Rightarrow>
     session \<times> booking option" where
  "chat_step cat predict reply ev s =
     (case ev of
        Login u \<Rightarrow> (if user s = None then s\<lparr>user := Some u\<rparr> else s, None)
      | Logout \<Rightarrow>
          (if user s = None then s
           else s\<lparr>user := None, chat_history := [], pending_booking := [],
                  last_intent := None\<rparr>, None)
      | Clear_conversation \<Rightarrow>
          (if user s = None then s
           else s\<lparr>chat_history := [], pending_booking := [], last_intent := None\<rparr>, None)
      | Message m x \<Rightarrow>
          (case user s of
             None \<Rightarrow> (s, None)
           | Some u \<Rightarrow>
               (let (s', out) = chat_turn cat predict reply u x m s in (s', created out))))"

text \<open>
  \<open>chatbot.py\<close>, lines 66 to 120 and the turn. Logout clears the whole session state, and
  the next run of the script initialises it again.
\<close>

definition chatbot_step ::
  "catalog \<Rightarrow> (string \<Rightarrow> string) \<Rightarrow> event \<Rightarrow> session \<Rightarrow> session \<times> booking option" where
  "chatbot_step cat predict ev s =
     (case ev of
        Login u \<Rightarrow> (if user s = None then s\<lparr>user := Some u\<rparr> else s, None)
      | Logout \<Rightarrow> (if user s = None then s else init_session, None)
      | Clear_conversation \<Rightarrow> (s, None)
      | Message m x \<Rightarrow>
          (case user s of
             None \<Rightarrow> (s, None)
           | Some u \<Rightarrow>
               (let (s', out) = chatbot_turn cat predict u x m s in (s', created out))))"

text \<open>The keys of \<open>pending_booking\<close> all lie in \<open>K\<close>.\<close>

definition keys_within :: "string set \<Rightarrow> session \<Rightarrow> bool" where
  "keys_within K s = (set (map fst (pending_booking s)) \<subseteq> K)"

text \<open>
  A session is a run of events from a state; the result is the final state and the booking
  records created, in order.
\<close>

fun run ::
  "(event \<Rightarrow> session \<Rightarrow> session \<times> booking option) \<Rightarrow> event list \<Rightarrow> session \<Rightarrow>
     session \<times> booking list" where
  "run step [] s = (s, [])"
| "run step (ev # evs) s =
     (let (s1, b) = step ev s;
          (s2, bs) = run step evs s1
      in (s2, (case b of None \<Rightarrow> [] | Some r \<Rightarrow> [r]) @ bs))"

section \<open>The department resolver of models/symptom_classifier_tf.py\<close>

text \<open>One row of \<open>symptoms_to_department.csv\<close>.\<close>

record symptom_row =
  symptom :: string
  department :: string

text \<open>The table \<open>symptom_map\<close> of \<open>fallback_symptom_mapping\<close>, in the order it is written.\<close>

definition symptom_map :: "(string \<times> string list) list" where
  "symptom_map =
     [(''Cardiology'',
         [''chest pain'', ''heart'', ''cardiac'', ''palpitation'', ''angina'', ''hypertension'',
          ''blood pressure'', ''arrhythmia'', ''shortness of breath'']),
      (''Neurology'',
         [''headache'', ''migraine'', ''seizure'', ''stroke'', ''paralysis'', ''numbness'',
          ''dizziness'', ''vertigo'', ''tremor'', ''memory loss'']),
      (''Orthopedics'',
         [''bone'', ''fracture'', ''joint pain'', ''arthritis'', ''back pain'', ''sprain'',
          ''knee pain'', ''shoulder pain'', ''hip pain'', ''muscle pain'']),
      (''Dermatology'',
         [''skin'', ''rash'', ''acne'', ''eczema'', ''psoriasis'', ''itching'', ''allergy'',
          ''hives'', ''pimples'', ''skin infection'']),
      (''Gastroenterology'',
         [''stomach'', ''abdominal pain'', ''diarrhea'', ''constipation'', ''vomiting'',
          ''nausea'', ''indigestion'', ''gastric'', ''liver'', ''intestine'']),
      (''ENT'',
         [''ear'', ''nose'', ''throat'', ''hearing'', ''tonsil'', ''sinus'', ''voice'',
          ''vertigo'', ''ear pain'', ''sore throat'']),
      (''Ophthalmology'',
         [''eye'', ''vision'', ''cataract'', ''glaucoma'', ''blurred vision'', ''eye pain'',
          ''red eye'', ''conjunctivitis'']),
      (''Pulmonology'',
         [''lung'', ''breathing'', ''cough'', ''asthma'', ''bronchitis'', ''pneumonia'',
          ''chest congestion'', ''respiratory'']),
      (''Pediatrics'',
         [''child'', ''infant'', ''baby'', ''vaccination'', ''growth'', ''childhood illness'',
          ''pediatric'']),
      (''Gynecology'',
         [''pregnancy'', ''menstrual'', ''period'', ''ovarian'', ''uterus'', ''pcos'', ''gynec'',
          ''women'' @ [CHR 0x27] @ ''s health'']),
      (''Urology'',
         [''kidney'', ''bladder'', ''urinary'', ''prostate'', ''urine'', ''uti'',
          ''kidney stone'']),
      (''Psychiatry'',
         [''depression'', ''anxiety'', ''mental'', ''stress'', ''insomnia'', ''mood'',
          ''psychological'', ''panic attack'']),
      (''Endocrinology'',
         [''diabetes'', ''thyroid'', ''hormone'', ''sugar'', ''insulin'', ''metabolic'',
          ''gland'']),
      (''Oncology'',
         [''cancer'', ''tumor'', ''chemotherapy'', ''radiation'', ''malignant'', ''oncology''])]"

text \<open>Lines 41 to 120.\<close>

definition fallback_symptom_mapping :: "string \<Rightarrow> string" where
  "fallback_symptom_mapping user_input =
     (let text = lower user_input
      in case find (\<lambda>entry. any_in (snd entry) text) symptom_map of
           Some entry \<Rightarrow> fst entry
         | None \<Rightarrow> ''General Medicine'')"

text \<open>
  Lines 5 to 39. \<open>csv\<close> is the table read from \<open>csv_path\<close>, \<open>None\<close> when the file is not
  found. \<open>close_matches word possibilities\<close> stands for the library call
  \<open>difflib.get_close_matches(word, possibilities, n=1, cutoff=0.4)\<close>. The row looked up for
  the fuzzy match is taken with \<open>iloc[0]\<close>, which raises \<open>IndexError\<close> on an empty frame.
\<close>

definition predict_department_tf ::
  "(string \<Rightarrow> string list \<Rightarrow> string list) \<Rightarrow> symptom_row list option \<Rightarrow> string \<Rightarrow>
     py_error + string" where
  "predict_department_tf close_matches csv user_input =
     (case csv of
        None \<Rightarrow> Inr (fallback_symptom_mapping user_input)
      | Some df \<Rightarrow>
          (let text = lower user_input
           in case find (\<lambda>row. py_in (lower (symptom row)) text) df of
                Some row \<Rightarrow> Inr (department row)
              | None \<Rightarrow>
                  (let symptoms = map (\<lambda>row. lower (symptom row)) df
                   in case close_matches text symptoms of
                        [] \<Rightarrow> Inr ''General Medicine''
                      | matched_symptom # _ \<Rightarrow>
                          (case find (\<lambda>row. lower (symptom row) = matched_symptom) df of
                             Some row \<Rightarrow> Inr (department row)
                           | None \<Rightarrow> Inl IndexError))))"

section \<open>A small catalogue for the examples\<close>

definition city_care :: hospital where
  "city_care =
     \<lparr>hospital_id = ''H1'', hospital_name = ''City Care'', hosp_city = ''Kochi'',
      hosp_department = ''Cardiology'', rating = 45 / 10\<rparr>"

definition lakeshore :: hospital where
  "lakeshore =
     \<lparr>hospital_id = ''H2'', hospital_name = ''Lakeshore Hospital'', hosp_city = ''Kochi'',
      hosp_department = ''Cardiology'', rating = 40 / 10\<rparr>"

definition apollo :: hospital where
  "apollo =
     \<lparr>hospital_id = ''H3'', hospital_name = ''Apollo'', hosp_city = ''Chennai'',
      hosp_department = ''Neurology'', rating = 48 / 10\<rparr>"

definition demo_hospitals :: "hospital list" where
  "demo_hospitals = [city_care, lakeshore, apollo]"

definition dr_nair :: doctor where
  "dr_nair =
     \<lparr>doctor_id = ''D1'', doctor_name = ''Dr. Nair'', doc_hospital_id = ''H1'',
      doc_department = ''Cardiology'', fee = 500, start_time = ''09:00'',
      end_time = ''17:00''\<rparr>"

definition dr_menon :: doctor where
  "dr_menon =
     \<lparr>doctor_id = ''D2'', doctor_name = ''Dr. Menon'', doc_hospital_id = ''H2'',
      doc_department = ''Cardiology'', fee = 400, start_time = ''10:00'',
      end_time = ''16:00''\<rparr>"

definition dr_rao :: doctor where
  "dr_rao =
     \<lparr>doctor_id = ''D3'', doctor_name = ''Dr. Rao'', doc_hospital_id = ''H3'',
      doc_department = ''Neurology'', fee = 600, start_time = ''09:00'',
      end_time = ''13:00''\<rparr>"

definition demo_doctors :: "doctor list" where
  "demo_doctors = [dr_nair, dr_menon, dr_rao]"

definition demo_catalog :: catalog where
  "demo_catalog = \<lparr>hospitals = demo_hospitals, doctors = demo_doctors\<rparr>"

text \<open>A department resolver that always answers Cardiology, and the identity as reply text.\<close>

definition demo_predict :: "string \<Rightarrow> string" where
  "demo_predict t = ''Cardiology''"

definition demo_reply :: "string \<Rightarrow> string" where
  "demo_reply t = t"

text \<open>The demo login of the scripts.\<close>

definition demo_user :: user where
  "demo_user =
     \<lparr>user_name = ''Demo User'', user_email = ''demo@demo.com'', user_city = ''Kochi'',
      user_age = 25, user_gender = ''Male''\<rparr>"

definition demo_ext :: ext where
  "demo_ext =
     \<lparr>uuid_hex = ''3f9c21d4e5b64a7f8a1b2c3d4e5f6a7b'', parsed_date = Some ''2026-12-15'',
      today = ''2026-11-04''\<rparr>"

text \<open>A logged-in session in which a symptom turn has resolved Cardiology in Kochi.\<close>

definition demo_session :: session where
  "demo_session =
     \<lparr>user = Some demo_user, chat_history = [], city = None,
      pending_booking = [(''department'', ''Cardiology''), (''city'', ''Kochi'')],
      last_intent = Some Symptom\<rparr>"

text \<open>A logged-in session before any slot is known.\<close>

definition fresh_session :: session where
  "fresh_session = init_session\<lparr>user := Some demo_user\<rparr>"

text \<open>Another draw of \<open>uuid.uuid4()\<close>; it differs from the first after the sixth digit.\<close>

definition demo_ext2 :: ext where
  "demo_ext2 = demo_ext\<lparr>uuid_hex := ''3f9c21000000400080000000000000ff''\<rparr>"

text \<open>A catalogue without any hospital in Kochi, the city of the demo login.\<close>

definition chennai_catalog :: catalog where
  "chennai_catalog = \<lparr>hospitals = [apollo], doctors = [dr_rao]\<rparr>"

text \<open>
  A symptom table of one phrase, and the answer of \<open>difflib.get_close_matches\<close> for words
  that share no character with that phrase: no close match.
\<close>

definition demo_symptoms :: "symptom_row list" where
  "demo_symptoms = [\<lparr>symptom = ''zzz'', department = ''Dermatology''\<rparr>]"

definition no_close_match :: "string \<Rightarrow> string list \<Rightarrow> string list" where
  "no_close_match word possibilities = []"

text \<open>
  A table of two phrases, and a matcher that accepts the first phrase the word is the
  beginning of; for the word "chest" and the phrase "chest pain" the library's similarity
  is 2 * 5 / 15, above the cutoff.
\<close>

definition demo_symptoms2 :: "symptom_row list" where
  "demo_symptoms2 =
     [\<lparr>symptom = ''Fever'', department = ''General Medicine''\<rparr>,
      \<lparr>symptom = ''Chest pain'', department = ''Cardiology''\<rparr>]"

definition prefix_match :: "string \<Rightarrow> string list \<Rightarrow> string list" where
  "prefix_match word possibilities = take 1 (filter (\<lambda>p. prefix word p) possibilities)"

text \<open>A turn on whose message the date parser finds no date.\<close>

definition no_date_ext :: ext where
  "no_date_ext = demo_ext\<lparr>parsed_date := None\<rparr>"

text \<open>A department resolver that always answers Neurology.\<close>

definition neuro_predict :: "string \<Rightarrow> string" where
  "neuro_predict t = ''Neurology''"

text \<open>Turns on whose message the date parser finds the 20th of December, and tomorrow.\<close>

definition dec20_ext :: ext where
  "dec20_ext = demo_ext\<lparr>parsed_date := Some ''2026-12-20''\<rparr>"

definition tomorrow_ext :: ext where
  "tomorrow_ext = demo_ext\<lparr>parsed_date := Some ''2026-11-05''\<rparr>"

section \<open>Basic facts\<close>

lemma set_unique: "set (unique xs) = set xs"
  by (induction xs rule: unique.induct) auto

lemma find_first:
  "find P xs = Some x \<Longrightarrow>
     P x \<and> (\<exists>pre post. xs = pre @ x # post \<and> (\<forall>y\<in>set pre. \<not> P y))"
proof (induction xs)
  case Nil
  then show ?case by simp
next
  case (Cons a xs)
  show ?case
  proof (cases "P a")
    case True
    with Cons.prems have "x = a" by simp
    with True show ?thesis
      by (intro conjI exI[of _ "[]"] exI[of _ xs]) simp_all
  next
    case False
    with Cons.prems have "find P xs = Some x" by simp
    from Cons.IH[OF this] obtain pre post
      where "P x" "xs = pre @ x # post" "\<forall>y\<in>set pre. \<not> P y" by blast
    with False show ?thesis
      by (intro conjI exI[of _ "a # pre"] exI[of _ post]) simp_all
  qed
qed

lemma record_reply_simps:
  "city (fst (record_reply p)) = city (fst p)"
  "pending_booking (fst (record_reply p)) = pending_booking (fst p)"
  "last_intent (fst (record_reply p)) = last_intent (fst p)"
  "user (fst (record_reply p)) = user (fst p)"
  "snd (record_reply p) = snd p"
  by (simp_all add: record_reply_def split: outcome.splits)

subsection \<open>No branch touches the session's city\<close>

lemma app_branch_city:
  "city (fst (app_hospital_branch cat c s)) = city s"
  "city (fst (app_doctor_branch cat c msg s)) = city s"
  "city (fst (app_symptom_branch cat predict c um s)) = city s"
  "city (fst (app_booking_branch cat u x msg s)) = city s"
  by (simp_all add: app_hospital_branch_def app_doctor_branch_def app_symptom_branch_def
        app_booking_branch_def app_store_date_def Let_def split: option.splits outcome.splits)

lemma chat_check_and_book_city:
  "city (fst (chat_check_and_book u x h d dept dt tm s)) = city s"
  by (simp add: chat_check_and_book_def split: option.splits)

lemma chat_branch_city:
  "city (fst (chat_symptom_branch cat predict reply u msg s)) = city s"
  "city (fst (chat_doctor_branch cat u msg_l s)) = city s"
  "city (fst (chat_hospital_branch cat u det s)) = city s"
  "city (fst (chat_booking_branch cat u x msg msg_l s)) = city s"
  by (simp_all add: chat_hospital_branch_def chat_doctor_branch_def chat_symptom_branch_def
        chat_booking_branch_def chat_check_and_book_city Let_def split: option.splits)

lemma chatbot_branch_city:
  "city (fst (chatbot_hospital_branch cat c s)) = city s"
  "city (fst (chatbot_doctor_branch cat c s)) = city s"
  "city (fst (chatbot_symptom_branch cat predict c um s)) = city s"
  "city (fst (chatbot_booking_branch cat u x c msg s)) = city s"
  by (simp_all add: chatbot_hospital_branch_def chatbot_doctor_branch_def
        chatbot_symptom_branch_def chatbot_booking_branch_def Let_def split: option.splits)

lemma app_enter_city:
  "city (app_enter cat m s) =
     (case detect_city (hospitals cat) (lower m) of Some c \<Rightarrow> Some c | None \<Rightarrow> city s)"
  by (simp add: app_enter_def Let_def split: option.splits)

lemma chat_enter_city:
  "city (chat_enter cat m s) =
     (case detect_city (hospitals cat) (lower (strip m)) of Some c \<Rightarrow> Some c | None \<Rightarrow> city s)"
  by (simp add: chat_enter_def Let_def split: option.splits)

lemma chatbot_enter_city:
  "city (chatbot_enter cat m s) =
     (case detect_city (hospitals cat) (lower m) of Some c \<Rightarrow> Some c | None \<Rightarrow> city s)"
  by (simp add: chatbot_enter_def Let_def split: option.splits)

lemma app_turn_city:
  "city (fst (app_turn cat predict u x m s)) = city (app_enter cat m s)"
  by (simp add: app_turn_def Let_def record_reply_simps app_branch_city)

lemma chat_turn_city:
  "city (fst (chat_turn cat predict reply u x m s)) = city (chat_enter cat m s)"
  by (simp add: chat_turn_def Let_def record_reply_simps chat_branch_city)

lemma chatbot_turn_city:
  "city (fst (chatbot_turn cat predict u x m s)) = city (chatbot_enter cat m s)"
  by (simp add: chatbot_turn_def Let_def record_reply_simps chatbot_branch_city)

section \<open>City extraction\<close>

text \<open>
  C9, as the code has it. In each of the three scripts a turn sets the session's city to
  the city found in the message and leaves it alone when none is found. The city found is
  one whose lower-cased name occurs in the message, and it is the first such city in the
  order of the hospital table: no city listed before it occurs in the message. Whenever
  the name of some city of the table occurs in the message, a city is found. The position
  of the names inside the message plays no part.
\<close>

theorem city_extraction_first_in_table_order:
  "city (fst (app_turn cat predict u x m s)) =
     (case detect_city (hospitals cat) (lower m) of Some c \<Rightarrow> Some c | None \<Rightarrow> city s) \<and>
   city (fst (chat_turn cat predict reply u x m s)) =
     (case detect_city (hospitals cat) (lower (strip m)) of
        Some c \<Rightarrow> Some c | None \<Rightarrow> city s) \<and>
   city (fst (chatbot_turn cat predict u x m s)) =
     (case detect_city (hospitals cat) (lower m) of Some c \<Rightarrow> Some c | None \<Rightarrow> city s) \<and>
   (h \<in> set (hospitals cat) \<and> py_in (lower (hosp_city h)) msg \<longrightarrow>
      detect_city (hospitals cat) msg \<noteq> None) \<and>
   (detect_city (hospitals cat) msg = Some c \<longrightarrow>
      py_in (lower c) msg \<and>
      (\<exists>pre post. unique (map hosp_city (hospitals cat)) = pre @ c # post \<and>
                  (\<forall>c'\<in>set pre. \<not> py_in (lower c') msg)))"
proof (intro conjI impI)
  show "city (fst (app_turn cat predict u x m s)) =
     (case detect_city (hospitals cat) (lower m) of Some c \<Rightarrow> Some c | None \<Rightarrow> city s)"
    by (simp add: app_turn_city app_enter_city)
  show "city (fst (chat_turn cat predict reply u x m s)) =
     (case detect_city (hospitals cat) (lower (strip m)) of
        Some c \<Rightarrow> Some c | None \<Rightarrow> city s)"
    by (simp add: chat_turn_city chat_enter_city)
  show "city (fst (chatbot_turn cat predict u x m s)) =
     (case detect_city (hospitals cat) (lower m) of Some c \<Rightarrow> Some c | None \<Rightarrow> city s)"
    by (simp add: chatbot_turn_city chatbot_enter_city)
next
  assume "h \<in> set (hospitals cat) \<and> py_in (lower (hosp_city h)) msg"
  then have "hosp_city h \<in> set (unique (map hosp_city (hospitals cat)))"
    and "py_in (lower (hosp_city h)) msg"
    by (simp_all add: set_unique)
  then show "detect_city (hospitals cat) msg \<noteq> None"
    unfolding detect_city_def find_None_iff by blast
next
  assume a: "detect_city (hospitals cat) msg = Some c"
  from find_first[OF a[unfolded detect_city_def]]
  show "py_in (lower c) msg" by blast
next
  assume a: "detect_city (hospitals cat) msg = Some c"
  from find_first[OF a[unfolded detect_city_def]]
  show "\<exists>pre post. unique (map hosp_city (hospitals cat)) = pre @ c # post \<and>
                  (\<forall>c'\<in>set pre. \<not> py_in (lower c') msg)" by blast
qed

theorem city_extraction_first_in_table_order_witness:
  "detect_city (hospitals demo_catalog) (lower ''from Chennai to Kochi'') = Some ''Kochi'' \<and>
   py_in (lower ''Kochi'') (lower ''from Chennai to Kochi'') \<and>
   (\<exists>pre post. unique (map hosp_city (hospitals demo_catalog)) = pre @ ''Kochi'' # post \<and>
               (\<forall>c'\<in>set pre. \<not> py_in (lower c') (lower ''from Chennai to Kochi''))) \<and>
   city (fst (app_turn demo_catalog (\<lambda>t. ''General Medicine'') demo_user demo_ext
                ''from Chennai to Kochi'' demo_session)) = Some ''Kochi''"
proof -
  have d: "detect_city (hospitals demo_catalog) (lower ''from Chennai to Kochi'') = Some ''Kochi''"
    by code_simp
  have h: "hd (hospitals demo_catalog) \<in> set (hospitals demo_catalog) \<and>
           py_in (lower (hosp_city (hd (hospitals demo_catalog)))) (lower ''from Chennai to Kochi'')"
    by code_simp
  from city_extraction_first_in_table_order
         [of demo_catalog "\<lambda>t. ''General Medicine''" demo_user demo_ext
            "''from Chennai to Kochi''" demo_session "\<lambda>t. t" "hd (hospitals demo_catalog)" "lower ''from Chennai to Kochi''"
            "''Kochi''"]
  show ?thesis using d h by simp
qed

text \<open>
  The message names Kochi first and Chennai last; Chennai is the last-mentioned city, and
  the turn of each script sets the session's city to Kochi, the first of the two in the
  hospital table.
\<close>

theorem last_mentioned_city_counterexample:
  "py_in (lower ''Kochi'') (lower ''from Kochi to Chennai'') \<and>
   suffix (lower ''Chennai'') (lower ''from Kochi to Chennai'') \<and>
   city (fst (app_turn demo_catalog (\<lambda>t. ''General Medicine'') demo_user demo_ext
                ''from Kochi to Chennai'' demo_session)) = Some ''Kochi'' \<and>
   city (fst (chat_turn demo_catalog (\<lambda>t. ''General Medicine'') (\<lambda>t. t) demo_user demo_ext
                ''from Kochi to Chennai'' demo_session)) = Some ''Kochi'' \<and>
   city (fst (chatbot_turn demo_catalog (\<lambda>t. ''General Medicine'') demo_user demo_ext
                ''from Kochi to Chennai'' demo_session)) = Some ''Kochi''"
  by code_simp

lemma enter_frame:
  "pending_booking (app_enter cat m s) = pending_booking s"
  "last_intent (app_enter cat m s) = last_intent s"
  "user (app_enter cat m s) = user s"
  "chat_history (app_enter cat m s) = chat_history s @ [User_msg m]"
  "pending_booking (chatbot_enter cat m s) = pending_booking s"
  "last_intent (chatbot_enter cat m s) = last_intent s"
  "user (chatbot_enter cat m s) = user s"
  "chat_history (chatbot_enter cat m s) = chat_history s @ [User_msg m]"
  "pending_booking (chat_enter cat m s) = pending_booking s"
  "last_intent (chat_enter cat m s) = last_intent s"
  "user (chat_enter cat m s) = user s"
  "chat_history (chat_enter cat m s) = chat_history s @ [User_msg (strip m)]"
  by (simp_all add: app_enter_def chatbot_enter_def chat_enter_def Let_def split: option.splits)

section \<open>A booking message with no pending slots\<close>

text \<open>
  C10, as the code has it. In \<open>app.py\<close> and \<open>chatbot.py\<close> a booking-intent turn that
  arrives while \<open>pending_booking\<close> is empty creates no booking and asks for no slot: it
  gets the fixed help text. The session changes in its chat history (the message and the
  help text are appended), in its last intent (now "unknown") and in its city, which
  becomes the city found in the message when there is one; nothing else changes.
\<close>

theorem booking_without_slots_gets_help:
  assumes "pending_booking s = []"
  shows "(app_intent (lower m) (last_intent s) = Booking \<longrightarrow>
           app_turn cat predict u x m s =
             (s\<lparr>chat_history := chat_history s @ [User_msg m, Assistant_msg Help],
                city := (case detect_city (hospitals cat) (lower m) of
                           Some c \<Rightarrow> Some c | None \<Rightarrow> city s),
                last_intent := Some Unknown\<rparr>,
              Reply Help None)) \<and>
         (chatbot_intent (lower m) (last_intent s) = Booking \<longrightarrow>
           chatbot_turn cat predict u x m s =
             (s\<lparr>chat_history := chat_history s @ [User_msg m, Assistant_msg Help],
                city := (case detect_city (hospitals cat) (lower m) of
                           Some c \<Rightarrow> Some c | None \<Rightarrow> city s),
                last_intent := Some Unknown\<rparr>,
              Reply Help None))"
proof (intro conjI impI)
  assume i: "app_intent (lower m) (last_intent s) = Booking"
  have "app_turn cat predict u x m s =
          record_reply ((app_enter cat m s)\<lparr>last_intent := Some Unknown\<rparr>, Reply Help None)"
    using assms i by (simp add: app_turn_def Let_def enter_frame)
  then show "app_turn cat predict u x m s =
             (s\<lparr>chat_history := chat_history s @ [User_msg m, Assistant_msg Help],
                city := (case detect_city (hospitals cat) (lower m) of
                           Some c \<Rightarrow> Some c | None \<Rightarrow> city s),
                last_intent := Some Unknown\<rparr>,
              Reply Help None)"
    by (simp add: record_reply_def app_enter_def Let_def split: option.splits)
next
  assume i: "chatbot_intent (lower m) (last_intent s) = Booking"
  have "chatbot_turn cat predict u x m s =
          record_reply ((chatbot_enter cat m s)\<lparr>last_intent := Some Unknown\<rparr>, Reply Help None)"
    using assms i by (simp add: chatbot_turn_def Let_def enter_frame)
  then show "chatbot_turn cat predict u x m s =
             (s\<lparr>chat_history := chat_history s @ [User_msg m, Assistant_msg Help],
                city := (case detect_city (hospitals cat) (lower m) of
                           Some c \<Rightarrow> Some c | None \<Rightarrow> city s),
                last_intent := Some Unknown\<rparr>,
              Reply Help None)"
    by (simp add: record_reply_def chatbot_enter_def Let_def split: option.splits)
qed

theorem booking_without_slots_gets_help_witness:
  "pending_booking fresh_session = [] \<and>
   app_intent (lower ''book an appointment'') (last_intent fresh_session) = Booking \<and>
   chatbot_intent (lower ''book an appointment'') (last_intent fresh_session) = Booking \<and>
   app_turn demo_catalog (\<lambda>t. ''General Medicine'') demo_user demo_ext ''book an appointment''
       fresh_session =
     (fresh_session\<lparr>chat_history := [User_msg ''book an appointment'', Assistant_msg Help],
                     last_intent := Some Unknown\<rparr>, Reply Help None) \<and>
   chatbot_turn demo_catalog (\<lambda>t. ''General Medicine'') demo_user demo_ext
       ''book an appointment'' fresh_session =
     (fresh_session\<lparr>chat_history := [User_msg ''book an appointment'', Assistant_msg Help],
                     last_intent := Some Unknown\<rparr>, Reply Help None)"
proof -
  have p: "pending_booking fresh_session = []" by code_simp
  have a: "app_intent (lower ''book an appointment'') (last_intent fresh_session) = Booking"
    by code_simp
  have b: "chatbot_intent (lower ''book an appointment'') (last_intent fresh_session) = Booking"
    by code_simp
  have d: "detect_city (hospitals demo_catalog) (lower ''book an appointment'') = None"
    by code_simp
  have c: "city fresh_session = None" "chat_history fresh_session = []" by code_simp+
  from booking_without_slots_gets_help[OF p, of "''book an appointment''" demo_catalog
         "\<lambda>t. ''General Medicine''" demo_user demo_ext]
  show ?thesis using p a b d c by simp
qed

text \<open>
  The claim as stated excludes a change of the city: here the session's city is \<open>None\<close>
  before the turn and Kochi after it, although the turn only answers with the help text.
\<close>

theorem help_turn_changes_city_counterexample:
  "pending_booking fresh_session = [] \<and>
   app_intent (lower ''book in Kochi'') (last_intent fresh_session) = Booking \<and>
   snd (app_turn demo_catalog (\<lambda>t. ''General Medicine'') demo_user demo_ext ''book in Kochi''
          fresh_session) = Reply Help None \<and>
   city fresh_session = None \<and>
   city (fst (app_turn demo_catalog (\<lambda>t. ''General Medicine'') demo_user demo_ext
                ''book in Kochi'' fresh_session)) = Some ''Kochi''"
  by code_simp

subsection \<open>The highest-rated hospital and the first doctor\<close>

lemma set_insert_desc: "set (insert_desc h xs) = insert h (set xs)"
  by (induction xs) auto

lemma set_sort_values: "set (sort_values_rating_desc hs) = set hs"
  by (induction hs) (simp_all add: sort_values_rating_desc_def set_insert_desc)

lemma sorted_insert_desc:
  "sorted_wrt (\<lambda>a b. rating b \<le> rating a) xs \<Longrightarrow>
     sorted_wrt (\<lambda>a b. rating b \<le> rating a) (insert_desc h xs)"
  by (induction xs) (auto simp: set_insert_desc)

lemma sorted_sort_values:
  "sorted_wrt (\<lambda>a b. rating b \<le> rating a) (sort_values_rating_desc hs)"
  by (induction hs) (simp_all add: sort_values_rating_desc_def sorted_insert_desc)

lemma top_hospital_max:
  assumes "top_hospital hosp = Some t"
  shows "t \<in> set hosp \<and> (\<forall>h\<in>set hosp. rating h \<le> rating t)"
proof -
  from assms obtain rest where r: "sort_values_rating_desc hosp = t # rest"
    by (auto simp: top_hospital_def split: list.splits)
  have "set hosp = insert t (set rest)"
    using set_sort_values[of hosp] r by simp
  moreover have "\<forall>h\<in>set rest. rating h \<le> rating t"
    using sorted_sort_values[of hosp] r by simp
  ultimately show ?thesis by auto
qed


lemma top_hospital_nonempty: "top_hospital hosp = Some t \<Longrightarrow> hosp \<noteq> []"
  using top_hospital_max by fastforce


subsection \<open>Reaching the availability check\<close>

lemma app_date_enter:
  "app_date_str x (app_enter cat m s) = app_date_str x s"
  "pending_booking (app_store_date x s) =
     (case parsed_date x of Some d \<Rightarrow> AList.update ''date'' d (pending_booking s)
      | None \<Rightarrow> pending_booking s)"
  by (simp_all add: app_date_str_def app_store_date_def enter_frame split: option.splits)

lemma app_turn_booking:
  assumes "app_intent (lower m) (last_intent s) = Booking"
    and "pending_booking s \<noteq> []"
  shows "app_turn cat predict u x m s =
           record_reply (app_booking_branch cat u x (lower m) (app_enter cat m s))"
  using assms by (simp add: app_turn_def Let_def enter_frame)

lemma app_booking_branch_check:
  assumes "map_of (pending_booking s) ''city'' = Some c"
    and "map_of (pending_booking s) ''department'' = Some d"
    and "top_hospital (hospitals_for (hospitals cat) c d) = Some t"
    and "first_doctor (doctors cat) t d = Some doc"
  shows "app_booking_branch cat u x msg s =
           (case app_check_and_book u x t doc d (app_date_str x s) (app_time_str msg) of
              Raised e \<Rightarrow> (app_store_date x s, Raised e)
            | Reply r b \<Rightarrow> ((app_store_date x s)\<lparr>last_intent := Some Booking\<rparr>, Reply r b))"
  using assms top_hospital_nonempty[OF assms(3)]
  by (simp add: app_booking_branch_def Let_def)

lemma app_turn_check:
  assumes "app_intent (lower m) (last_intent s) = Booking"
    and "map_of (pending_booking s) ''city'' = Some c"
    and "map_of (pending_booking s) ''department'' = Some d"
    and "top_hospital (hospitals_for (hospitals cat) c d) = Some t"
    and "first_doctor (doctors cat) t d = Some doc"
  shows "snd (app_turn cat predict u x m s) =
           app_check_and_book u x t doc d (app_date_str x s) (app_time_str (lower m))"
    and "pending_booking (fst (app_turn cat predict u x m s)) =
           (case parsed_date x of Some dt \<Rightarrow> AList.update ''date'' dt (pending_booking s)
            | None \<Rightarrow> pending_booking s)"
proof -
  have ne: "pending_booking s \<noteq> []" using assms(2) by auto
  have b: "app_booking_branch cat u x (lower m) (app_enter cat m s) =
           (case app_check_and_book u x t doc d (app_date_str x s) (app_time_str (lower m)) of
              Raised e \<Rightarrow> (app_store_date x (app_enter cat m s), Raised e)
            | Reply r b \<Rightarrow> ((app_store_date x (app_enter cat m s))\<lparr>last_intent := Some Booking\<rparr>,
                            Reply r b))"
    using app_booking_branch_check[of "app_enter cat m s" c d cat t doc u x "lower m"] assms
    by (simp add: enter_frame app_date_enter)
  show "snd (app_turn cat predict u x m s) =
           app_check_and_book u x t doc d (app_date_str x s) (app_time_str (lower m))"
    unfolding app_turn_booking[OF assms(1) ne] b
    by (simp add: record_reply_simps split: outcome.splits)
  show "pending_booking (fst (app_turn cat predict u x m s)) =
           (case parsed_date x of Some dt \<Rightarrow> AList.update ''date'' dt (pending_booking s)
            | None \<Rightarrow> pending_booking s)"
    unfolding app_turn_booking[OF assms(1) ne] b
    by (simp add: record_reply_simps app_date_enter enter_frame split: outcome.splits option.splits)
qed

lemma chat_booking_info_enter:
  "chat_booking_info hs msg_l (chat_enter cat m s) = chat_booking_info hs msg_l s"
  by (simp add: chat_booking_info_def enter_frame)

lemma chat_turn_booking:
  assumes "chat_intent (lower (strip m)) = Booking"
  shows "chat_turn cat predict reply u x m s =
           record_reply (chat_booking_branch cat u x (strip m) (lower (strip m)) (chat_enter cat m s))"
  using assms by (simp add: chat_turn_def Let_def)

lemma chat_booking_branch_check:
  assumes "map_of (chat_booking_info (hospitals cat) msg_l s) ''department'' = Some d"
    and "d \<noteq> []"
    and "chat_city_search (hospitals cat) u msg_l s = c"
    and "c \<noteq> []"
    and "hospitals_for (hospitals cat) c d \<noteq> []"
    and "chat_chosen (hospitals cat) msg_l (hospitals_for (hospitals cat) c d) = Some t"
    and "first_doctor (doctors cat) t d = Some doc"
    and "parsed_date x = Some dt"
    and "chat_parsed_time msg = Some ts"
  shows "chat_booking_branch cat u x msg msg_l s = chat_check_and_book u x t doc d dt ts s"
  using assms by (simp add: chat_booking_branch_def Let_def truthy_def)

lemma chat_turn_check:
  assumes "chat_intent (lower (strip m)) = Booking"
    and "map_of (chat_booking_info (hospitals cat) (lower (strip m)) s) ''department'' = Some d"
    and "d \<noteq> []"
    and "chat_city_search (hospitals cat) u (lower (strip m)) (chat_enter cat m s) = c"
    and "c \<noteq> []"
    and "hospitals_for (hospitals cat) c d \<noteq> []"
    and "chat_chosen (hospitals cat) (lower (strip m)) (hospitals_for (hospitals cat) c d) = Some t"
    and "first_doctor (doctors cat) t d = Some doc"
    and "parsed_date x = Some dt"
    and "chat_parsed_time (strip m) = Some ts"
  shows "chat_turn cat predict reply u x m s =
           record_reply (chat_check_and_book u x t doc d dt ts (chat_enter cat m s))"
  unfolding chat_turn_booking[OF assms(1)]
  using chat_booking_branch_check[of cat "lower (strip m)" "chat_enter cat m s" d u c t doc x dt
          "strip m" ts] assms
  by (simp add: chat_booking_info_enter)

lemma map_of_store_date:
  "k \<noteq> ''date'' \<Longrightarrow>
     map_of (case pd of Some dt \<Rightarrow> AList.update ''date'' dt p | None \<Rightarrow> p) k = map_of p k"
  by (simp add: update_conv' split: option.splits)

section \<open>A requested time outside the doctor's window\<close>

lemma app_turn_selects:
  assumes "app_intent (lower m) (last_intent s) = Booking"
    and "map_of (pending_booking s) ''city'' = Some c"
    and "map_of (pending_booking s) ''department'' = Some d"
    and "top_hospital (hospitals_for (hospitals cat) c d) = Some t"
  shows "snd (app_turn cat predict u x m s) =
           (case first_doctor (doctors cat) t d of
              None \<Rightarrow> Raised IndexError
            | Some doc \<Rightarrow>
                app_check_and_book u x t doc d (app_date_str x s) (app_time_str (lower m)))"
proof (cases "first_doctor (doctors cat) t d")
  case None
  have ne: "pending_booking s \<noteq> []" using assms(2) by auto
  show ?thesis
    unfolding app_turn_booking[OF assms(1) ne]
    using assms None top_hospital_nonempty[OF assms(4)]
    by (simp add: record_reply_simps app_booking_branch_def Let_def enter_frame)
next
  case (Some doc)
  then show ?thesis
    using app_turn_check(1)[OF assms Some, of predict u x] by simp
qed

lemma chatbot_turn_selects:
  assumes "chatbot_intent (lower m) (last_intent s) = Booking"
    and "map_of (pending_booking s) ''department'' = Some d"
    and "top_hospital (hospitals_for (hospitals cat) (chatbot_city cat u m) d) = Some t"
  shows "snd (chatbot_turn cat predict u x m s) =
           (case first_doctor (doctors cat) t d of
              None \<Rightarrow> Raised IndexError
            | Some doc \<Rightarrow>
                Reply (Booked (doctor_name doc) (hospital_name t)
                         (case parsed_date x of Some dt \<Rightarrow> dt | None \<Rightarrow> today x)
                         (chatbot_time_str (lower m)))
                  (Some \<lparr>b_id = new_booking_id x, b_patient = user_name u,
                          b_age = Some (user_age u), b_gender = Some (user_gender u),
                          b_hospital = hospital_name t, b_department = d,
                          b_doctor = doctor_name doc,
                          b_date = (case parsed_date x of Some dt \<Rightarrow> dt | None \<Rightarrow> today x),
                          b_time = chatbot_time_str (lower m)\<rparr>))"
proof -
  have ne: "pending_booking s \<noteq> []" using assms(2) by auto
  show ?thesis
    using assms ne top_hospital_nonempty[OF assms(3)]
    by (simp add: chatbot_turn_def Let_def enter_frame record_reply_simps
          chatbot_booking_branch_def split: option.splits)
qed

lemma chat_turn_selects:
  assumes "chat_intent (lower (strip m)) = Booking"
    and "map_of (chat_booking_info (hospitals cat) (lower (strip m)) s) ''department'' = Some d"
    and "d \<noteq> []"
    and "chat_city_search (hospitals cat) u (lower (strip m)) (chat_enter cat m s) = c"
    and "c \<noteq> []"
    and "chat_selected_hospital (hospitals cat) (lower (strip m)) = None"
    and "top_hospital (hospitals_for (hospitals cat) c d) = Some t"
  shows "snd (chat_turn cat predict reply u x m s) =
           (case first_doctor (doctors cat) t d of
              None \<Rightarrow> Reply (No_doctors_listed d (hospital_name t)) None
            | Some doc \<Rightarrow>
                if parsed_date x = None \<or> chat_parsed_time (strip m) = None
                then Reply (Ask_missing
                              ((if parsed_date x = None then [''date''] else []) @
                               (if chat_parsed_time (strip m) = None then [''time''] else [])))
                       None
                else snd (chat_check_and_book u x t doc d (the (parsed_date x))
                            (the (chat_parsed_time (strip m))) (chat_enter cat m s)))"
  unfolding chat_turn_booking[OF assms(1)]
  using assms top_hospital_nonempty[OF assms(7)]
  by (auto simp: record_reply_simps chat_booking_branch_def Let_def truthy_def
        chat_booking_info_enter chat_chosen_def split: option.splits)

lemma chat_turn_chosen:
  assumes "chat_intent (lower (strip m)) = Booking"
    and "map_of (chat_booking_info (hospitals cat) (lower (strip m)) s) ''department'' = Some d"
    and "d \<noteq> []"
    and "chat_city_search (hospitals cat) u (lower (strip m)) (chat_enter cat m s) = c"
    and "c \<noteq> []"
    and "hospitals_for (hospitals cat) c d \<noteq> []"
    and "chat_chosen (hospitals cat) (lower (strip m)) (hospitals_for (hospitals cat) c d) =
           Some t"
  shows "snd (chat_turn cat predict reply u x m s) =
           (case first_doctor (doctors cat) t d of
              None \<Rightarrow> Reply (No_doctors_listed d (hospital_name t)) None
            | Some doc \<Rightarrow>
                if parsed_date x = None \<or> chat_parsed_time (strip m) = None
                then Reply (Ask_missing
                              ((if parsed_date x = None then [''date''] else []) @
                               (if chat_parsed_time (strip m) = None then [''time''] else [])))
                       None
                else snd (chat_check_and_book u x t doc d (the (parsed_date x))
                            (the (chat_parsed_time (strip m))) (chat_enter cat m s)))"
  unfolding chat_turn_booking[OF assms(1)]
  using assms
  by (auto simp: record_reply_simps chat_booking_branch_def Let_def truthy_def
        chat_booking_info_enter split: option.splits)

lemma chatbot_turn_no_hospital:
  assumes "chatbot_intent (lower m) (last_intent s) = Booking"
    and "map_of (pending_booking s) ''department'' = Some d"
    and "hospitals_for (hospitals cat) (chatbot_city cat u m) d = []"
  shows "snd (chatbot_turn cat predict u x m s) = Reply Empty_response None"
proof -
  have ne: "pending_booking s \<noteq> []" using assms(2) by auto
  show ?thesis
    using assms ne
    by (simp add: chatbot_turn_def Let_def enter_frame record_reply_simps
          chatbot_booking_branch_def)
qed

lemma app_time_search_first_digit:
  "\<forall>ch\<in>set pre. \<not> is_digit ch \<Longrightarrow> is_digit a \<Longrightarrow>
     app_time_search (pre @ a # r) = Some (app_match_at (a # r))"
  by (induction pre) simp_all

lemma chat_time_search_first_digit:
  "\<forall>ch\<in>set pre. \<not> is_digit ch \<Longrightarrow> is_digit a \<Longrightarrow>
     chat_time_search (pre @ a # r) = Some (chat_match_at (a # r))"
  by (induction pre) simp_all

lemma chat_check_and_book_except:
  assumes "strptime_HM (start_time doc) = None \<or> strptime_HM (end_time doc) = None \<or>
           strptime_HM ts = None"
  shows "chat_check_and_book u x t doc d dt ts s =
           (s, Reply (Booked (doctor_name doc) (hospital_name t) dt ts)
                 (Some \<lparr>b_id = new_booking_id x, b_patient = user_name u,
                         b_age = None, b_gender = None,
                         b_hospital = hospital_name t, b_department = d,
                         b_doctor = doctor_name doc, b_date = dt, b_time = ts\<rparr>))"
  using assms by (auto simp: chat_check_and_book_def split: option.splits)

text \<open>
  C1, as the code has it. The requested time of a turn is the time string the script
  extracts from the message: \<open>app.py\<close> and \<open>chat.py\<close> match their time pattern at the
  first digit of the message, whatever that number stands for. In \<open>app.py\<close> and
  \<open>chat.py\<close>, when a booking turn reaches the availability check with a doctor whose
  start and end times parse and an extracted time that parses and lies outside
  [start, end], the turn creates no booking record and replies with the doctor's name and
  the two boundaries in twelve-hour format. The department and city slots stay as they
  were (\<open>chat.py\<close> leaves the whole mapping untouched; \<open>app.py\<close> may add the parsed
  date). \<open>chatbot.py\<close> makes no availability check: whenever its booking turn finds a
  hospital and a doctor it creates a booking record at its extracted time, whatever the
  doctor's window. \<open>chat.py\<close> creates the booking record without the check, and without
  age and gender, when one of the three times does not parse; the mapping stays as it was.
\<close>

theorem outside_window_no_booking:
  "(app_intent (lower m) (last_intent s) = Booking \<and>
    map_of (pending_booking s) ''city'' = Some c \<and>
    map_of (pending_booking s) ''department'' = Some d \<and>
    top_hospital (hospitals_for (hospitals cat) c d) = Some t \<and>
    first_doctor (doctors cat) t d = Some doc \<and>
    strptime_HM (start_time doc) = Some start_t \<and>
    strptime_HM (end_time doc) = Some end_t \<and>
    strptime_HM (app_time_str (lower m)) = Some req \<and>
    \<not> in_window start_t req end_t \<longrightarrow>
      snd (app_turn cat predict u x m s) =
        Reply (Outside_window (doctor_name doc) (strftime_IMp start_t) (strftime_IMp end_t))
          None \<and>
      map_of (pending_booking (fst (app_turn cat predict u x m s))) ''city'' = Some c \<and>
      map_of (pending_booking (fst (app_turn cat predict u x m s))) ''department'' = Some d \<and>
      pending_booking (fst (app_turn cat predict u x m s)) =
        (case parsed_date x of Some dt \<Rightarrow> AList.update ''date'' dt (pending_booking s)
         | None \<Rightarrow> pending_booking s)) \<and>
   (chat_intent (lower (strip m)) = Booking \<and>
    map_of (chat_booking_info (hospitals cat) (lower (strip m)) s) ''department'' = Some d \<and>
    d \<noteq> [] \<and>
    chat_city_search (hospitals cat) u (lower (strip m)) (chat_enter cat m s) = c \<and>
    c \<noteq> [] \<and>
    hospitals_for (hospitals cat) c d \<noteq> [] \<and>
    chat_chosen (hospitals cat) (lower (strip m)) (hospitals_for (hospitals cat) c d) = Some t \<and>
    first_doctor (doctors cat) t d = Some doc \<and>
    parsed_date x = Some dt \<and>
    chat_parsed_time (strip m) = Some ts \<and>
    strptime_HM (start_time doc) = Some start_t \<and>
    strptime_HM (end_time doc) = Some end_t \<and>
    strptime_HM ts = Some req \<and>
    \<not> in_window start_t req end_t \<longrightarrow>
      snd (chat_turn cat predict reply u x m s) =
        Reply (Outside_window (doctor_name doc) (strftime_IMp start_t) (strftime_IMp end_t))
          None \<and>
      pending_booking (fst (chat_turn cat predict reply u x m s)) = pending_booking s) \<and>
   (chatbot_intent (lower m) (last_intent s) = Booking \<and>
    map_of (pending_booking s) ''department'' = Some d \<and>
    top_hospital (hospitals_for (hospitals cat) (chatbot_city cat u m) d) = Some t \<and>
    first_doctor (doctors cat) t d = Some doc \<longrightarrow>
      snd (chatbot_turn cat predict u x m s) =
        Reply (Booked (doctor_name doc) (hospital_name t)
                 (case parsed_date x of Some dt \<Rightarrow> dt | None \<Rightarrow> today x)
                 (chatbot_time_str (lower m)))
          (Some \<lparr>b_id = new_booking_id x, b_patient = user_name u,
                  b_age = Some (user_age u), b_gender = Some (user_gender u),
                  b_hospital = hospital_name t, b_department = d,
                  b_doctor = doctor_name doc,
                  b_date = (case parsed_date x of Some dt \<Rightarrow> dt | None \<Rightarrow> today x),
                  b_time = chatbot_time_str (lower m)\<rparr>)) \<and>
   (chat_intent (lower (strip m)) = Booking \<and>
    map_of (chat_booking_info (hospitals cat) (lower (strip m)) s) ''department'' = Some d \<and>
    d \<noteq> [] \<and>
    chat_city_search (hospitals cat) u (lower (strip m)) (chat_enter cat m s) = c \<and>
    c \<noteq> [] \<and>
    hospitals_for (hospitals cat) c d \<noteq> [] \<and>
    chat_chosen (hospitals cat) (lower (strip m)) (hospitals_for (hospitals cat) c d) = Some t \<and>
    first_doctor (doctors cat) t d = Some doc \<and>
    parsed_date x = Some dt \<and>
    chat_parsed_time (strip m) = Some ts \<and>
    (strptime_HM (start_time doc) = None \<or> strptime_HM (end_time doc) = None \<or>
     strptime_HM ts = None) \<longrightarrow>
      snd (chat_turn cat predict reply u x m s) =
        Reply (Booked (doctor_name doc) (hospital_name t) dt ts)
          (Some \<lparr>b_id = new_booking_id x, b_patient = user_name u,
                  b_age = None, b_gender = None,
                  b_hospital = hospital_name t, b_department = d,
                  b_doctor = doctor_name doc, b_date = dt, b_time = ts\<rparr>) \<and>
      pending_booking (fst (chat_turn cat predict reply u x m s)) = pending_booking s) \<and>
   ((\<forall>ch\<in>set pre. \<not> is_digit ch) \<and> is_digit a \<longrightarrow>
      app_time_search (pre @ a # r) = Some (app_match_at (a # r)) \<and>
      chat_time_search (pre @ a # r) = Some (chat_match_at (a # r)))"
proof (intro conjI impI)
  assume a: "app_intent (lower m) (last_intent s) = Booking \<and>
    map_of (pending_booking s) ''city'' = Some c \<and>
    map_of (pending_booking s) ''department'' = Some d \<and>
    top_hospital (hospitals_for (hospitals cat) c d) = Some t \<and>
    first_doctor (doctors cat) t d = Some doc \<and>
    strptime_HM (start_time doc) = Some start_t \<and>
    strptime_HM (end_time doc) = Some end_t \<and>
    strptime_HM (app_time_str (lower m)) = Some req \<and>
    \<not> in_window start_t req end_t"
  then have t: "snd (app_turn cat predict u x m s) =
           app_check_and_book u x t doc d (app_date_str x s) (app_time_str (lower m))"
    and p: "pending_booking (fst (app_turn cat predict u x m s)) =
           (case parsed_date x of Some dt \<Rightarrow> AList.update ''date'' dt (pending_booking s)
            | None \<Rightarrow> pending_booking s)"
    using app_turn_check[of m s c d cat t doc predict u x] by simp_all
  show "snd (app_turn cat predict u x m s) =
          Reply (Outside_window (doctor_name doc) (strftime_IMp start_t) (strftime_IMp end_t))
            None"
    using a by (simp add: t app_check_and_book_def)
  show "map_of (pending_booking (fst (app_turn cat predict u x m s))) ''city'' = Some c"
    using a by (simp add: p map_of_store_date)
  show "map_of (pending_booking (fst (app_turn cat predict u x m s))) ''department'' = Some d"
    using a by (simp add: p map_of_store_date)
  show "pending_booking (fst (app_turn cat predict u x m s)) =
        (case parsed_date x of Some dt \<Rightarrow> AList.update ''date'' dt (pending_booking s)
         | None \<Rightarrow> pending_booking s)"
    by (rule p)
next
  assume a: "chat_intent (lower (strip m)) = Booking \<and>
    map_of (chat_booking_info (hospitals cat) (lower (strip m)) s) ''department'' = Some d \<and>
    d \<noteq> [] \<and>
    chat_city_search (hospitals cat) u (lower (strip m)) (chat_enter cat m s) = c \<and>
    c \<noteq> [] \<and>
    hospitals_for (hospitals cat) c d \<noteq> [] \<and>
    chat_chosen (hospitals cat) (lower (strip m)) (hospitals_for (hospitals cat) c d) = Some t \<and>
    first_doctor (doctors cat) t d = Some doc \<and>
    parsed_date x = Some dt \<and>
    chat_parsed_time (strip m) = Some ts \<and>
    strptime_HM (start_time doc) = Some start_t \<and>
    strptime_HM (end_time doc) = Some end_t \<and>
    strptime_HM ts = Some req \<and>
    \<not> in_window start_t req end_t"
  then have t: "chat_turn cat predict reply u x m s =
           record_reply (chat_check_and_book u x t doc d dt ts (chat_enter cat m s))"
    using chat_turn_check[of m cat s d u c t doc x dt ts predict reply] by simp
  show "snd (chat_turn cat predict reply u x m s) =
          Reply (Outside_window (doctor_name doc) (strftime_IMp start_t) (strftime_IMp end_t))
            None"
    using a by (simp add: t record_reply_simps chat_check_and_book_def)
  show "pending_booking (fst (chat_turn cat predict reply u x m s)) = pending_booking s"
    using a by (simp add: t record_reply_simps chat_check_and_book_def enter_frame)
next
  assume a: "chatbot_intent (lower m) (last_intent s) = Booking \<and>
    map_of (pending_booking s) ''department'' = Some d \<and>
    top_hospital (hospitals_for (hospitals cat) (chatbot_city cat u m) d) = Some t \<and>
    first_doctor (doctors cat) t d = Some doc"
  then show "snd (chatbot_turn cat predict u x m s) =
        Reply (Booked (doctor_name doc) (hospital_name t)
                 (case parsed_date x of Some dt \<Rightarrow> dt | None \<Rightarrow> today x)
                 (chatbot_time_str (lower m)))
          (Some \<lparr>b_id = new_booking_id x, b_patient = user_name u,
                  b_age = Some (user_age u), b_gender = Some (user_gender u),
                  b_hospital = hospital_name t, b_department = d,
                  b_doctor = doctor_name doc,
                  b_date = (case parsed_date x of Some dt \<Rightarrow> dt | None \<Rightarrow> today x),
                  b_time = chatbot_time_str (lower m)\<rparr>)"
    using chatbot_turn_selects[of m s d cat u t predict x] by simp
next
  assume a: "chat_intent (lower (strip m)) = Booking \<and>
    map_of (chat_booking_info (hospitals cat) (lower (strip m)) s) ''department'' = Some d \<and>
    d \<noteq> [] \<and>
    chat_city_search (hospitals cat) u (lower (strip m)) (chat_enter cat m s) = c \<and>
    c \<noteq> [] \<and>
    hospitals_for (hospitals cat) c d \<noteq> [] \<and>
    chat_chosen (hospitals cat) (lower (strip m)) (hospitals_for (hospitals cat) c d) = Some t \<and>
    first_doctor (doctors cat) t d = Some doc \<and>
    parsed_date x = Some dt \<and>
    chat_parsed_time (strip m) = Some ts \<and>
    (strptime_HM (start_time doc) = None \<or> strptime_HM (end_time doc) = None \<or>
     strptime_HM ts = None)"
  then have t: "chat_turn cat predict reply u x m s =
           record_reply (chat_check_and_book u x t doc d dt ts (chat_enter cat m s))"
    using chat_turn_check[of m cat s d u c t doc x dt ts predict reply] by simp
  from a have e: "strptime_HM (start_time doc) = None \<or> strptime_HM (end_time doc) = None \<or>
     strptime_HM ts = None" by simp
  show "snd (chat_turn cat predict reply u x m s) =
        Reply (Booked (doctor_name doc) (hospital_name t) dt ts)
          (Some \<lparr>b_id = new_booking_id x, b_patient = user_name u,
                  b_age = None, b_gender = None,
                  b_hospital = hospital_name t, b_department = d,
                  b_doctor = doctor_name doc, b_date = dt, b_time = ts\<rparr>)"
    by (simp add: t record_reply_simps chat_check_and_book_except[OF e])
  show "pending_booking (fst (chat_turn cat predict reply u x m s)) = pending_booking s"
    by (simp add: t record_reply_simps chat_check_and_book_except[OF e] enter_frame)
next
  assume "(\<forall>ch\<in>set pre. \<not> is_digit ch) \<and> is_digit a"
  then show "app_time_search (pre @ a # r) = Some (app_match_at (a # r))"
    and "chat_time_search (pre @ a # r) = Some (chat_match_at (a # r))"
    by (simp_all add: app_time_search_first_digit chat_time_search_first_digit)
qed

theorem outside_window_no_booking_witness:
  "strptime_HM (start_time dr_nair) = Some (9, 0) \<and>
   strptime_HM (end_time dr_nair) = Some (17, 0) \<and>
   strptime_HM (app_time_str (lower ''book at 11pm'')) = Some (23, 0) \<and>
   \<not> in_window (9, 0) (23, 0) (17, 0) \<and>
   snd (app_turn demo_catalog demo_predict demo_user no_date_ext ''book at 11pm''
          demo_session) =
     Reply (Outside_window ''Dr. Nair'' ''09:00 AM'' ''05:00 PM'') None \<and>
   map_of (pending_booking (fst (app_turn demo_catalog demo_predict demo_user no_date_ext
                                   ''book at 11pm'' demo_session))) ''department'' =
     Some ''Cardiology'' \<and>
   map_of (pending_booking (fst (app_turn demo_catalog demo_predict demo_user no_date_ext
                                   ''book at 11pm'' demo_session))) ''city'' =
     Some ''Kochi'' \<and>
   chat_parsed_time (strip ''book at 8 pm on dec 15'') = Some ''20:00'' \<and>
   \<not> in_window (9, 0) (20, 0) (17, 0) \<and>
   snd (chat_turn demo_catalog demo_predict demo_reply demo_user demo_ext
          ''book at 8 pm on dec 15'' demo_session) =
     Reply (Outside_window ''Dr. Nair'' ''09:00 AM'' ''05:00 PM'') None \<and>
   pending_booking (fst (chat_turn demo_catalog demo_predict demo_reply demo_user demo_ext
                           ''book at 8 pm on dec 15'' demo_session)) =
     pending_booking demo_session \<and>
   chatbot_time_str (lower ''book on dec 15 at 23:30'') = ''23:30'' \<and>
   snd (chatbot_turn demo_catalog demo_predict demo_user demo_ext ''book on dec 15 at 23:30''
          demo_session) =
     Reply (Booked ''Dr. Nair'' ''City Care'' ''2026-12-15'' ''23:30'')
       (Some \<lparr>b_id = ''A3F9C21'', b_patient = ''Demo User'', b_age = Some 25,
               b_gender = Some ''Male'', b_hospital = ''City Care'',
               b_department = ''Cardiology'', b_doctor = ''Dr. Nair'',
               b_date = ''2026-12-15'', b_time = ''23:30''\<rparr>) \<and>
   chat_parsed_time (strip ''book at 25:00 on dec 15'') = Some ''25:00'' \<and>
   strptime_HM ''25:00'' = None \<and>
   snd (chat_turn demo_catalog demo_predict demo_reply demo_user demo_ext
          ''book at 25:00 on dec 15'' demo_session) =
     Reply (Booked ''Dr. Nair'' ''City Care'' ''2026-12-15'' ''25:00'')
       (Some \<lparr>b_id = ''A3F9C21'', b_patient = ''Demo User'', b_age = None,
               b_gender = None, b_hospital = ''City Care'',
               b_department = ''Cardiology'', b_doctor = ''Dr. Nair'',
               b_date = ''2026-12-15'', b_time = ''25:00''\<rparr>) \<and>
   pending_booking (fst (chat_turn demo_catalog demo_predict demo_reply demo_user demo_ext
                           ''book at 25:00 on dec 15'' demo_session)) =
     pending_booking demo_session \<and>
   app_time_search (''book on dec '' @ CHR ''1'' # ''5 at 8 pm'') =
     Some (app_match_at (CHR ''1'' # ''5 at 8 pm'')) \<and>
   app_match_at (CHR ''1'' # ''5 at 8 pm'') = (''15'', None, None)"
proof -
  note T = outside_window_no_booking
  have f: "doctor_name dr_nair = ''Dr. Nair''" "strftime_IMp (9, 0) = ''09:00 AM''"
    "strftime_IMp (17, 0) = ''05:00 PM''" "hospital_name city_care = ''City Care''"
    "parsed_date demo_ext = Some ''2026-12-15''"
    "chatbot_time_str (lower ''book on dec 15 at 23:30'') = ''23:30''"
    "new_booking_id demo_ext = ''A3F9C21''"
    "user_name demo_user = ''Demo User''" "user_age demo_user = 25"
    "user_gender demo_user = ''Male''"
    by code_simp+
  have a: "app_intent (lower ''book at 11pm'') (last_intent demo_session) = Booking \<and>
    map_of (pending_booking demo_session) ''city'' = Some ''Kochi'' \<and>
    map_of (pending_booking demo_session) ''department'' = Some ''Cardiology'' \<and>
    top_hospital (hospitals_for (hospitals demo_catalog) ''Kochi'' ''Cardiology'') =
      Some city_care \<and>
    first_doctor (doctors demo_catalog) city_care ''Cardiology'' = Some dr_nair \<and>
    strptime_HM (start_time dr_nair) = Some (9, 0) \<and>
    strptime_HM (end_time dr_nair) = Some (17, 0) \<and>
    strptime_HM (app_time_str (lower ''book at 11pm'')) = Some (23, 0) \<and>
    \<not> in_window (9, 0) (23, 0) (17, 0)"
    by code_simp
  note TA = T[where predict = demo_predict and u = demo_user and x = no_date_ext,
              THEN conjunct1, THEN mp, OF a]
  from TA[THEN conjunct1] TA[THEN conjunct2, THEN conjunct1]
    TA[THEN conjunct2, THEN conjunct2, THEN conjunct1]
  have A: "snd (app_turn demo_catalog demo_predict demo_user no_date_ext ''book at 11pm''
                  demo_session) =
             Reply (Outside_window ''Dr. Nair'' ''09:00 AM'' ''05:00 PM'') None \<and>
           map_of (pending_booking (fst (app_turn demo_catalog demo_predict demo_user
                     no_date_ext ''book at 11pm'' demo_session))) ''department'' =
             Some ''Cardiology'' \<and>
           map_of (pending_booking (fst (app_turn demo_catalog demo_predict demo_user
                     no_date_ext ''book at 11pm'' demo_session))) ''city'' =
             Some ''Kochi''"
    by (simp add: f)
  have c: "chat_intent (lower (strip ''book at 8 pm on dec 15'')) = Booking \<and>
    map_of (chat_booking_info (hospitals demo_catalog)
              (lower (strip ''book at 8 pm on dec 15'')) demo_session) ''department'' =
      Some ''Cardiology'' \<and>
    ''Cardiology'' \<noteq> [] \<and>
    chat_city_search (hospitals demo_catalog) demo_user
       (lower (strip ''book at 8 pm on dec 15''))
       (chat_enter demo_catalog ''book at 8 pm on dec 15'' demo_session) = ''Kochi'' \<and>
    ''Kochi'' \<noteq> [] \<and>
    hospitals_for (hospitals demo_catalog) ''Kochi'' ''Cardiology'' \<noteq> [] \<and>
    chat_chosen (hospitals demo_catalog) (lower (strip ''book at 8 pm on dec 15''))
      (hospitals_for (hospitals demo_catalog) ''Kochi'' ''Cardiology'') = Some city_care \<and>
    first_doctor (doctors demo_catalog) city_care ''Cardiology'' = Some dr_nair \<and>
    parsed_date demo_ext = Some ''2026-12-15'' \<and>
    chat_parsed_time (strip ''book at 8 pm on dec 15'') = Some ''20:00'' \<and>
    strptime_HM (start_time dr_nair) = Some (9, 0) \<and>
    strptime_HM (end_time dr_nair) = Some (17, 0) \<and>
    strptime_HM ''20:00'' = Some (20, 0) \<and>
    \<not> in_window (9, 0) (20, 0) (17, 0)"
    by code_simp
  from T[where predict = demo_predict and reply = demo_reply and u = demo_user,
         THEN conjunct2, THEN conjunct1, THEN mp, OF c]
  have C: "snd (chat_turn demo_catalog demo_predict demo_reply demo_user demo_ext
          ''book at 8 pm on dec 15'' demo_session) =
     Reply (Outside_window ''Dr. Nair'' ''09:00 AM'' ''05:00 PM'') None \<and>
   pending_booking (fst (chat_turn demo_catalog demo_predict demo_reply demo_user demo_ext
                           ''book at 8 pm on dec 15'' demo_session)) =
     pending_booking demo_session"
    by (simp add: f)
  have b: "chatbot_intent (lower ''book on dec 15 at 23:30'') (last_intent demo_session) =
      Booking \<and>
    map_of (pending_booking demo_session) ''department'' = Some ''Cardiology'' \<and>
    top_hospital (hospitals_for (hospitals demo_catalog)
                    (chatbot_city demo_catalog demo_user ''book on dec 15 at 23:30'')
                    ''Cardiology'') = Some city_care \<and>
    first_doctor (doctors demo_catalog) city_care ''Cardiology'' = Some dr_nair"
    by code_simp
  from T[where predict = demo_predict and x = demo_ext,
         THEN conjunct2, THEN conjunct2, THEN conjunct1, THEN mp, OF b]
  have B: "snd (chatbot_turn demo_catalog demo_predict demo_user demo_ext
                  ''book on dec 15 at 23:30'' demo_session) =
     Reply (Booked ''Dr. Nair'' ''City Care'' ''2026-12-15'' ''23:30'')
       (Some \<lparr>b_id = ''A3F9C21'', b_patient = ''Demo User'', b_age = Some 25,
               b_gender = Some ''Male'', b_hospital = ''City Care'',
               b_department = ''Cardiology'', b_doctor = ''Dr. Nair'',
               b_date = ''2026-12-15'', b_time = ''23:30''\<rparr>)"
    by (simp add: f)
  have e: "chat_intent (lower (strip ''book at 25:00 on dec 15'')) = Booking \<and>
    map_of (chat_booking_info (hospitals demo_catalog)
              (lower (strip ''book at 25:00 on dec 15'')) demo_session) ''department'' =
      Some ''Cardiology'' \<and>
    ''Cardiology'' \<noteq> [] \<and>
    chat_city_search (hospitals demo_catalog) demo_user
       (lower (strip ''book at 25:00 on dec 15''))
       (chat_enter demo_catalog ''book at 25:00 on dec 15'' demo_session) = ''Kochi'' \<and>
    ''Kochi'' \<noteq> [] \<and>
    hospitals_for (hospitals demo_catalog) ''Kochi'' ''Cardiology'' \<noteq> [] \<and>
    chat_chosen (hospitals demo_catalog) (lower (strip ''book at 25:00 on dec 15''))
      (hospitals_for (hospitals demo_catalog) ''Kochi'' ''Cardiology'') = Some city_care \<and>
    first_doctor (doctors demo_catalog) city_care ''Cardiology'' = Some dr_nair \<and>
    parsed_date demo_ext = Some ''2026-12-15'' \<and>
    chat_parsed_time (strip ''book at 25:00 on dec 15'') = Some ''25:00'' \<and>
    (strptime_HM (start_time dr_nair) = None \<or> strptime_HM (end_time dr_nair) = None \<or>
     strptime_HM ''25:00'' = None)"
    by code_simp
  from T[where predict = demo_predict and reply = demo_reply and u = demo_user,
         THEN conjunct2, THEN conjunct2, THEN conjunct2, THEN conjunct1, THEN mp, OF e]
  have E: "snd (chat_turn demo_catalog demo_predict demo_reply demo_user demo_ext
          ''book at 25:00 on dec 15'' demo_session) =
     Reply (Booked ''Dr. Nair'' ''City Care'' ''2026-12-15'' ''25:00'')
       (Some \<lparr>b_id = ''A3F9C21'', b_patient = ''Demo User'', b_age = None,
               b_gender = None, b_hospital = ''City Care'',
               b_department = ''Cardiology'', b_doctor = ''Dr. Nair'',
               b_date = ''2026-12-15'', b_time = ''25:00''\<rparr>) \<and>
   pending_booking (fst (chat_turn demo_catalog demo_predict demo_reply demo_user demo_ext
                           ''book at 25:00 on dec 15'' demo_session)) =
     pending_booking demo_session"
    by (simp add: f)
  have g: "(\<forall>ch\<in>set ''book on dec ''. \<not> is_digit ch) \<and> is_digit (CHR ''1'')"
    by code_simp
  from T[where pre = "''book on dec ''" and a = "CHR ''1''" and r = "''5 at 8 pm''",
         THEN conjunct2, THEN conjunct2, THEN conjunct2, THEN conjunct2, THEN mp, OF g]
  have G: "app_time_search (''book on dec '' @ CHR ''1'' # ''5 at 8 pm'') =
             Some (app_match_at (CHR ''1'' # ''5 at 8 pm''))"
    by blast
  have g2: "app_match_at (CHR ''1'' # ''5 at 8 pm'') = (''15'', None, None)" by code_simp
  have n25: "strptime_HM ''25:00'' = None" by code_simp
  from a A c C f(6) B e E G g2 n25 show ?thesis by blast
qed

text \<open>
  In \<open>chatbot.py\<close> the doctor is available from 09:00 to 17:00, the message asks for
  23:30, and the turn creates a booking record for 23:30. In \<open>chat.py\<close> a message that
  asks for 25:00, which is no clock time, makes \<open>strptime\<close> fail inside \<open>try\<close>, and the
  \<open>except\<close> branch creates a booking record for 25:00. In \<open>app.py\<close> the message
  "book on dec 15 at 8 pm" asks for 20:00, outside the window, but the time pattern matches
  at "15": the extracted time is 15:00 and the turn creates a booking record.
\<close>

theorem chatbot_books_outside_window_counterexample:
  "strptime_HM (start_time dr_nair) = Some (9, 0) \<and>
   strptime_HM (end_time dr_nair) = Some (17, 0) \<and>
   strptime_HM ''23:30'' = Some (23, 30) \<and>
   \<not> in_window (9, 0) (23, 30) (17, 0) \<and>
   chatbot_intent (lower ''book on dec 15 at 23:30'') (last_intent demo_session) = Booking \<and>
   snd (chatbot_turn demo_catalog demo_predict demo_user demo_ext ''book on dec 15 at 23:30''
          demo_session) =
     Reply (Booked ''Dr. Nair'' ''City Care'' ''2026-12-15'' ''23:30'')
       (Some \<lparr>b_id = ''A3F9C21'', b_patient = ''Demo User'', b_age = Some 25,
               b_gender = Some ''Male'', b_hospital = ''City Care'',
               b_department = ''Cardiology'', b_doctor = ''Dr. Nair'',
               b_date = ''2026-12-15'', b_time = ''23:30''\<rparr>) \<and>
   strptime_HM ''25:00'' = None \<and>
   chat_intent (lower (strip ''book at 25:00 on dec 15'')) = Booking \<and>
   chat_parsed_time (strip ''book at 25:00 on dec 15'') = Some ''25:00'' \<and>
   snd (chat_turn demo_catalog demo_predict demo_reply demo_user demo_ext
          ''book at 25:00 on dec 15'' demo_session) =
     Reply (Booked ''Dr. Nair'' ''City Care'' ''2026-12-15'' ''25:00'')
       (Some \<lparr>b_id = ''A3F9C21'', b_patient = ''Demo User'', b_age = None,
               b_gender = None, b_hospital = ''City Care'',
               b_department = ''Cardiology'', b_doctor = ''Dr. Nair'',
               b_date = ''2026-12-15'', b_time = ''25:00''\<rparr>) \<and>
   \<not> in_window (9, 0) (20, 0) (17, 0) \<and>
   app_intent (lower ''book on dec 15 at 8 pm'') (last_intent demo_session) = Booking \<and>
   app_time_str (lower ''book on dec 15 at 8 pm'') = ''15:00'' \<and>
   snd (app_turn demo_catalog demo_predict demo_user demo_ext ''book on dec 15 at 8 pm''
          demo_session) =
     Reply (Booked ''Dr. Nair'' ''City Care'' ''2026-12-15'' ''15:00'')
       (Some \<lparr>b_id = ''A3F9C21'', b_patient = ''Demo User'', b_age = Some 25,
               b_gender = Some ''Male'', b_hospital = ''City Care'',
               b_department = ''Cardiology'', b_doctor = ''Dr. Nair'',
               b_date = ''2026-12-15'', b_time = ''15:00''\<rparr>)"
  by code_simp

lemma in_window_boundaries:
  "clock_le start_t end_t \<Longrightarrow> in_window start_t start_t end_t \<and> in_window start_t end_t end_t"
  by (simp add: in_window_def clock_le_def)

section \<open>A requested time inside the doctor's window\<close>

text \<open>
  C2, as the code has it. The requested time of a turn is the time string the script
  extracts from the message: \<open>app.py\<close> and \<open>chat.py\<close> match their time pattern at the
  first digit of the message, whatever that number stands for. In \<open>app.py\<close> and
  \<open>chat.py\<close>, when a booking turn reaches the availability check with a doctor whose
  start and end times parse and an extracted time that parses and lies inside
  [start, end], the turn creates exactly one booking record, for that doctor, hospital,
  date and time; \<open>chat.py\<close> then empties \<open>pending_booking\<close>. Both boundaries are
  inside the window. The identifier of the record is the letter A followed by the first
  six characters, in upper case, of the hexadecimal text of a fresh random UUID. Nothing
  compares it with the identifiers issued before: the identifiers of two bookings are
  equal exactly when the upper-cased six-character beginnings of their two draws are
  equal.
\<close>

theorem inside_window_one_booking:
  "(app_intent (lower m) (last_intent s) = Booking \<and>
    map_of (pending_booking s) ''city'' = Some c \<and>
    map_of (pending_booking s) ''department'' = Some d \<and>
    top_hospital (hospitals_for (hospitals cat) c d) = Some t \<and>
    first_doctor (doctors cat) t d = Some doc \<and>
    strptime_HM (start_time doc) = Some start_t \<and>
    strptime_HM (end_time doc) = Some end_t \<and>
    strptime_HM (app_time_str (lower m)) = Some req \<and>
    in_window start_t req end_t \<longrightarrow>
      snd (app_turn cat predict u x m s) =
        Reply (Booked (doctor_name doc) (hospital_name t) (app_date_str x s)
                 (app_time_str (lower m)))
          (Some \<lparr>b_id = ''A'' @ upper (take 6 (uuid_hex x)), b_patient = user_name u,
                  b_age = Some (user_age u), b_gender = Some (user_gender u),
                  b_hospital = hospital_name t, b_department = d,
                  b_doctor = doctor_name doc, b_date = app_date_str x s,
                  b_time = app_time_str (lower m)\<rparr>)) \<and>
   (chat_intent (lower (strip m)) = Booking \<and>
    map_of (chat_booking_info (hospitals cat) (lower (strip m)) s) ''department'' = Some d \<and>
    d \<noteq> [] \<and>
    chat_city_search (hospitals cat) u (lower (strip m)) (chat_enter cat m s) = c \<and>
    c \<noteq> [] \<and>
    hospitals_for (hospitals cat) c d \<noteq> [] \<and>
    chat_chosen (hospitals cat) (lower (strip m)) (hospitals_for (hospitals cat) c d) = Some t \<and>
    first_doctor (doctors cat) t d = Some doc \<and>
    parsed_date x = Some dt \<and>
    chat_parsed_time (strip m) = Some ts \<and>
    strptime_HM (start_time doc) = Some start_t \<and>
    strptime_HM (end_time doc) = Some end_t \<and>
    strptime_HM ts = Some req \<and>
    in_window start_t req end_t \<longrightarrow>
      snd (chat_turn cat predict reply u x m s) =
        Reply (Booked (doctor_name doc) (hospital_name t) dt ts)
          (Some \<lparr>b_id = ''A'' @ upper (take 6 (uuid_hex x)), b_patient = user_name u,
                  b_age = Some (user_age u), b_gender = Some (user_gender u),
                  b_hospital = hospital_name t, b_department = d,
                  b_doctor = doctor_name doc, b_date = dt, b_time = ts\<rparr>) \<and>
      pending_booking (fst (chat_turn cat predict reply u x m s)) = []) \<and>
   (clock_le start_t end_t \<longrightarrow>
      in_window start_t start_t end_t \<and> in_window start_t end_t end_t) \<and>
   new_booking_id x = ''A'' @ upper (take 6 (uuid_hex x)) \<and>
   (new_booking_id x = new_booking_id x') =
     (upper (take 6 (uuid_hex x)) = upper (take 6 (uuid_hex x'))) \<and>
   ((\<forall>ch\<in>set pre. \<not> is_digit ch) \<and> is_digit a \<longrightarrow>
      app_time_search (pre @ a # r) = Some (app_match_at (a # r)) \<and>
      chat_time_search (pre @ a # r) = Some (chat_match_at (a # r)))"
proof (intro conjI impI)
  assume a: "app_intent (lower m) (last_intent s) = Booking \<and>
    map_of (pending_booking s) ''city'' = Some c \<and>
    map_of (pending_booking s) ''department'' = Some d \<and>
    top_hospital (hospitals_for (hospitals cat) c d) = Some t \<and>
    first_doctor (doctors cat) t d = Some doc \<and>
    strptime_HM (start_time doc) = Some start_t \<and>
    strptime_HM (end_time doc) = Some end_t \<and>
    strptime_HM (app_time_str (lower m)) = Some req \<and>
    in_window start_t req end_t"
  then have t: "snd (app_turn cat predict u x m s) =
           app_check_and_book u x t doc d (app_date_str x s) (app_time_str (lower m))"
    using app_turn_check[of m s c d cat t doc predict u x] by simp_all
  show "snd (app_turn cat predict u x m s) =
          Reply (Booked (doctor_name doc) (hospital_name t) (app_date_str x s)
                   (app_time_str (lower m)))
            (Some \<lparr>b_id = ''A'' @ upper (take 6 (uuid_hex x)), b_patient = user_name u,
                    b_age = Some (user_age u), b_gender = Some (user_gender u),
                    b_hospital = hospital_name t, b_department = d,
                    b_doctor = doctor_name doc, b_date = app_date_str x s,
                    b_time = app_time_str (lower m)\<rparr>)"
    using a by (simp add: t app_check_and_book_def new_booking_id_def)
next
  assume a: "chat_intent (lower (strip m)) = Booking \<and>
    map_of (chat_booking_info (hospitals cat) (lower (strip m)) s) ''department'' = Some d \<and>
    d \<noteq> [] \<and>
    chat_city_search (hospitals cat) u (lower (strip m)) (chat_enter cat m s) = c \<and>
    c \<noteq> [] \<and>
    hospitals_for (hospitals cat) c d \<noteq> [] \<and>
    chat_chosen (hospitals cat) (lower (strip m)) (hospitals_for (hospitals cat) c d) = Some t \<and>
    first_doctor (doctors cat) t d = Some doc \<and>
    parsed_date x = Some dt \<and>
    chat_parsed_time (strip m) = Some ts \<and>
    strptime_HM (start_time doc) = Some start_t \<and>
    strptime_HM (end_time doc) = Some end_t \<and>
    strptime_HM ts = Some req \<and>
    in_window start_t req end_t"
  then have t: "chat_turn cat predict reply u x m s =
           record_reply (chat_check_and_book u x t doc d dt ts (chat_enter cat m s))"
    using chat_turn_check[of m cat s d u c t doc x dt ts predict reply] by simp
  show "snd (chat_turn cat predict reply u x m s) =
          Reply (Booked (doctor_name doc) (hospital_name t) dt ts)
            (Some \<lparr>b_id = ''A'' @ upper (take 6 (uuid_hex x)), b_patient = user_name u,
                    b_age = Some (user_age u), b_gender = Some (user_gender u),
                    b_hospital = hospital_name t, b_department = d,
                    b_doctor = doctor_name doc, b_date = dt, b_time = ts\<rparr>)"
    using a
    by (simp add: t record_reply_simps chat_check_and_book_def new_booking_id_def)
  show "pending_booking (fst (chat_turn cat predict reply u x m s)) = []"
    using a by (simp add: t record_reply_simps chat_check_and_book_def)
next
  assume "clock_le start_t end_t"
  then show "in_window start_t start_t end_t" "in_window start_t end_t end_t"
    by (simp_all add: in_window_boundaries)
next
  show "new_booking_id x = ''A'' @ upper (take 6 (uuid_hex x))"
    by (simp add: new_booking_id_def)
  show "(new_booking_id x = new_booking_id x') =
          (upper (take 6 (uuid_hex x)) = upper (take 6 (uuid_hex x')))"
    by (simp add: new_booking_id_def)
next
  assume "(\<forall>ch\<in>set pre. \<not> is_digit ch) \<and> is_digit a"
  then show "app_time_search (pre @ a # r) = Some (app_match_at (a # r))"
    and "chat_time_search (pre @ a # r) = Some (chat_match_at (a # r))"
    by (simp_all add: app_time_search_first_digit chat_time_search_first_digit)
qed

theorem inside_window_one_booking_witness:
  "strptime_HM (start_time dr_nair) = Some (9, 0) \<and>
   strptime_HM (end_time dr_nair) = Some (17, 0) \<and>
   strptime_HM (app_time_str (lower ''book at 9am'')) = Some (9, 0) \<and>
   in_window (9, 0) (9, 0) (17, 0) \<and>
   snd (app_turn demo_catalog demo_predict demo_user no_date_ext ''book at 9am''
          demo_session) =
     Reply (Booked ''Dr. Nair'' ''City Care'' ''2026-11-04'' ''09:00'')
       (Some \<lparr>b_id = ''A3F9C21'', b_patient = ''Demo User'', b_age = Some 25,
               b_gender = Some ''Male'', b_hospital = ''City Care'',
               b_department = ''Cardiology'', b_doctor = ''Dr. Nair'',
               b_date = ''2026-11-04'', b_time = ''09:00''\<rparr>) \<and>
   chat_parsed_time (strip ''book at 5 pm on dec 15'') = Some ''17:00'' \<and>
   in_window (9, 0) (17, 0) (17, 0) \<and>
   snd (chat_turn demo_catalog demo_predict demo_reply demo_user demo_ext
          ''book at 5 pm on dec 15'' demo_session) =
     Reply (Booked ''Dr. Nair'' ''City Care'' ''2026-12-15'' ''17:00'')
       (Some \<lparr>b_id = ''A3F9C21'', b_patient = ''Demo User'', b_age = Some 25,
               b_gender = Some ''Male'', b_hospital = ''City Care'',
               b_department = ''Cardiology'', b_doctor = ''Dr. Nair'',
               b_date = ''2026-12-15'', b_time = ''17:00''\<rparr>) \<and>
   pending_booking (fst (chat_turn demo_catalog demo_predict demo_reply demo_user demo_ext
                           ''book at 5 pm on dec 15'' demo_session)) = [] \<and>
   chat_time_search (''book on '' @ CHR ''2'' # ''0 dec at 10am'') =
     Some (chat_match_at (CHR ''2'' # ''0 dec at 10am'')) \<and>
   chat_match_at (CHR ''2'' # ''0 dec at 10am'') = (''20'', None, None) \<and>
   uuid_hex demo_ext \<noteq> uuid_hex demo_ext2 \<and>
   upper (take 6 (uuid_hex demo_ext)) = upper (take 6 (uuid_hex demo_ext2)) \<and>
   new_booking_id demo_ext = new_booking_id demo_ext2"
proof -
  note T = inside_window_one_booking
  have le: "clock_le (9, 0) (17, 0)" by code_simp
  from T[where start_t = "(9, 0)" and end_t = "(17, 0)",
         THEN conjunct2, THEN conjunct2, THEN conjunct1, THEN mp, OF le]
  have i1: "in_window (9, 0) (9, 0) (17, 0)" and i2: "in_window (9, 0) (17, 0) (17, 0)"
    by blast+
  have a: "app_intent (lower ''book at 9am'') (last_intent demo_session) = Booking \<and>
    map_of (pending_booking demo_session) ''city'' = Some ''Kochi'' \<and>
    map_of (pending_booking demo_session) ''department'' = Some ''Cardiology'' \<and>
    top_hospital (hospitals_for (hospitals demo_catalog) ''Kochi'' ''Cardiology'') =
      Some city_care \<and>
    first_doctor (doctors demo_catalog) city_care ''Cardiology'' = Some dr_nair \<and>
    strptime_HM (start_time dr_nair) = Some (9, 0) \<and>
    strptime_HM (end_time dr_nair) = Some (17, 0) \<and>
    strptime_HM (app_time_str (lower ''book at 9am'')) = Some (9, 0) \<and>
    in_window (9, 0) (9, 0) (17, 0)"
    by code_simp
  have c: "chat_intent (lower (strip ''book at 5 pm on dec 15'')) = Booking \<and>
    map_of (chat_booking_info (hospitals demo_catalog)
              (lower (strip ''book at 5 pm on dec 15'')) demo_session) ''department'' =
      Some ''Cardiology'' \<and>
    ''Cardiology'' \<noteq> [] \<and>
    chat_city_search (hospitals demo_catalog) demo_user
       (lower (strip ''book at 5 pm on dec 15''))
       (chat_enter demo_catalog ''book at 5 pm on dec 15'' demo_session) = ''Kochi'' \<and>
    ''Kochi'' \<noteq> [] \<and>
    hospitals_for (hospitals demo_catalog) ''Kochi'' ''Cardiology'' \<noteq> [] \<and>
    chat_chosen (hospitals demo_catalog) (lower (strip ''book at 5 pm on dec 15''))
      (hospitals_for (hospitals demo_catalog) ''Kochi'' ''Cardiology'') = Some city_care \<and>
    first_doctor (doctors demo_catalog) city_care ''Cardiology'' = Some dr_nair \<and>
    parsed_date demo_ext = Some ''2026-12-15'' \<and>
    chat_parsed_time (strip ''book at 5 pm on dec 15'') = Some ''17:00'' \<and>
    strptime_HM (start_time dr_nair) = Some (9, 0) \<and>
    strptime_HM (end_time dr_nair) = Some (17, 0) \<and>
    strptime_HM ''17:00'' = Some (17, 0) \<and>
    in_window (9, 0) (17, 0) (17, 0)"
    by code_simp
  have f: "doctor_name dr_nair = ''Dr. Nair''" "hospital_name city_care = ''City Care''"
    "app_date_str no_date_ext demo_session = ''2026-11-04''"
    "app_time_str (lower ''book at 9am'') = ''09:00''"
    "upper (take 6 (uuid_hex demo_ext)) = ''3F9C21''"
    "upper (take 6 (uuid_hex no_date_ext)) = ''3F9C21''"
    "user_name demo_user = ''Demo User''" "user_age demo_user = 25"
    "user_gender demo_user = ''Male''"
    by code_simp+
  from T[where predict = demo_predict and u = demo_user and x = no_date_ext,
         THEN conjunct1, THEN mp, OF a]
  have A: "snd (app_turn demo_catalog demo_predict demo_user no_date_ext ''book at 9am''
                  demo_session) =
     Reply (Booked ''Dr. Nair'' ''City Care'' ''2026-11-04'' ''09:00'')
       (Some \<lparr>b_id = ''A3F9C21'', b_patient = ''Demo User'', b_age = Some 25,
               b_gender = Some ''Male'', b_hospital = ''City Care'',
               b_department = ''Cardiology'', b_doctor = ''Dr. Nair'',
               b_date = ''2026-11-04'', b_time = ''09:00''\<rparr>)"
    by (simp add: f)
  from T[where predict = demo_predict and reply = demo_reply and u = demo_user,
         THEN conjunct2, THEN conjunct1, THEN mp, OF c]
  have C: "snd (chat_turn demo_catalog demo_predict demo_reply demo_user demo_ext
          ''book at 5 pm on dec 15'' demo_session) =
     Reply (Booked ''Dr. Nair'' ''City Care'' ''2026-12-15'' ''17:00'')
       (Some \<lparr>b_id = ''A3F9C21'', b_patient = ''Demo User'', b_age = Some 25,
               b_gender = Some ''Male'', b_hospital = ''City Care'',
               b_department = ''Cardiology'', b_doctor = ''Dr. Nair'',
               b_date = ''2026-12-15'', b_time = ''17:00''\<rparr>) \<and>
   pending_booking (fst (chat_turn demo_catalog demo_predict demo_reply demo_user demo_ext
                           ''book at 5 pm on dec 15'' demo_session)) = []"
    by (simp add: f)
  have g: "(\<forall>ch\<in>set ''book on ''. \<not> is_digit ch) \<and> is_digit (CHR ''2'')"
    by code_simp
  from T[where pre = "''book on ''" and a = "CHR ''2''" and r = "''0 dec at 10am''",
         THEN conjunct2, THEN conjunct2, THEN conjunct2, THEN conjunct2, THEN conjunct2,
         THEN mp, OF g]
  have G: "chat_time_search (''book on '' @ CHR ''2'' # ''0 dec at 10am'') =
             Some (chat_match_at (CHR ''2'' # ''0 dec at 10am''))"
    by blast
  have g2: "chat_match_at (CHR ''2'' # ''0 dec at 10am'') = (''20'', None, None)"
    by code_simp
  have q: "uuid_hex demo_ext \<noteq> uuid_hex demo_ext2"
    "upper (take 6 (uuid_hex demo_ext)) = upper (take 6 (uuid_hex demo_ext2))"
    by code_simp+
  from T[where x = demo_ext and x' = demo_ext2, THEN conjunct2, THEN conjunct2,
         THEN conjunct2, THEN conjunct2, THEN conjunct1] q(2)
  have Q: "new_booking_id demo_ext = new_booking_id demo_ext2" by blast
  from a i1 i2 c A C G g2 q Q show ?thesis by blast
qed

text \<open>
  Two bookings of one session, made with two different random UUIDs that agree on their
  first six digits, carry the same identifier, in \<open>app.py\<close> and in \<open>chat.py\<close>. And the
  message "book on 20 dec at 10am" asks for 10:00, inside the window from 09:00 to 17:00,
  but the time pattern matches at "20": the extracted time is 20:00 and no booking record
  is created.
\<close>

theorem booking_ids_repeat_counterexample:
  "uuid_hex demo_ext \<noteq> uuid_hex demo_ext2 \<and>
   map b_id (snd (run (app_step demo_catalog demo_predict)
                    [Message ''book at 9am'' demo_ext, Message ''book at 10am'' demo_ext2]
                    demo_session)) = [''A3F9C21'', ''A3F9C21''] \<and>
   map b_time (snd (run (app_step demo_catalog demo_predict)
                      [Message ''book at 9am'' demo_ext, Message ''book at 10am'' demo_ext2]
                      demo_session)) = [''09:00'', ''10:00''] \<and>
   map b_id (snd (run (chat_step demo_catalog demo_predict demo_reply)
                    [Message ''I have chest pain'' demo_ext,
                     Message ''book at 5 pm on dec 15'' demo_ext,
                     Message ''I have chest pain'' demo_ext,
                     Message ''book at 4 pm on dec 15'' demo_ext2]
                    demo_session)) = [''A3F9C21'', ''A3F9C21''] \<and>
   in_window (9, 0) (10, 0) (17, 0) \<and>
   app_time_str (lower ''book on 20 dec at 10am'') = ''20:00'' \<and>
   snd (app_turn demo_catalog demo_predict demo_user dec20_ext ''book on 20 dec at 10am''
          demo_session) =
     Reply (Outside_window ''Dr. Nair'' ''09:00 AM'' ''05:00 PM'') None \<and>
   chat_parsed_time (strip ''book on 20 dec at 10am'') = Some ''20:00'' \<and>
   snd (chat_turn demo_catalog demo_predict demo_reply demo_user dec20_ext
          ''book on 20 dec at 10am'' demo_session) =
     Reply (Outside_window ''Dr. Nair'' ''09:00 AM'' ''05:00 PM'') None"
  by code_simp

section \<open>Hospital lookup for a city without hospitals\<close>

lemma hospitals_in_empty:
  "\<forall>h\<in>set hs. lower (hosp_city h) \<noteq> lower cty \<Longrightarrow> hospitals_in hs cty = []"
  by (simp add: hospitals_in_def filter_empty_conv)

lemma chat_hospital_city_nonempty:
  "user_city u \<noteq> [] \<Longrightarrow> chat_hospital_city u det s \<noteq> []"
  by (auto simp: chat_hospital_city_def truthy_def or_str_def split: option.splits)

lemma detect_city_in_table:
  "detect_city hs msg = Some c \<Longrightarrow> c \<in> set (map hosp_city hs)"
proof -
  assume "detect_city hs msg = Some c"
  then have "c \<in> set (unique (map hosp_city hs))"
    unfolding detect_city_def by (auto simp: find_Some_iff)
  then show ?thesis by (simp add: set_unique)
qed

lemma detect_city_absent:
  assumes "\<forall>h\<in>set hs. lower (hosp_city h) \<noteq> lower cty"
  shows "detect_city hs msg \<noteq> Some cty"
proof
  assume "detect_city hs msg = Some cty"
  then have "cty \<in> set (map hosp_city hs)" by (rule detect_city_in_table)
  with assms show False by auto
qed

text \<open>
  C7, as the code has it. A city is present in the hospital table when some row has this
  city, compared without regard to case, as the scripts compare cities. A hospital-lookup
  turn looks hospitals up in the city of the turn, which the script computes: the first
  city of the table whose name occurs in the message, else the session's city, else the
  city of the user's profile (\<open>chatbot.py\<close> skips the session's city). A city that is
  named in the message but is not in the table is never the detected city, so the turn
  answers for the city it falls back to. Whenever the city of the turn is not present in
  the table, the turn replies with the "not found" message for that city. A
  hospital-lookup turn always returns a reply, it never raises. In \<open>chat.py\<close> this
  holds for a non-empty city of the turn, which a non-empty profile city guarantees; when
  the city of the turn is empty, \<open>chat.py\<close> asks for the city.
\<close>

theorem hospital_lookup_unknown_city:
  assumes "\<forall>h\<in>set (hospitals cat). lower (hosp_city h) \<noteq> lower cty"
  shows
    "(app_intent (lower m) (last_intent s) = Hospital_list \<and> app_city cat u m s = cty \<longrightarrow>
        snd (app_turn cat predict u x m s) = Reply (No_hospitals_in cty) None) \<and>
     (chat_intent (lower (strip m)) = Hospital_list \<and>
      chat_hospital_city u (detect_city (hospitals cat) (lower (strip m))) (chat_enter cat m s)
        = cty \<and>
      cty \<noteq> [] \<longrightarrow>
        snd (chat_turn cat predict reply u x m s) = Reply (No_hospitals_in cty) None) \<and>
     (chat_intent (lower (strip m)) = Hospital_list \<and>
      chat_hospital_city u (detect_city (hospitals cat) (lower (strip m))) (chat_enter cat m s)
        = [] \<longrightarrow>
        snd (chat_turn cat predict reply u x m s) = Reply Ask_city None) \<and>
     (user_city u \<noteq> [] \<longrightarrow>
        chat_hospital_city u (detect_city (hospitals cat) (lower (strip m)))
          (chat_enter cat m s) \<noteq> []) \<and>
     (chatbot_intent (lower m) (last_intent s) = Hospital_list \<and> chatbot_city cat u m = cty \<longrightarrow>
        snd (chatbot_turn cat predict u x m s) = Reply (No_hospitals_in cty) None) \<and>
     detect_city (hospitals cat) msg \<noteq> Some cty \<and>
     (detect_city (hospitals cat) (lower m) = Some c \<longrightarrow>
        app_city cat u m s = c \<and> chatbot_city cat u m = c) \<and>
     (detect_city (hospitals cat) (lower (strip m)) = Some c \<and> c \<noteq> [] \<longrightarrow>
        chat_hospital_city u (detect_city (hospitals cat) (lower (strip m)))
          (chat_enter cat m s) = c) \<and>
     (detect_city (hospitals cat) (lower m) = None \<longrightarrow>
        app_city cat u m s = or_str (city s) (user_city u) \<and>
        chatbot_city cat u m = user_city u) \<and>
     (detect_city (hospitals cat) (lower (strip m)) = None \<longrightarrow>
        chat_hospital_city u (detect_city (hospitals cat) (lower (strip m)))
          (chat_enter cat m s) = or_str (city s) (user_city u)) \<and>
     (app_intent (lower m) (last_intent s) = Hospital_list \<longrightarrow>
        (\<exists>r. snd (app_turn cat predict u x m s) = Reply r None)) \<and>
     (chat_intent (lower (strip m)) = Hospital_list \<longrightarrow>
        (\<exists>r. snd (chat_turn cat predict reply u x m s) = Reply r None)) \<and>
     (chatbot_intent (lower m) (last_intent s) = Hospital_list \<longrightarrow>
        (\<exists>r. snd (chatbot_turn cat predict u x m s) = Reply r None))"
proof (intro conjI impI)
  note e = hospitals_in_empty[OF assms]
  {
    assume "app_intent (lower m) (last_intent s) = Hospital_list \<and> app_city cat u m s = cty"
    then show "snd (app_turn cat predict u x m s) = Reply (No_hospitals_in cty) None"
      by (simp add: app_turn_def Let_def enter_frame record_reply_simps app_hospital_branch_def e)
  }
  {
    assume a: "chat_intent (lower (strip m)) = Hospital_list \<and>
      chat_hospital_city u (detect_city (hospitals cat) (lower (strip m))) (chat_enter cat m s)
        = cty \<and>
      cty \<noteq> []"
    then show "snd (chat_turn cat predict reply u x m s) = Reply (No_hospitals_in cty) None"
      by (simp add: chat_turn_def Let_def record_reply_simps chat_hospital_branch_def e)
  }
  {
    assume a: "chat_intent (lower (strip m)) = Hospital_list \<and>
      chat_hospital_city u (detect_city (hospitals cat) (lower (strip m))) (chat_enter cat m s)
        = []"
    then show "snd (chat_turn cat predict reply u x m s) = Reply Ask_city None"
      by (simp add: chat_turn_def Let_def record_reply_simps chat_hospital_branch_def)
  }
  {
    assume "user_city u \<noteq> []"
    then show "chat_hospital_city u (detect_city (hospitals cat) (lower (strip m)))
          (chat_enter cat m s) \<noteq> []"
      by (rule chat_hospital_city_nonempty)
  }
  {
    assume "chatbot_intent (lower m) (last_intent s) = Hospital_list \<and> chatbot_city cat u m = cty"
    then show "snd (chatbot_turn cat predict u x m s) = Reply (No_hospitals_in cty) None"
      by (simp add: chatbot_turn_def Let_def enter_frame record_reply_simps
            chatbot_hospital_branch_def e)
  }
  show "detect_city (hospitals cat) msg \<noteq> Some cty"
    using assms by (rule detect_city_absent)
  {
    assume n: "detect_city (hospitals cat) (lower m) = Some c"
    then show "app_city cat u m s = c"
      by (simp add: app_city_def)
    from n show "chatbot_city cat u m = c"
      by (simp add: chatbot_city_def)
  }
  {
    assume n: "detect_city (hospitals cat) (lower (strip m)) = Some c \<and> c \<noteq> []"
    then show "chat_hospital_city u (detect_city (hospitals cat) (lower (strip m)))
          (chat_enter cat m s) = c"
      by (simp add: chat_hospital_city_def truthy_def)
  }
  {
    assume n: "detect_city (hospitals cat) (lower m) = None"
    then show "app_city cat u m s = or_str (city s) (user_city u)"
      by (simp add: app_city_def)
    from n show "chatbot_city cat u m = user_city u"
      by (simp add: chatbot_city_def)
  }
  {
    assume n: "detect_city (hospitals cat) (lower (strip m)) = None"
    then show "chat_hospital_city u (detect_city (hospitals cat) (lower (strip m)))
          (chat_enter cat m s) = or_str (city s) (user_city u)"
      by (simp add: chat_hospital_city_def truthy_def chat_enter_def Let_def)
  }
  {
    assume "app_intent (lower m) (last_intent s) = Hospital_list"
    then show "\<exists>r. snd (app_turn cat predict u x m s) = Reply r None"
      by (simp add: app_turn_def Let_def enter_frame record_reply_simps app_hospital_branch_def)
  }
  {
    assume "chat_intent (lower (strip m)) = Hospital_list"
    then show "\<exists>r. snd (chat_turn cat predict reply u x m s) = Reply r None"
      by (simp add: chat_turn_def Let_def record_reply_simps chat_hospital_branch_def)
  }
  {
    assume "chatbot_intent (lower m) (last_intent s) = Hospital_list"
    then show "\<exists>r. snd (chatbot_turn cat predict u x m s) = Reply r None"
      by (simp add: chatbot_turn_def Let_def enter_frame record_reply_simps
            chatbot_hospital_branch_def)
  }
qed

theorem hospital_lookup_unknown_city_witness:
  "map hosp_city (hospitals chennai_catalog) = [''Chennai''] \<and>
   app_intent (lower ''hospitals nearby'') (last_intent fresh_session) = Hospital_list \<and>
   detect_city (hospitals chennai_catalog) (lower ''hospitals nearby'') = None \<and>
   detect_city (hospitals chennai_catalog) (lower ''hospitals in kochi'') \<noteq> Some ''Kochi'' \<and>
   app_city chennai_catalog demo_user ''hospitals nearby'' fresh_session = ''Kochi'' \<and>
   app_city chennai_catalog demo_user ''hospitals nearby'' fresh_session =
     or_str (city fresh_session) (user_city demo_user) \<and>
   chatbot_city chennai_catalog demo_user ''hospitals nearby'' = user_city demo_user \<and>
   chat_hospital_city demo_user
     (detect_city (hospitals chennai_catalog) (lower (strip ''hospitals nearby'')))
     (chat_enter chennai_catalog ''hospitals nearby'' fresh_session) =
     or_str (city fresh_session) (user_city demo_user) \<and>
   snd (app_turn chennai_catalog demo_predict demo_user no_date_ext ''hospitals nearby''
          fresh_session) = Reply (No_hospitals_in ''Kochi'') None \<and>
   chat_intent (lower (strip ''hospitals nearby'')) = Hospital_list \<and>
   snd (chat_turn chennai_catalog demo_predict demo_reply demo_user no_date_ext
          ''hospitals nearby'' fresh_session) = Reply (No_hospitals_in ''Kochi'') None \<and>
   chatbot_intent (lower ''hospitals nearby'') (last_intent fresh_session) = Hospital_list \<and>
   snd (chatbot_turn chennai_catalog demo_predict demo_user no_date_ext ''hospitals nearby''
          fresh_session) = Reply (No_hospitals_in ''Kochi'') None \<and>
   (\<exists>r. snd (app_turn chennai_catalog demo_predict demo_user no_date_ext ''hospitals nearby''
               fresh_session) = Reply r None) \<and>
   (\<exists>r. snd (chat_turn chennai_catalog demo_predict demo_reply demo_user no_date_ext
               ''hospitals nearby'' fresh_session) = Reply r None) \<and>
   (\<exists>r. snd (chatbot_turn chennai_catalog demo_predict demo_user no_date_ext
               ''hospitals nearby'' fresh_session) = Reply r None) \<and>
   chat_hospital_city demo_user
     (detect_city (hospitals chennai_catalog) (lower (strip ''hospitals nearby'')))
     (chat_enter chennai_catalog ''hospitals nearby'' fresh_session) \<noteq> [] \<and>
   snd (chat_turn chennai_catalog demo_predict demo_reply (demo_user\<lparr>user_city := []\<rparr>)
          no_date_ext ''hospitals nearby'' fresh_session) = Reply Ask_city None \<and>
   app_city chennai_catalog demo_user ''hospitals in Chennai'' fresh_session = ''Chennai'' \<and>
   chatbot_city chennai_catalog demo_user ''hospitals in Chennai'' = ''Chennai'' \<and>
   chat_hospital_city demo_user
     (detect_city (hospitals chennai_catalog) (lower (strip ''hospitals in Chennai'')))
     (chat_enter chennai_catalog ''hospitals in Chennai'' fresh_session) = ''Chennai''"
proof -
  have h: "\<forall>h\<in>set (hospitals chennai_catalog). lower (hosp_city h) \<noteq> lower ''Kochi''"
    by code_simp
  have a: "app_intent (lower ''hospitals nearby'') (last_intent fresh_session) =
             Hospital_list \<and>
           app_city chennai_catalog demo_user ''hospitals nearby'' fresh_session = ''Kochi''"
    by code_simp
  have c: "chat_intent (lower (strip ''hospitals nearby'')) = Hospital_list \<and>
           chat_hospital_city demo_user
             (detect_city (hospitals chennai_catalog) (lower (strip ''hospitals nearby'')))
             (chat_enter chennai_catalog ''hospitals nearby'' fresh_session) = ''Kochi'' \<and>
           ''Kochi'' \<noteq> []"
    by code_simp
  have c0: "chat_intent (lower (strip ''hospitals nearby'')) = Hospital_list \<and>
           chat_hospital_city (demo_user\<lparr>user_city := []\<rparr>)
             (detect_city (hospitals chennai_catalog) (lower (strip ''hospitals nearby'')))
             (chat_enter chennai_catalog ''hospitals nearby'' fresh_session) = []"
    by code_simp
  from hospital_lookup_unknown_city[OF h, where m = "''hospitals nearby''"
         and s = fresh_session and u = "demo_user\<lparr>user_city := []\<rparr>"
         and predict = demo_predict and reply = demo_reply and x = no_date_ext] c0
  have t0: "snd (chat_turn chennai_catalog demo_predict demo_reply
                   (demo_user\<lparr>user_city := []\<rparr>) no_date_ext ''hospitals nearby''
                   fresh_session) = Reply Ask_city None"
    by blast
  have uc: "user_city demo_user \<noteq> []" by code_simp
  have b: "chatbot_intent (lower ''hospitals nearby'') (last_intent fresh_session) =
             Hospital_list \<and>
           chatbot_city chennai_catalog demo_user ''hospitals nearby'' = ''Kochi''"
    by code_simp
  have n: "detect_city (hospitals chennai_catalog) (lower ''hospitals nearby'') = None"
    by code_simp
  have ns: "detect_city (hospitals chennai_catalog) (lower (strip ''hospitals nearby'')) = None"
    by code_simp
  note T = hospital_lookup_unknown_city[OF h, where m = "''hospitals nearby''"
         and s = fresh_session and u = demo_user and predict = demo_predict
         and reply = demo_reply and x = no_date_ext
         and msg = "lower ''hospitals in kochi''"]
  from T a have t1: "snd (app_turn chennai_catalog demo_predict demo_user no_date_ext
                  ''hospitals nearby'' fresh_session) = Reply (No_hospitals_in ''Kochi'') None"
    by blast
  from T c have t2: "snd (chat_turn chennai_catalog demo_predict demo_reply demo_user
                  no_date_ext ''hospitals nearby'' fresh_session) =
                  Reply (No_hospitals_in ''Kochi'') None"
    by blast
  from T b have t3: "snd (chatbot_turn chennai_catalog demo_predict demo_user no_date_ext
                  ''hospitals nearby'' fresh_session) = Reply (No_hospitals_in ''Kochi'') None"
    by blast
  from T uc have t10: "chat_hospital_city demo_user
     (detect_city (hospitals chennai_catalog) (lower (strip ''hospitals nearby'')))
     (chat_enter chennai_catalog ''hospitals nearby'' fresh_session) \<noteq> []"
    by blast
  from T have t4: "detect_city (hospitals chennai_catalog) (lower ''hospitals in kochi'') \<noteq>
                     Some ''Kochi''"
    by blast
  from T n have t5: "app_city chennai_catalog demo_user ''hospitals nearby'' fresh_session =
                       or_str (city fresh_session) (user_city demo_user) \<and>
                     chatbot_city chennai_catalog demo_user ''hospitals nearby'' =
                       user_city demo_user"
    by blast
  from T ns have t6: "chat_hospital_city demo_user
     (detect_city (hospitals chennai_catalog) (lower (strip ''hospitals nearby'')))
     (chat_enter chennai_catalog ''hospitals nearby'' fresh_session) =
     or_str (city fresh_session) (user_city demo_user)"
    by blast
  from T a have t7: "\<exists>r. snd (app_turn chennai_catalog demo_predict demo_user no_date_ext
               ''hospitals nearby'' fresh_session) = Reply r None"
    by blast
  from T c have t8: "\<exists>r. snd (chat_turn chennai_catalog demo_predict demo_reply demo_user
               no_date_ext ''hospitals nearby'' fresh_session) = Reply r None"
    by blast
  from T b have t9: "\<exists>r. snd (chatbot_turn chennai_catalog demo_predict demo_user
               no_date_ext ''hospitals nearby'' fresh_session) = Reply r None"
    by blast
  have dc: "detect_city (hospitals chennai_catalog) (lower ''hospitals in Chennai'') =
              Some ''Chennai''"
    "detect_city (hospitals chennai_catalog) (lower (strip ''hospitals in Chennai'')) =
       Some ''Chennai'' \<and> ''Chennai'' \<noteq> []"
    by code_simp+
  note T' = hospital_lookup_unknown_city[OF h, where m = "''hospitals in Chennai''"
         and s = fresh_session and u = demo_user and c = "''Chennai''"]
  from T' dc(1) have t11: "app_city chennai_catalog demo_user ''hospitals in Chennai''
                             fresh_session = ''Chennai'' \<and>
                           chatbot_city chennai_catalog demo_user ''hospitals in Chennai'' =
                             ''Chennai''"
    by blast
  from T' dc(2) have t12: "chat_hospital_city demo_user
     (detect_city (hospitals chennai_catalog) (lower (strip ''hospitals in Chennai'')))
     (chat_enter chennai_catalog ''hospitals in Chennai'' fresh_session) = ''Chennai''"
    by blast
  have l: "map hosp_city (hospitals chennai_catalog) = [''Chennai'']" by code_simp
  from t11 t12 t0 t1 t2 t3 t4 t5 t6 t7 t8 t9 t10 l n a b c show ?thesis by blast
qed

text \<open>
  The message names Mumbai, a city that is not in the hospital table. No script detects
  it: the turn falls back to the profile's city, Kochi, and lists the hospitals of Kochi
  instead of answering that no hospitals were found in Mumbai.
\<close>

theorem named_absent_city_counterexample:
  "hospitals_in (hospitals demo_catalog) ''Mumbai'' = [] \<and>
   py_in (lower ''Mumbai'') (lower ''hospitals in Mumbai'') \<and>
   detect_city (hospitals demo_catalog) (lower ''hospitals in Mumbai'') = None \<and>
   app_intent (lower ''hospitals in Mumbai'') (last_intent fresh_session) = Hospital_list \<and>
   snd (app_turn demo_catalog demo_predict demo_user no_date_ext ''hospitals in Mumbai''
          fresh_session) = Reply (Hospitals_in ''Kochi'' [city_care, lakeshore]) None \<and>
   chat_intent (lower (strip ''hospitals in Mumbai'')) = Hospital_list \<and>
   snd (chat_turn demo_catalog demo_predict demo_reply demo_user no_date_ext
          ''hospitals in Mumbai'' fresh_session) =
     Reply (Hospitals_in ''Kochi'' [city_care, lakeshore]) None \<and>
   chatbot_intent (lower ''hospitals in Mumbai'') (last_intent fresh_session) =
     Hospital_list \<and>
   snd (chatbot_turn demo_catalog demo_predict demo_user no_date_ext ''hospitals in Mumbai''
          fresh_session) = Reply (Hospitals_in ''Kochi'' [city_care, lakeshore]) None"
  by code_simp

section \<open>The time of a message without a time pattern\<close>

subsection \<open>Messages without a digit\<close>

lemma lower_char_cases: "lower_char c = c \<or> lower_char c \<in> set ''abcdefghijklmnopqrstuvwxyz''"
proof (cases "map_of (zip ''ABCDEFGHIJKLMNOPQRSTUVWXYZ'' ''abcdefghijklmnopqrstuvwxyz'') c")
  case None
  then show ?thesis unfolding lower_char_def by simp
next
  case (Some l)
  then have "(c, l) \<in> set (zip ''ABCDEFGHIJKLMNOPQRSTUVWXYZ'' ''abcdefghijklmnopqrstuvwxyz'')"
    by (rule map_of_SomeD)
  then have "l \<in> set ''abcdefghijklmnopqrstuvwxyz''" by (rule set_zip_rightD)
  with Some show ?thesis unfolding lower_char_def by simp
qed

lemma digit_not_letter:
  "is_digit c \<Longrightarrow> c \<notin> set ''ABCDEFGHIJKLMNOPQRSTUVWXYZ'' \<and> c \<notin> set ''abcdefghijklmnopqrstuvwxyz''"
  unfolding is_digit_def by auto

lemma lower_char_digit: "is_digit c \<Longrightarrow> lower_char c = c"
proof -
  assume "is_digit c"
  then have "c \<notin> set ''ABCDEFGHIJKLMNOPQRSTUVWXYZ''" using digit_not_letter by blast
  then have "map_of (zip ''ABCDEFGHIJKLMNOPQRSTUVWXYZ'' ''abcdefghijklmnopqrstuvwxyz'') c = None"
    unfolding map_of_eq_None_iff using set_zip_leftD by fastforce
  then show ?thesis unfolding lower_char_def by simp
qed

lemma is_digit_lower_char: "is_digit (lower_char c) = is_digit c"
proof
  assume d: "is_digit (lower_char c)"
  then have "lower_char c \<notin> set ''abcdefghijklmnopqrstuvwxyz''" using digit_not_letter by blast
  then have "lower_char c = c" using lower_char_cases[of c] by blast
  with d show "is_digit c" by simp
next
  assume "is_digit c"
  then show "is_digit (lower_char c)" by (simp add: lower_char_digit)
qed

lemma chatbot_match_at_nondigit: "\<not> is_digit c \<Longrightarrow> chatbot_match_at (c # cs) = None"
  by (simp add: chatbot_match_at_def split: list.splits)

lemma chatbot_time_search_None:
  "\<forall>c\<in>set msg. \<not> is_digit c \<Longrightarrow> chatbot_time_search msg = None"
  by (induction msg) (simp_all add: chatbot_match_at_nondigit)

lemma no_digit_lower: "(\<forall>c\<in>set (lower m). \<not> is_digit c) \<longleftrightarrow> (\<forall>c\<in>set m. \<not> is_digit c)"
  by (simp add: lower_def is_digit_lower_char)

subsection \<open>Where booking records come from\<close>

lemma created_simps:
  "created (Raised e) = None"
  "created (Reply r b) = b"
  by (simp_all add: created_def)

lemma app_other_branches_created:
  "created (snd (app_hospital_branch cat c s)) = None"
  "created (snd (app_doctor_branch cat c msg s)) = None"
  "created (snd (app_symptom_branch cat predict c um s)) = None"
  by (simp_all add: app_hospital_branch_def app_doctor_branch_def app_symptom_branch_def
        Let_def created_simps)

lemma app_check_created:
  "app_check_and_book u x t doc d ds ts = Reply r (Some b) \<Longrightarrow> b_time b = ts"
  by (auto simp: app_check_and_book_def split: option.splits if_splits)

lemma app_booking_branch_created:
  "created (snd (app_booking_branch cat u x msg s)) = Some b \<Longrightarrow> b_time b = app_time_str msg"
  by (auto simp: app_booking_branch_def Let_def created_simps
        split: option.splits if_splits outcome.splits dest: app_check_created)

lemma app_turn_created:
  assumes "created (snd (app_turn cat predict u x m s)) = Some b"
  shows "b_time b = app_time_str (lower m)"
proof -
  from assms have
    "created (snd (app_booking_branch cat u x (lower m) (app_enter cat m s))) = Some b"
    by (simp add: app_turn_def Let_def record_reply_simps app_other_branches_created
          created_simps split: if_splits)
  then show ?thesis by (rule app_booking_branch_created)
qed

lemma chatbot_other_branches_created:
  "created (snd (chatbot_hospital_branch cat c s)) = None"
  "created (snd (chatbot_doctor_branch cat c s)) = None"
  "created (snd (chatbot_symptom_branch cat predict c um s)) = None"
  by (simp_all add: chatbot_hospital_branch_def chatbot_doctor_branch_def
        chatbot_symptom_branch_def Let_def created_simps)

lemma chatbot_booking_branch_created:
  "created (snd (chatbot_booking_branch cat u x c msg s)) = Some b \<Longrightarrow>
     b_time b = chatbot_time_str msg"
  by (auto simp: chatbot_booking_branch_def Let_def created_simps
        split: option.splits if_splits)

lemma chatbot_turn_created:
  assumes "created (snd (chatbot_turn cat predict u x m s)) = Some b"
  shows "b_time b = chatbot_time_str (lower m)"
proof -
  from assms have
    "created (snd (chatbot_booking_branch cat u x (chatbot_city cat u m) (lower m)
                (chatbot_enter cat m s))) = Some b"
    by (simp add: chatbot_turn_def Let_def record_reply_simps chatbot_other_branches_created
          created_simps split: if_splits)
  then show ?thesis by (rule chatbot_booking_branch_created)
qed

lemma chat_other_branches_created:
  "created (snd (chat_symptom_branch cat predict reply u msg s)) = None"
  "created (snd (chat_doctor_branch cat u msg_l s)) = None"
  "created (snd (chat_hospital_branch cat u det s)) = None"
  by (simp_all add: chat_symptom_branch_def chat_doctor_branch_def chat_hospital_branch_def
        Let_def created_simps)

lemma chat_booking_branch_no_time:
  "chat_parsed_time msg = None \<Longrightarrow>
     created (snd (chat_booking_branch cat u x msg msg_l s)) = None"
  by (simp add: chat_booking_branch_def Let_def created_simps split: option.splits)

lemma chat_turn_no_time:
  assumes "chat_parsed_time (strip m) = None"
  shows "created (snd (chat_turn cat predict reply u x m s)) = None"
  using assms
  by (simp add: chat_turn_def Let_def record_reply_simps chat_other_branches_created
        chat_booking_branch_no_time created_simps)

lemma app_time_search_None: "app_time_search msg = None \<longleftrightarrow> (\<forall>c\<in>set msg. \<not> is_digit c)"
  by (induction msg) auto

lemma chat_time_search_None: "chat_time_search msg = None \<longleftrightarrow> (\<forall>c\<in>set msg. \<not> is_digit c)"
  by (induction msg) auto

lemma set_strip: "set (strip m) \<subseteq> set m"
proof -
  have "set (strip m) \<subseteq> set (dropWhile is_space m)"
    unfolding strip_def using set_dropWhileD by fastforce
  also have "\<dots> \<subseteq> set m" using set_dropWhileD by fastforce
  finally show ?thesis .
qed

subsection \<open>The default time\<close>

lemma chatbot_match_at_shape:
  assumes "length h = 1 \<or> length h = 2" and "\<forall>ch\<in>set h. is_digit ch"
    and "length mm = 2" and "\<forall>ch\<in>set mm. is_digit ch"
  shows "chatbot_match_at (h @ '':'' @ mm @ rest) = Some (h @ '':'' @ mm)"
proof -
  from assms(3) obtain m1 m2 where mm: "mm = [m1, m2]"
    by (cases mm; cases "tl mm") auto
  have nd: "\<not> is_digit CHR '':''" by (simp add: is_digit_def)
  from assms(1) show ?thesis
  proof
    assume "length h = 1"
    then obtain d1 where h: "h = [d1]" by (cases h) auto
    show ?thesis
      using assms(2,4) nd unfolding h mm
      by (cases rest) (simp_all add: chatbot_match_at_def)
  next
    assume "length h = 2"
    then obtain d1 d2 where h: "h = [d1, d2]" by (cases h; cases "tl h") auto
    show ?thesis
      using assms(2,4) unfolding h mm by (simp add: chatbot_match_at_def)
  qed
qed

lemma chatbot_match_at_Some:
  assumes "chatbot_match_at s = Some g"
  shows "\<exists>h mm rest. s = h @ '':'' @ mm @ rest \<and> g = h @ '':'' @ mm \<and>
           (length h = 1 \<or> length h = 2) \<and> (\<forall>ch\<in>set h. is_digit ch) \<and>
           length mm = 2 \<and> (\<forall>ch\<in>set mm. is_digit ch)"
proof -
  consider (short) "length s < 4" | (four) a b c d where "s = [a, b, c, d]"
    | (long) a b c d e r where "s = a # b # c # d # e # r"
    by (cases s; cases "tl s"; cases "tl (tl s)"; cases "tl (tl (tl s))";
        cases "tl (tl (tl (tl s)))") auto
  then show ?thesis
  proof cases
    case short
    then have "chatbot_match_at s = None"
      by (cases s; cases "tl s"; cases "tl (tl s)"; cases "tl (tl (tl s))")
         (auto simp: chatbot_match_at_def)
    with assms show ?thesis by simp
  next
    case four
    with assms have "is_digit a \<and> b = CHR '':'' \<and> is_digit c \<and> is_digit d \<and> g = s"
      by (auto simp: chatbot_match_at_def split: if_splits)
    then show ?thesis
      using four
      by (intro exI[of _ "[a]"] exI[of _ "[c, d]"] exI[of _ "[]"]) simp
  next
    case long
    from assms have
      "(is_digit a \<and> is_digit b \<and> c = CHR '':'' \<and> is_digit d \<and> is_digit e \<and>
        g = [a, b, c, d, e]) \<or>
       (is_digit a \<and> b = CHR '':'' \<and> is_digit c \<and> is_digit d \<and> g = [a, b, c, d])"
      unfolding long by (auto simp: chatbot_match_at_def split: if_splits)
    then show ?thesis
    proof
      assume "is_digit a \<and> is_digit b \<and> c = CHR '':'' \<and> is_digit d \<and> is_digit e \<and>
        g = [a, b, c, d, e]"
      then show ?thesis
        using long
        by (intro exI[of _ "[a, b]"] exI[of _ "[d, e]"] exI[of _ r]) simp
    next
      assume "is_digit a \<and> b = CHR '':'' \<and> is_digit c \<and> is_digit d \<and> g = [a, b, c, d]"
      then show ?thesis
        using long
        by (intro exI[of _ "[a]"] exI[of _ "[c, d]"] exI[of _ "e # r"]) simp
    qed
  qed
qed

lemma chatbot_time_search_Some_iff:
  "(chatbot_time_search msg \<noteq> None) =
     (\<exists>pre h mm rest. msg = pre @ h @ '':'' @ mm @ rest \<and>
        (length h = 1 \<or> length h = 2) \<and> (\<forall>ch\<in>set h. is_digit ch) \<and>
        length mm = 2 \<and> (\<forall>ch\<in>set mm. is_digit ch))"
proof
  assume "chatbot_time_search msg \<noteq> None"
  then show "\<exists>pre h mm rest. msg = pre @ h @ '':'' @ mm @ rest \<and>
        (length h = 1 \<or> length h = 2) \<and> (\<forall>ch\<in>set h. is_digit ch) \<and>
        length mm = 2 \<and> (\<forall>ch\<in>set mm. is_digit ch)"
  proof (induction msg)
    case Nil
    then show ?case by simp
  next
    case (Cons c cs)
    show ?case
    proof (cases "chatbot_match_at (c # cs)")
      case None
      with Cons.prems have "chatbot_time_search cs \<noteq> None" by simp
      from Cons.IH[OF this] obtain pre h mm rest where
        "cs = pre @ h @ '':'' @ mm @ rest \<and>
         (length h = 1 \<or> length h = 2) \<and> (\<forall>ch\<in>set h. is_digit ch) \<and>
         length mm = 2 \<and> (\<forall>ch\<in>set mm. is_digit ch)" by blast
      then show ?thesis
        by (intro exI[of _ "c # pre"] exI[of _ h] exI[of _ mm] exI[of _ rest]) simp
    next
      case (Some g)
      from chatbot_match_at_Some[OF this] obtain h mm rest where
        "c # cs = h @ '':'' @ mm @ rest \<and> g = h @ '':'' @ mm \<and>
           (length h = 1 \<or> length h = 2) \<and> (\<forall>ch\<in>set h. is_digit ch) \<and>
           length mm = 2 \<and> (\<forall>ch\<in>set mm. is_digit ch)" by blast
      then show ?thesis
        by (intro exI[of _ "[]"] exI[of _ h] exI[of _ mm] exI[of _ rest]) simp
    qed
  qed
next
  assume "\<exists>pre h mm rest. msg = pre @ h @ '':'' @ mm @ rest \<and>
        (length h = 1 \<or> length h = 2) \<and> (\<forall>ch\<in>set h. is_digit ch) \<and>
        length mm = 2 \<and> (\<forall>ch\<in>set mm. is_digit ch)"
  then obtain pre h mm rest where m: "msg = pre @ h @ '':'' @ mm @ rest"
    and s: "length h = 1 \<or> length h = 2" "\<forall>ch\<in>set h. is_digit ch"
       "length mm = 2" "\<forall>ch\<in>set mm. is_digit ch" by blast
  have "chatbot_time_search (pre @ h @ '':'' @ mm @ rest) \<noteq> None"
  proof (induction pre)
    case Nil
    from s(1) have "h \<noteq> []" by auto
    then obtain a r where "h @ '':'' @ mm @ rest = a # r" by (cases h) auto
    then show ?case
      using chatbot_match_at_shape[OF s, of rest] by simp
  next
    case (Cons a pre)
    then show ?case by (simp split: option.splits)
  qed
  then show "chatbot_time_search msg \<noteq> None" by (simp add: m)
qed

lemma chat_turn_no_time_reply:
  assumes "chat_intent (lower (strip m)) = Booking"
    and "map_of (chat_booking_info (hospitals cat) (lower (strip m)) s) ''department'' = Some d"
    and "d \<noteq> []"
    and "chat_city_search (hospitals cat) u (lower (strip m)) (chat_enter cat m s) = c"
    and "c \<noteq> []"
    and "hospitals_for (hospitals cat) c d \<noteq> []"
    and "chat_chosen (hospitals cat) (lower (strip m)) (hospitals_for (hospitals cat) c d) =
           Some t"
    and "first_doctor (doctors cat) t d = Some doc"
    and "chat_parsed_time (strip m) = None"
  shows "snd (chat_turn cat predict reply u x m s) =
           Reply (Ask_missing ((if parsed_date x = None then [''date''] else []) @ [''time'']))
             None"
  using chat_turn_chosen[OF assms(1-7), of predict reply x] assms(8,9) by simp

text \<open>
  C6, as the code has it. Each script has a time pattern of its own. The pattern of
  \<open>app.py\<close>, \<open>(\d{1,2})(?:[:.](\d{2}))?\s*(am|pm)?\<close>, and the one of \<open>chat.py\<close>,
  \<open>(\d{1,2})(?::|\.?)(\d{2})?\s*(am|pm)?\<close>, match at any digit, the minutes being
  optional: they find no match exactly when the message has no digit. The pattern of
  \<open>chatbot.py\<close>, \<open>(\d{1,2}):(\d{2})\<close>, finds a match exactly when the message
  contains one or two digits, a colon and two digits in a row. When the pattern of \<open>app.py\<close> finds no match in the message, the time string
  of a turn of \<open>app.py\<close> is the default "10:00" and every booking record the turn
  creates carries that time; the same holds in \<open>chatbot.py\<close> for its pattern. When the
  pattern of \<open>chat.py\<close> finds no match, the parsed time stays \<open>None\<close>, no default is
  put in its place and the turn creates no booking record; with department, city,
  hospital and doctor resolved, the turn asks for the time, and for the date as well when
  no date was parsed. A message without a match for \<open>app.py\<close> has no match for the other
  two scripts either.
\<close>

theorem no_time_pattern_default:
  "(app_time_search (lower m) = None \<longrightarrow>
      app_time_str (lower m) = ''10:00'' \<and>
      (created (snd (app_turn cat predict u x m s)) = Some b \<longrightarrow> b_time b = ''10:00'') \<and>
      chatbot_time_search (lower m) = None \<and>
      chat_time_search (strip m) = None) \<and>
   (chatbot_time_search (lower m) = None \<longrightarrow>
      chatbot_time_str (lower m) = ''10:00'' \<and>
      (created (snd (chatbot_turn cat predict u x m s)) = Some b \<longrightarrow> b_time b = ''10:00'')) \<and>
   (chat_time_search (strip m) = None \<longrightarrow>
      chat_parsed_time (strip m) = None \<and>
      created (snd (chat_turn cat predict reply u x m s)) = None \<and>
      (chat_intent (lower (strip m)) = Booking \<and>
       map_of (chat_booking_info (hospitals cat) (lower (strip m)) s) ''department'' = Some d \<and>
       d \<noteq> [] \<and>
       chat_city_search (hospitals cat) u (lower (strip m)) (chat_enter cat m s) = c \<and>
       c \<noteq> [] \<and>
       hospitals_for (hospitals cat) c d \<noteq> [] \<and>
       chat_chosen (hospitals cat) (lower (strip m)) (hospitals_for (hospitals cat) c d) =
         Some t \<and>
       first_doctor (doctors cat) t d = Some doc \<longrightarrow>
         snd (chat_turn cat predict reply u x m s) =
           Reply (Ask_missing ((if parsed_date x = None then [''date''] else []) @ [''time'']))
             None)) \<and>
   (app_time_search msg = None) = (\<forall>ch\<in>set msg. \<not> is_digit ch) \<and>
   (chat_time_search msg = None) = (\<forall>ch\<in>set msg. \<not> is_digit ch) \<and>
   (chatbot_time_search msg \<noteq> None) =
     (\<exists>pre h mm rest. msg = pre @ h @ '':'' @ mm @ rest \<and>
        (length h = 1 \<or> length h = 2) \<and> (\<forall>ch\<in>set h. is_digit ch) \<and>
        length mm = 2 \<and> (\<forall>ch\<in>set mm. is_digit ch))"
proof (intro conjI impI)
  {
    assume h: "app_time_search (lower m) = None"
    then have nd: "\<forall>c\<in>set m. \<not> is_digit c"
      by (simp add: app_time_search_None no_digit_lower)
    then have nl: "\<forall>c\<in>set (lower m). \<not> is_digit c" by (simp add: no_digit_lower)
    from nd have ns: "\<forall>c\<in>set (strip m). \<not> is_digit c" using set_strip[of m] by blast
    show a: "app_time_str (lower m) = ''10:00''"
      using h by (simp add: app_time_str_def)
    show "chatbot_time_search (lower m) = None"
      using chatbot_time_search_None[OF nl] .
    show "chat_time_search (strip m) = None"
      using ns by (simp add: chat_time_search_None)
    assume "created (snd (app_turn cat predict u x m s)) = Some b"
    then show "b_time b = ''10:00''"
      using app_turn_created[of cat predict u x m s b] a by simp
  }
  {
    assume h: "chatbot_time_search (lower m) = None"
    then show a: "chatbot_time_str (lower m) = ''10:00''"
      by (simp add: chatbot_time_str_def)
    assume "created (snd (chatbot_turn cat predict u x m s)) = Some b"
    then show "b_time b = ''10:00''"
      using chatbot_turn_created[of cat predict u x m s b] a by simp
  }
  {
    assume h: "chat_time_search (strip m) = None"
    then show p: "chat_parsed_time (strip m) = None" by (simp add: chat_parsed_time_def)
    show "created (snd (chat_turn cat predict reply u x m s)) = None"
      using chat_turn_no_time[OF p] .
    assume "chat_intent (lower (strip m)) = Booking \<and>
       map_of (chat_booking_info (hospitals cat) (lower (strip m)) s) ''department'' = Some d \<and>
       d \<noteq> [] \<and>
       chat_city_search (hospitals cat) u (lower (strip m)) (chat_enter cat m s) = c \<and>
       c \<noteq> [] \<and>
       hospitals_for (hospitals cat) c d \<noteq> [] \<and>
       chat_chosen (hospitals cat) (lower (strip m)) (hospitals_for (hospitals cat) c d) =
         Some t \<and>
       first_doctor (doctors cat) t d = Some doc"
    then show "snd (chat_turn cat predict reply u x m s) =
           Reply (Ask_missing ((if parsed_date x = None then [''date''] else []) @ [''time'']))
             None"
      using chat_turn_no_time_reply[of m cat s d u c t doc predict reply x] p by blast
  }
  show "(app_time_search msg = None) = (\<forall>ch\<in>set msg. \<not> is_digit ch)"
    by (rule app_time_search_None)
  show "(chat_time_search msg = None) = (\<forall>ch\<in>set msg. \<not> is_digit ch)"
    by (rule chat_time_search_None)
  show "(chatbot_time_search msg \<noteq> None) =
     (\<exists>pre h mm rest. msg = pre @ h @ '':'' @ mm @ rest \<and>
        (length h = 1 \<or> length h = 2) \<and> (\<forall>ch\<in>set h. is_digit ch) \<and>
        length mm = 2 \<and> (\<forall>ch\<in>set mm. is_digit ch))"
    by (rule chatbot_time_search_Some_iff)
qed

theorem no_time_pattern_default_witness:
  "app_time_search (lower ''book an appointment'') = None \<and>
   app_time_str (lower ''book an appointment'') = ''10:00'' \<and>
   created (snd (app_turn demo_catalog demo_predict demo_user no_date_ext
                   ''book an appointment'' demo_session)) =
     Some \<lparr>b_id = ''A3F9C21'', b_patient = ''Demo User'', b_age = Some 25,
            b_gender = Some ''Male'', b_hospital = ''City Care'',
            b_department = ''Cardiology'', b_doctor = ''Dr. Nair'',
            b_date = ''2026-11-04'', b_time = ''10:00''\<rparr> \<and>
   chatbot_time_search (lower ''book on dec 15'') = None \<and>
   chatbot_time_str (lower ''book on dec 15'') = ''10:00'' \<and>
   created (snd (chatbot_turn demo_catalog demo_predict demo_user demo_ext ''book on dec 15''
                   demo_session)) =
     Some \<lparr>b_id = ''A3F9C21'', b_patient = ''Demo User'', b_age = Some 25,
            b_gender = Some ''Male'', b_hospital = ''City Care'',
            b_department = ''Cardiology'', b_doctor = ''Dr. Nair'',
            b_date = ''2026-12-15'', b_time = ''10:00''\<rparr> \<and>
   b_time (the (created (snd (app_turn demo_catalog demo_predict demo_user no_date_ext
                                ''book an appointment'' demo_session)))) = ''10:00'' \<and>
   b_time (the (created (snd (chatbot_turn demo_catalog demo_predict demo_user demo_ext
                                ''book on dec 15'' demo_session)))) = ''10:00'' \<and>
   chatbot_time_search (lower ''book an appointment'') = None \<and>
   app_time_search ''an appointment'' = None \<and>
   chat_time_search ''an appointment'' = None \<and>
   chatbot_time_search ''book at 11:00'' \<noteq> None \<and>
   chat_time_search (strip ''book an appointment'') = None \<and>
   chat_parsed_time (strip ''book an appointment'') = None \<and>
   created (snd (chat_turn demo_catalog demo_predict demo_reply demo_user no_date_ext
                   ''book an appointment'' demo_session)) = None \<and>
   snd (chat_turn demo_catalog demo_predict demo_reply demo_user no_date_ext
          ''book an appointment'' demo_session) =
     Reply (Ask_missing [''date'', ''time'']) None"
proof -
  note T = no_time_pattern_default[where cat = demo_catalog and predict = demo_predict
             and u = demo_user and s = demo_session and reply = demo_reply]
  have h: "app_time_search (lower ''book an appointment'') = None" by code_simp
  have a: "created (snd (app_turn demo_catalog demo_predict demo_user no_date_ext
                   ''book an appointment'' demo_session)) =
     Some \<lparr>b_id = ''A3F9C21'', b_patient = ''Demo User'', b_age = Some 25,
            b_gender = Some ''Male'', b_hospital = ''City Care'',
            b_department = ''Cardiology'', b_doctor = ''Dr. Nair'',
            b_date = ''2026-11-04'', b_time = ''10:00''\<rparr>"
    by code_simp
  note TA = T[where m = "''book an appointment''" and x = no_date_ext, THEN conjunct1,
              THEN mp, OF h]
  from TA have a1: "app_time_str (lower ''book an appointment'') = ''10:00''"
    and a2: "chat_time_search (strip ''book an appointment'') = None"
    and a3: "chatbot_time_search (lower ''book an appointment'') = None"
    by blast+
  note TA' = T[where m = "''book an appointment''" and x = no_date_ext
               and b = "the (created (snd (app_turn demo_catalog demo_predict demo_user
                          no_date_ext ''book an appointment'' demo_session)))",
               THEN conjunct1, THEN mp, OF h, THEN conjunct2, THEN conjunct1]
  have a4: "b_time (the (created (snd (app_turn demo_catalog demo_predict demo_user no_date_ext
                                ''book an appointment'' demo_session)))) = ''10:00''"
    by (rule TA'[THEN mp]) (simp add: a)
  have hb: "chatbot_time_search (lower ''book on dec 15'') = None" by code_simp
  have b: "created (snd (chatbot_turn demo_catalog demo_predict demo_user demo_ext
                   ''book on dec 15'' demo_session)) =
     Some \<lparr>b_id = ''A3F9C21'', b_patient = ''Demo User'', b_age = Some 25,
            b_gender = Some ''Male'', b_hospital = ''City Care'',
            b_department = ''Cardiology'', b_doctor = ''Dr. Nair'',
            b_date = ''2026-12-15'', b_time = ''10:00''\<rparr>"
    by code_simp
  note TB = T[where m = "''book on dec 15''" and x = demo_ext, THEN conjunct2,
              THEN conjunct1, THEN mp, OF hb]
  from TB have b1: "chatbot_time_str (lower ''book on dec 15'') = ''10:00''" by blast
  note TB' = T[where m = "''book on dec 15''" and x = demo_ext
               and b = "the (created (snd (chatbot_turn demo_catalog demo_predict demo_user
                          demo_ext ''book on dec 15'' demo_session)))",
               THEN conjunct2, THEN conjunct1, THEN mp, OF hb, THEN conjunct2]
  have b2: "b_time (the (created (snd (chatbot_turn demo_catalog demo_predict demo_user
                                demo_ext ''book on dec 15'' demo_session)))) = ''10:00''"
    by (rule TB'[THEN mp]) (simp add: b)
  have c: "chat_intent (lower (strip ''book an appointment'')) = Booking \<and>
       map_of (chat_booking_info (hospitals demo_catalog) (lower (strip ''book an appointment''))
                 demo_session) ''department'' = Some ''Cardiology'' \<and>
       ''Cardiology'' \<noteq> [] \<and>
       chat_city_search (hospitals demo_catalog) demo_user
         (lower (strip ''book an appointment''))
         (chat_enter demo_catalog ''book an appointment'' demo_session) = ''Kochi'' \<and>
       ''Kochi'' \<noteq> [] \<and>
       hospitals_for (hospitals demo_catalog) ''Kochi'' ''Cardiology'' \<noteq> [] \<and>
       chat_chosen (hospitals demo_catalog) (lower (strip ''book an appointment''))
         (hospitals_for (hospitals demo_catalog) ''Kochi'' ''Cardiology'') = Some city_care \<and>
       first_doctor (doctors demo_catalog) city_care ''Cardiology'' = Some dr_nair"
    by code_simp
  note TC = T[where m = "''book an appointment''" and x = no_date_ext
              and d = "''Cardiology''" and c = "''Kochi''" and t = city_care and doc = dr_nair,
              THEN conjunct2, THEN conjunct2, THEN conjunct1, THEN mp, OF a2]
  from TC have c1: "chat_parsed_time (strip ''book an appointment'') = None"
    and c2: "created (snd (chat_turn demo_catalog demo_predict demo_reply demo_user no_date_ext
                   ''book an appointment'' demo_session)) = None"
    by blast+
  have nd: "parsed_date no_date_ext = None" by code_simp
  from TC c have "snd (chat_turn demo_catalog demo_predict demo_reply demo_user no_date_ext
          ''book an appointment'' demo_session) =
     Reply (Ask_missing ((if parsed_date no_date_ext = None then [''date''] else []) @
                         [''time''])) None"
    by blast
  then have c3: "snd (chat_turn demo_catalog demo_predict demo_reply demo_user no_date_ext
          ''book an appointment'' demo_session) =
     Reply (Ask_missing [''date'', ''time'']) None"
    by (simp add: nd)
  have dg: "\<forall>ch\<in>set ''an appointment''. \<not> is_digit ch" by code_simp
  from T[where msg = "''an appointment''", THEN conjunct2, THEN conjunct2, THEN conjunct2,
         THEN conjunct1] dg
  have d1: "app_time_search ''an appointment'' = None" by blast
  from T[where msg = "''an appointment''", THEN conjunct2, THEN conjunct2, THEN conjunct2,
         THEN conjunct2, THEN conjunct1] dg
  have d2: "chat_time_search ''an appointment'' = None" by blast
  have sh: "''book at 11:00'' = ''book at '' @ ''11'' @ '':'' @ ''00'' @ [] \<and>
            (length ''11'' = 1 \<or> length ''11'' = 2) \<and> (\<forall>ch\<in>set ''11''. is_digit ch) \<and>
            length ''00'' = 2 \<and> (\<forall>ch\<in>set ''00''. is_digit ch)"
    by code_simp
  then have ex: "\<exists>pre h mm rest. ''book at 11:00'' = pre @ h @ '':'' @ mm @ rest \<and>
            (length h = 1 \<or> length h = 2) \<and> (\<forall>ch\<in>set h. is_digit ch) \<and>
            length mm = 2 \<and> (\<forall>ch\<in>set mm. is_digit ch)"
    by blast
  from T[where msg = "''book at 11:00''", THEN conjunct2, THEN conjunct2, THEN conjunct2,
         THEN conjunct2, THEN conjunct2] ex
  have d3: "chatbot_time_search ''book at 11:00'' \<noteq> None" by blast
  from h a a1 a2 a3 a4 hb b b1 b2 c1 c2 c3 d1 d2 d3 show ?thesis by blast
qed

text \<open>
  In \<open>chat.py\<close> a booking message without a time pattern, with department, city,
  hospital and doctor all known, is not booked at "10:00": the turn asks for date and
  time and keeps the slots. In \<open>app.py\<close> the message "book on dec 15" has no hour
  followed by minutes, yet the pattern matches at "15" and the booking is made at 15:00,
  not at the default; \<open>chatbot.py\<close> books the same message at 10:00.
\<close>

theorem chat_asks_for_time_counterexample:
  "app_time_search (lower ''book an appointment'') = None \<and>
   chat_time_search (strip ''book an appointment'') = None \<and>
   chat_intent (lower (strip ''book an appointment'')) = Booking \<and>
   chat_parsed_time (strip ''book an appointment'') = None \<and>
   chat_turn demo_catalog demo_predict demo_reply demo_user no_date_ext ''book an appointment''
       demo_session =
     (demo_session
        \<lparr>chat_history := [User_msg ''book an appointment'',
                           Assistant_msg (Ask_missing [''date'', ''time''])],
          pending_booking := [(''department'', ''Cardiology''), (''city'', ''Kochi''),
                              (''hospital_id'', ''H1'')]\<rparr>,
      Reply (Ask_missing [''date'', ''time'']) None) \<and>
   app_intent (lower ''book on dec 15'') (last_intent demo_session) = Booking \<and>
   app_time_search (lower ''book on dec 15'') = Some (''15'', None, None) \<and>
   app_time_str (lower ''book on dec 15'') = ''15:00'' \<and>
   created (snd (app_turn demo_catalog demo_predict demo_user demo_ext ''book on dec 15''
                   demo_session)) =
     Some \<lparr>b_id = ''A3F9C21'', b_patient = ''Demo User'', b_age = Some 25,
            b_gender = Some ''Male'', b_hospital = ''City Care'',
            b_department = ''Cardiology'', b_doctor = ''Dr. Nair'',
            b_date = ''2026-12-15'', b_time = ''15:00''\<rparr> \<and>
   chatbot_time_str (lower ''book on dec 15'') = ''10:00''"
  by code_simp

section \<open>The hospital and the doctor of a booking\<close>




section \<open>The order of the department resolver\<close>

lemma find_in_set: "x \<in> set xs \<Longrightarrow> P x \<Longrightarrow> find P xs \<noteq> None"
  by (auto simp: find_None_iff)

text \<open>
  C4, as the code has it. When the symptom table cannot be read, the resolver is the
  keyword table alone: the department of the first entry, in the order of the table, one
  of whose keywords occurs in the lower-cased input, else "General Medicine". When the
  table is read, the resolver never consults the keyword table: it returns the department
  of the first row whose lower-cased phrase occurs in the input, whatever the fuzzy
  matcher would say; else the department of the first row whose phrase is the fuzzy
  match; else "General Medicine".
\<close>

theorem resolver_stage_order:
  "predict_department_tf cm None user_input = Inr (fallback_symptom_mapping user_input) \<and>
   (r \<in> set df \<and> py_in (lower (symptom r)) (lower user_input) \<longrightarrow>
      (\<exists>pre row post. df = pre @ row # post \<and>
          py_in (lower (symptom row)) (lower user_input) \<and>
          (\<forall>p\<in>set pre. \<not> py_in (lower (symptom p)) (lower user_input)) \<and>
          predict_department_tf cm (Some df) user_input = Inr (department row))) \<and>
   (find (\<lambda>row. py_in (lower (symptom row)) (lower user_input)) df = None \<and>
    cm (lower user_input) (map (\<lambda>row. lower (symptom row)) df) = ms # rest \<and>
    ms \<in> set (map (\<lambda>row. lower (symptom row)) df) \<longrightarrow>
      (\<exists>pre row post. df = pre @ row # post \<and> lower (symptom row) = ms \<and>
          (\<forall>p\<in>set pre. lower (symptom p) \<noteq> ms) \<and>
          predict_department_tf cm (Some df) user_input = Inr (department row))) \<and>
   (find (\<lambda>row. py_in (lower (symptom row)) (lower user_input)) df = None \<and>
    cm (lower user_input) (map (\<lambda>row. lower (symptom row)) df) = [] \<longrightarrow>
      predict_department_tf cm (Some df) user_input = Inr ''General Medicine'') \<and>
   (e \<in> set symptom_map \<and> any_in (snd e) (lower user_input) \<longrightarrow>
      (\<exists>pre entry post. symptom_map = pre @ entry # post \<and>
          any_in (snd entry) (lower user_input) \<and>
          (\<forall>p\<in>set pre. \<not> any_in (snd p) (lower user_input)) \<and>
          fallback_symptom_mapping user_input = fst entry)) \<and>
   (find (\<lambda>entry. any_in (snd entry) (lower user_input)) symptom_map = None \<longrightarrow>
      fallback_symptom_mapping user_input = ''General Medicine'')"
proof (intro conjI impI)
  show "predict_department_tf cm None user_input = Inr (fallback_symptom_mapping user_input)"
    by (simp add: predict_department_tf_def)
next
  assume "r \<in> set df \<and> py_in (lower (symptom r)) (lower user_input)"
  then obtain row where
    f: "find (\<lambda>row. py_in (lower (symptom row)) (lower user_input)) df = Some row"
    using find_in_set[of r df "\<lambda>row. py_in (lower (symptom row)) (lower user_input)"] by auto
  from find_first[OF f] obtain pre post where
    "py_in (lower (symptom row)) (lower user_input)" "df = pre @ row # post"
    "\<forall>p\<in>set pre. \<not> py_in (lower (symptom p)) (lower user_input)" by blast
  moreover have "predict_department_tf cm (Some df) user_input = Inr (department row)"
    using f by (simp add: predict_department_tf_def Let_def)
  ultimately show "\<exists>pre row post. df = pre @ row # post \<and>
          py_in (lower (symptom row)) (lower user_input) \<and>
          (\<forall>p\<in>set pre. \<not> py_in (lower (symptom p)) (lower user_input)) \<and>
          predict_department_tf cm (Some df) user_input = Inr (department row)" by blast
next
  assume a: "find (\<lambda>row. py_in (lower (symptom row)) (lower user_input)) df = None \<and>
    cm (lower user_input) (map (\<lambda>row. lower (symptom row)) df) = ms # rest \<and>
    ms \<in> set (map (\<lambda>row. lower (symptom row)) df)"
  then obtain r' where "r' \<in> set df" "lower (symptom r') = ms" by auto
  then obtain row where f: "find (\<lambda>row. lower (symptom row) = ms) df = Some row"
    using find_in_set[of r' df "\<lambda>row. lower (symptom row) = ms"] by auto
  from find_first[OF f] obtain pre post where
    "lower (symptom row) = ms" "df = pre @ row # post"
    "\<forall>p\<in>set pre. lower (symptom p) \<noteq> ms" by blast
  moreover have "predict_department_tf cm (Some df) user_input = Inr (department row)"
    using f a by (simp add: predict_department_tf_def Let_def)
  ultimately show "\<exists>pre row post. df = pre @ row # post \<and> lower (symptom row) = ms \<and>
          (\<forall>p\<in>set pre. lower (symptom p) \<noteq> ms) \<and>
          predict_department_tf cm (Some df) user_input = Inr (department row)" by blast
next
  assume "find (\<lambda>row. py_in (lower (symptom row)) (lower user_input)) df = None \<and>
    cm (lower user_input) (map (\<lambda>row. lower (symptom row)) df) = []"
  then show "predict_department_tf cm (Some df) user_input = Inr ''General Medicine''"
    by (simp add: predict_department_tf_def Let_def)
next
  assume "e \<in> set symptom_map \<and> any_in (snd e) (lower user_input)"
  then obtain entry where
    f: "find (\<lambda>entry. any_in (snd entry) (lower user_input)) symptom_map = Some entry"
    using find_in_set[of e symptom_map "\<lambda>entry. any_in (snd entry) (lower user_input)"] by auto
  from find_first[OF f] obtain pre post where
    "any_in (snd entry) (lower user_input)" "symptom_map = pre @ entry # post"
    "\<forall>p\<in>set pre. \<not> any_in (snd p) (lower user_input)" by blast
  moreover have "fallback_symptom_mapping user_input = fst entry"
    using f by (simp add: fallback_symptom_mapping_def Let_def)
  ultimately show "\<exists>pre entry post. symptom_map = pre @ entry # post \<and>
          any_in (snd entry) (lower user_input) \<and>
          (\<forall>p\<in>set pre. \<not> any_in (snd p) (lower user_input)) \<and>
          fallback_symptom_mapping user_input = fst entry" by blast
next
  assume "find (\<lambda>entry. any_in (snd entry) (lower user_input)) symptom_map = None"
  then show "fallback_symptom_mapping user_input = ''General Medicine''"
    by (simp add: fallback_symptom_mapping_def Let_def)
qed

theorem resolver_stage_order_witness:
  "hd (tl demo_symptoms2) \<in> set demo_symptoms2 \<and>
   py_in (lower (symptom (hd (tl demo_symptoms2)))) (lower ''I have chest pain'') \<and>
   (\<exists>pre row post. demo_symptoms2 = pre @ row # post \<and>
       py_in (lower (symptom row)) (lower ''I have chest pain'') \<and>
       (\<forall>p\<in>set pre. \<not> py_in (lower (symptom p)) (lower ''I have chest pain'')) \<and>
       predict_department_tf no_close_match (Some demo_symptoms2) ''I have chest pain'' =
         Inr (department row)) \<and>
   predict_department_tf no_close_match (Some demo_symptoms2) ''I have chest pain'' =
     Inr ''Cardiology'' \<and>
   find (\<lambda>row. py_in (lower (symptom row)) (lower ''Chest'')) demo_symptoms2 = None \<and>
   prefix_match (lower ''Chest'') (map (\<lambda>row. lower (symptom row)) demo_symptoms2) =
     [''chest pain''] \<and>
   (\<exists>pre row post. demo_symptoms2 = pre @ row # post \<and> lower (symptom row) = ''chest pain'' \<and>
       (\<forall>p\<in>set pre. lower (symptom p) \<noteq> ''chest pain'') \<and>
       predict_department_tf prefix_match (Some demo_symptoms2) ''Chest'' =
         Inr (department row)) \<and>
   predict_department_tf prefix_match (Some demo_symptoms2) ''Chest'' = Inr ''Cardiology'' \<and>
   find (\<lambda>row. py_in (lower (symptom row)) (lower ''heart trouble'')) demo_symptoms = None \<and>
   predict_department_tf no_close_match (Some demo_symptoms) ''heart trouble'' =
     Inr ''General Medicine'' \<and>
   predict_department_tf no_close_match None ''heart trouble'' = Inr ''Cardiology'' \<and>
   fallback_symptom_mapping ''see you soon'' = ''General Medicine''"
proof -
  have a: "hd (tl demo_symptoms2) \<in> set demo_symptoms2 \<and>
           py_in (lower (symptom (hd (tl demo_symptoms2)))) (lower ''I have chest pain'')"
    by code_simp
  have a': "predict_department_tf no_close_match (Some demo_symptoms2) ''I have chest pain'' =
              Inr ''Cardiology''" by code_simp
  have b: "find (\<lambda>row. py_in (lower (symptom row)) (lower ''Chest'')) demo_symptoms2 = None \<and>
           prefix_match (lower ''Chest'') (map (\<lambda>row. lower (symptom row)) demo_symptoms2) =
             ''chest pain'' # [] \<and>
           ''chest pain'' \<in> set (map (\<lambda>row. lower (symptom row)) demo_symptoms2)"
    by code_simp
  have b': "predict_department_tf prefix_match (Some demo_symptoms2) ''Chest'' =
              Inr ''Cardiology''" by code_simp
  have d: "find (\<lambda>row. py_in (lower (symptom row)) (lower ''heart trouble'')) demo_symptoms =
             None \<and>
           no_close_match (lower ''heart trouble'')
             (map (\<lambda>row. lower (symptom row)) demo_symptoms) = []"
    by code_simp
  have c': "fallback_symptom_mapping ''heart trouble'' = ''Cardiology''" by code_simp
  have e: "find (\<lambda>entry. any_in (snd entry) (lower ''see you soon'')) symptom_map = None"
    by code_simp
  note T = resolver_stage_order
  from T[of no_close_match "''I have chest pain''" "hd (tl demo_symptoms2)" demo_symptoms2] a
  have A: "\<exists>pre row post. demo_symptoms2 = pre @ row # post \<and>
       py_in (lower (symptom row)) (lower ''I have chest pain'') \<and>
       (\<forall>p\<in>set pre. \<not> py_in (lower (symptom p)) (lower ''I have chest pain'')) \<and>
       predict_department_tf no_close_match (Some demo_symptoms2) ''I have chest pain'' =
         Inr (department row)" by blast
  from T[of prefix_match "''Chest''" _ demo_symptoms2 "''chest pain''" "[]"] b
  have B: "\<exists>pre row post. demo_symptoms2 = pre @ row # post \<and>
       lower (symptom row) = ''chest pain'' \<and>
       (\<forall>p\<in>set pre. lower (symptom p) \<noteq> ''chest pain'') \<and>
       predict_department_tf prefix_match (Some demo_symptoms2) ''Chest'' =
         Inr (department row)" by blast
  from T[of no_close_match "''heart trouble''" _ demo_symptoms] d
  have D: "predict_department_tf no_close_match (Some demo_symptoms) ''heart trouble'' =
             Inr ''General Medicine''" by blast
  from T[of no_close_match "''heart trouble''"] c'
  have C: "predict_department_tf no_close_match None ''heart trouble'' = Inr ''Cardiology''"
    by simp
  from T[of _ "''see you soon''"] e
  have E: "fallback_symptom_mapping ''see you soon'' = ''General Medicine''" by blast
  from a a' b b' d A B C D E show ?thesis by simp
qed

text \<open>
  The table is read, no phrase of it occurs in the input and none is close to it. The
  keyword table has "heart" under Cardiology, and the resolver answers
  "General Medicine": stage (c) is not applied after stage (b).
\<close>

theorem keyword_table_skipped_counterexample:
  "find (\<lambda>row. py_in (lower (symptom row)) (lower ''heart trouble'')) demo_symptoms = None \<and>
   no_close_match (lower ''heart trouble'') (map (\<lambda>row. lower (symptom row)) demo_symptoms) = [] \<and>
   fallback_symptom_mapping ''heart trouble'' = ''Cardiology'' \<and>
   predict_department_tf no_close_match (Some demo_symptoms) ''heart trouble'' =
     Inr ''General Medicine'' \<and>
   predict_department_tf no_close_match None ''heart trouble'' = Inr ''Cardiology''"
  by code_simp

section \<open>The pending slot mapping over a session\<close>

subsection \<open>The keys of the pending mapping\<close>

lemma keys_update: "fst ` set (AList.update k v al) = insert k (fst ` set al)"
  using dom_update[of k v al] by simp

lemma keys_within_simps:
  "keys_within K (s\<lparr>chat_history := h\<rparr>) = keys_within K s"
  "keys_within K (s\<lparr>last_intent := i\<rparr>) = keys_within K s"
  "keys_within K (s\<lparr>city := c\<rparr>) = keys_within K s"
  "keys_within K (s\<lparr>user := w\<rparr>) = keys_within K s"
  "keys_within K (s\<lparr>pending_booking := []\<rparr>)"
  "keys_within K (s\<lparr>pending_booking := [(''department'', d), (''city'', c')]\<rparr>) =
     (''department'' \<in> K \<and> ''city'' \<in> K)"
  by (auto simp: keys_within_def)

lemma keys_within_enter:
  "keys_within K (app_enter cat m s) = keys_within K s"
  "keys_within K (chat_enter cat m s) = keys_within K s"
  "keys_within K (chatbot_enter cat m s) = keys_within K s"
  by (simp_all add: keys_within_def enter_frame)

lemma keys_within_record_reply:
  "keys_within K (fst (record_reply p)) = keys_within K (fst p)"
  by (simp add: keys_within_def record_reply_simps)

lemma keys_within_store_date:
  "''date'' \<in> K \<Longrightarrow> keys_within K s \<Longrightarrow> keys_within K (app_store_date x s)"
  by (simp add: keys_within_def app_store_date_def keys_update split: option.splits)

lemma app_branches_keys:
  assumes "''department'' \<in> K" "''city'' \<in> K" "''date'' \<in> K" "keys_within K s"
  shows "keys_within K (fst (app_hospital_branch cat c s))"
    and "keys_within K (fst (app_doctor_branch cat c msg s))"
    and "keys_within K (fst (app_symptom_branch cat predict c um s))"
    and "keys_within K (fst (app_booking_branch cat u x msg s))"
  using assms keys_within_store_date[OF assms(3) assms(4), of x]
  by (simp_all add: app_hospital_branch_def app_doctor_branch_def app_symptom_branch_def
        app_booking_branch_def Let_def keys_within_simps split: option.splits outcome.splits)

lemma app_turn_keys:
  assumes "''department'' \<in> K" "''city'' \<in> K" "''date'' \<in> K" "keys_within K s"
  shows "keys_within K (fst (app_turn cat predict u x m s))"
proof -
  have e: "keys_within K (app_enter cat m s)" using assms(4) by (simp add: keys_within_enter)
  show ?thesis
    using app_branches_keys[OF assms(1-3) e]
    by (simp add: app_turn_def Let_def keys_within_record_reply keys_within_simps e)
qed

lemma chat_check_keys:
  "keys_within K s \<Longrightarrow> keys_within K (fst (chat_check_and_book u x h d dept dt tm s))"
  by (simp add: chat_check_and_book_def keys_within_simps split: option.splits)

lemma keys_within_three_updates:
  assumes "''department'' \<in> K" "''city'' \<in> K" "''hospital_id'' \<in> K" "keys_within K s"
  shows "keys_within K (s\<lparr>pending_booking :=
           AList.update ''city'' c (AList.update ''department'' d
             (AList.update ''hospital_id'' i (pending_booking s)))\<rparr>)"
  using assms by (simp add: keys_within_def keys_update)

lemma chat_branches_keys:
  assumes "''department'' \<in> K" "''city'' \<in> K" "''hospital_id'' \<in> K" "keys_within K s"
  shows "keys_within K (fst (chat_symptom_branch cat predict reply u msg s))"
    and "keys_within K (fst (chat_doctor_branch cat u msg_l s))"
    and "keys_within K (fst (chat_hospital_branch cat u det s))"
    and "keys_within K (fst (chat_booking_branch cat u x msg msg_l s))"
  using assms chat_check_keys[OF assms(4)] keys_within_three_updates[OF assms]
  by (simp_all add: chat_symptom_branch_def chat_doctor_branch_def chat_hospital_branch_def
        chat_booking_branch_def Let_def keys_within_simps split: option.splits)

lemma chat_turn_keys:
  assumes "''department'' \<in> K" "''city'' \<in> K" "''hospital_id'' \<in> K" "keys_within K s"
  shows "keys_within K (fst (chat_turn cat predict reply u x m s))"
proof -
  have e: "keys_within K (chat_enter cat m s)" using assms(4) by (simp add: keys_within_enter)
  show ?thesis
    using chat_branches_keys[OF assms(1-3) e]
    by (simp add: chat_turn_def Let_def keys_within_record_reply e)
qed

lemma chatbot_branches_keys:
  assumes "''department'' \<in> K" "''city'' \<in> K" "keys_within K s"
  shows "keys_within K (fst (chatbot_hospital_branch cat c s))"
    and "keys_within K (fst (chatbot_doctor_branch cat c s))"
    and "keys_within K (fst (chatbot_symptom_branch cat predict c um s))"
    and "keys_within K (fst (chatbot_booking_branch cat u x c msg s))"
  using assms
  by (simp_all add: chatbot_hospital_branch_def chatbot_doctor_branch_def
        chatbot_symptom_branch_def chatbot_booking_branch_def Let_def keys_within_simps
        split: option.splits)

lemma chatbot_turn_keys:
  assumes "''department'' \<in> K" "''city'' \<in> K" "keys_within K s"
  shows "keys_within K (fst (chatbot_turn cat predict u x m s))"
proof -
  have e: "keys_within K (chatbot_enter cat m s)"
    using assms(3) by (simp add: keys_within_enter)
  show ?thesis
    using chatbot_branches_keys[OF assms(1-2) e]
    by (simp add: chatbot_turn_def Let_def keys_within_record_reply keys_within_simps e)
qed

lemma run_invariant:
  assumes "\<And>ev s. P s \<Longrightarrow> P (fst (step ev s))" and "P s"
  shows "P (fst (run step evs s))"
  using assms(2)
proof (induction evs arbitrary: s)
  case Nil
  then show ?case by simp
next
  case (Cons ev evs)
  from Cons.prems have "P (fst (step ev s))" by (rule assms(1))
  from Cons.IH[OF this] show ?case by (simp add: case_prod_beta Let_def)
qed

lemma app_step_keys:
  assumes "''department'' \<in> K" "''city'' \<in> K" "''date'' \<in> K" "keys_within K s"
  shows "keys_within K (fst (app_step cat predict ev s))"
  using assms app_turn_keys[OF assms(1-3) assms(4)]
  by (cases ev) (simp_all add: app_step_def keys_within_simps case_prod_beta
        split: option.splits)

lemma chat_step_keys:
  assumes "''department'' \<in> K" "''city'' \<in> K" "''hospital_id'' \<in> K" "keys_within K s"
  shows "keys_within K (fst (chat_step cat predict reply ev s))"
  using assms chat_turn_keys[OF assms(1-3) assms(4)]
  by (cases ev) (simp_all add: chat_step_def keys_within_simps case_prod_beta
        split: option.splits)

lemma init_keys: "keys_within K init_session"
  by (simp add: keys_within_def init_session_def)

lemma chatbot_step_keys:
  assumes "''department'' \<in> K" "''city'' \<in> K" "keys_within K s"
  shows "keys_within K (fst (chatbot_step cat predict ev s))"
  using assms chatbot_turn_keys[OF assms(1-2) assms(3)]
  by (cases ev) (simp_all add: chatbot_step_def keys_within_simps init_keys case_prod_beta
        split: option.splits)

subsection \<open>The mapping after a booking\<close>

lemma chat_check_clears:
  "created (snd (chat_check_and_book u x t doc d dt ts s)) = Some b \<Longrightarrow> b_age b \<noteq> None \<Longrightarrow>
     pending_booking (fst (chat_check_and_book u x t doc d dt ts s)) = []"
  by (auto simp: chat_check_and_book_def created_simps split: option.splits if_splits)

lemma chat_booking_branch_clears:
  "created (snd (chat_booking_branch cat u x msg msg_l s)) = Some b \<Longrightarrow> b_age b \<noteq> None \<Longrightarrow>
     pending_booking (fst (chat_booking_branch cat u x msg msg_l s)) = []"
  by (auto simp: chat_booking_branch_def Let_def created_simps
        split: option.splits if_splits dest: chat_check_clears)

lemma chat_turn_clears:
  assumes "created (snd (chat_turn cat predict reply u x m s)) = Some b" and "b_age b \<noteq> None"
  shows "pending_booking (fst (chat_turn cat predict reply u x m s)) = []"
proof -
  from assms(1) have i: "chat_intent (lower (strip m)) = Booking"
    by (simp add: chat_turn_def Let_def record_reply_simps chat_other_branches_created
          created_simps split: if_splits)
  show ?thesis
    using assms chat_booking_branch_clears[of cat u x "strip m" "lower (strip m)"
            "chat_enter cat m s" b]
    unfolding chat_turn_booking[OF i] by (simp add: record_reply_simps)
qed

lemma app_booking_branch_pending:
  "created (snd (app_booking_branch cat u x msg s)) = Some b \<Longrightarrow>
     pending_booking (fst (app_booking_branch cat u x msg s)) =
       pending_booking (app_store_date x s)"
  by (auto simp: app_booking_branch_def Let_def created_simps
        split: option.splits if_splits outcome.splits)

lemma app_turn_created_pending:
  assumes "created (snd (app_turn cat predict u x m s)) = Some b"
  shows "pending_booking s \<noteq> [] \<and>
         pending_booking (fst (app_turn cat predict u x m s)) =
           (case parsed_date x of
              Some dt \<Rightarrow> AList.update ''date'' dt (pending_booking s)
            | None \<Rightarrow> pending_booking s)"
proof -
  from assms have i: "app_intent (lower m) (last_intent s) = Booking"
    and ne: "pending_booking s \<noteq> []"
    by (simp_all add: app_turn_def Let_def record_reply_simps app_other_branches_created
          created_simps enter_frame split: if_splits)
  show ?thesis
    using assms ne app_booking_branch_pending[of cat u x "lower m" "app_enter cat m s" b]
    unfolding app_turn_booking[OF i ne]
    by (simp add: record_reply_simps app_date_enter enter_frame split: option.splits)
qed

lemma chatbot_turn_created_pending:
  assumes "created (snd (chatbot_turn cat predict u x m s)) = Some b"
  shows "pending_booking s \<noteq> [] \<and>
         pending_booking (fst (chatbot_turn cat predict u x m s)) = pending_booking s"
proof -
  from assms have i: "chatbot_intent (lower m) (last_intent s) = Booking"
    and ne: "pending_booking s \<noteq> []"
    by (simp_all add: chatbot_turn_def Let_def record_reply_simps
          chatbot_other_branches_created created_simps enter_frame split: if_splits)
  have "pending_booking (fst (chatbot_booking_branch cat u x (chatbot_city cat u m) (lower m)
          (chatbot_enter cat m s))) = pending_booking s"
    by (simp add: chatbot_booking_branch_def Let_def enter_frame split: option.splits)
  then show ?thesis
    using i ne by (simp add: chatbot_turn_def Let_def record_reply_simps enter_frame)
qed

text \<open>
  C3, as the code has it. At every point of a session the keys of \<open>pending_booking\<close>
  are drawn from department, city and date in \<open>app.py\<close>, from department, city and
  hospital_id in \<open>chat.py\<close>, and from department and city in \<open>chatbot.py\<close>; no time is
  ever stored. Logout empties the mapping in the three scripts, and so does
  "Clear Conversation" in \<open>chat.py\<close>. A booking made by \<open>chat.py\<close> after its
  availability check (the record then carries age and gender) empties the mapping. A
  booking made by \<open>app.py\<close> or \<open>chatbot.py\<close> leaves the mapping as it was, non-empty,
  \<open>app.py\<close> adding the parsed date.
\<close>

theorem pending_slot_keys_and_resets:
  "(keys_within {''department'', ''city'', ''date''} s \<longrightarrow>
      keys_within {''department'', ''city'', ''date''}
        (fst (run (app_step cat predict) evs s))) \<and>
   (keys_within {''department'', ''city'', ''hospital_id''} s \<longrightarrow>
      keys_within {''department'', ''city'', ''hospital_id''}
        (fst (run (chat_step cat predict reply) evs s))) \<and>
   (keys_within {''department'', ''city''} s \<longrightarrow>
      keys_within {''department'', ''city''} (fst (run (chatbot_step cat predict) evs s))) \<and>
   (user s \<noteq> None \<longrightarrow>
      pending_booking (fst (app_step cat predict Logout s)) = [] \<and>
      pending_booking (fst (chat_step cat predict reply Logout s)) = [] \<and>
      pending_booking (fst (chat_step cat predict reply Clear_conversation s)) = [] \<and>
      pending_booking (fst (chatbot_step cat predict Logout s)) = []) \<and>
   (created (snd (chat_turn cat predict reply u x m s)) = Some b \<and> b_age b \<noteq> None \<longrightarrow>
      pending_booking (fst (chat_turn cat predict reply u x m s)) = []) \<and>
   (created (snd (app_turn cat predict u x m s)) = Some b' \<longrightarrow>
      pending_booking s \<noteq> [] \<and>
      pending_booking (fst (app_turn cat predict u x m s)) =
        (case parsed_date x of
           Some dt \<Rightarrow> AList.update ''date'' dt (pending_booking s)
         | None \<Rightarrow> pending_booking s)) \<and>
   (created (snd (chatbot_turn cat predict u x m s)) = Some b' \<longrightarrow>
      pending_booking s \<noteq> [] \<and>
      pending_booking (fst (chatbot_turn cat predict u x m s)) = pending_booking s)"
proof (intro conjI impI)
  assume "keys_within {''department'', ''city'', ''date''} s"
  then show "keys_within {''department'', ''city'', ''date''}
        (fst (run (app_step cat predict) evs s))"
    by (rule run_invariant[rotated]) (rule app_step_keys, simp_all)
next
  assume "keys_within {''department'', ''city'', ''hospital_id''} s"
  then show "keys_within {''department'', ''city'', ''hospital_id''}
        (fst (run (chat_step cat predict reply) evs s))"
    by (rule run_invariant[rotated]) (rule chat_step_keys, simp_all)
next
  assume "keys_within {''department'', ''city''} s"
  then show "keys_within {''department'', ''city''} (fst (run (chatbot_step cat predict) evs s))"
    by (rule run_invariant[rotated]) (rule chatbot_step_keys, simp_all)
next
  assume u: "user s \<noteq> None"
  then show "pending_booking (fst (app_step cat predict Logout s)) = []"
    and "pending_booking (fst (chat_step cat predict reply Logout s)) = []"
    and "pending_booking (fst (chat_step cat predict reply Clear_conversation s)) = []"
    and "pending_booking (fst (chatbot_step cat predict Logout s)) = []"
    by (auto simp: app_step_def chat_step_def chatbot_step_def init_session_def)
next
  assume "created (snd (chat_turn cat predict reply u x m s)) = Some b \<and> b_age b \<noteq> None"
  then show "pending_booking (fst (chat_turn cat predict reply u x m s)) = []"
    using chat_turn_clears by blast
next
  assume a: "created (snd (app_turn cat predict u x m s)) = Some b'"
  from app_turn_created_pending[OF a]
  show "pending_booking s \<noteq> []"
    and "pending_booking (fst (app_turn cat predict u x m s)) =
        (case parsed_date x of
           Some dt \<Rightarrow> AList.update ''date'' dt (pending_booking s)
         | None \<Rightarrow> pending_booking s)" by simp_all
next
  assume a: "created (snd (chatbot_turn cat predict u x m s)) = Some b'"
  from chatbot_turn_created_pending[OF a]
  show "pending_booking s \<noteq> []"
    and "pending_booking (fst (chatbot_turn cat predict u x m s)) = pending_booking s"
    by simp_all
qed

theorem pending_slot_keys_and_resets_witness:
  "keys_within {''department'', ''city'', ''date''} init_session \<and>
   keys_within {''department'', ''city'', ''date''}
     (fst (run (app_step demo_catalog demo_predict)
             [Login demo_user, Message ''I have chest pain'' no_date_ext,
              Message ''book at 11pm'' demo_ext] init_session)) \<and>
   keys_within {''department'', ''city'', ''hospital_id''}
     (fst (run (chat_step demo_catalog demo_predict demo_reply)
             [Login demo_user, Message ''I have chest pain'' no_date_ext,
              Message ''book an appointment'' demo_ext] init_session)) \<and>
   keys_within {''department'', ''city''}
     (fst (run (chatbot_step demo_catalog demo_predict)
             [Login demo_user, Message ''I have chest pain'' no_date_ext] init_session)) \<and>
   user demo_session \<noteq> None \<and>
   pending_booking demo_session \<noteq> [] \<and>
   pending_booking (fst (app_step demo_catalog demo_predict Logout demo_session)) = [] \<and>
   pending_booking (fst (chat_step demo_catalog demo_predict demo_reply Logout demo_session)) =
     [] \<and>
   pending_booking (fst (chat_step demo_catalog demo_predict demo_reply Clear_conversation
                           demo_session)) = [] \<and>
   pending_booking (fst (chatbot_step demo_catalog demo_predict Logout demo_session)) = [] \<and>
   b_age (the (created (snd (chat_turn demo_catalog demo_predict demo_reply demo_user demo_ext
                               ''book at 5 pm on dec 15'' demo_session)))) = Some 25 \<and>
   pending_booking (fst (chat_turn demo_catalog demo_predict demo_reply demo_user demo_ext
                           ''book at 5 pm on dec 15'' demo_session)) = [] \<and>
   pending_booking (fst (app_turn demo_catalog demo_predict demo_user demo_ext ''book at 9am''
                           demo_session)) =
     AList.update ''date'' ''2026-12-15'' (pending_booking demo_session) \<and>
   pending_booking (fst (chatbot_turn demo_catalog demo_predict demo_user demo_ext
                           ''book at 23:30'' demo_session)) = pending_booking demo_session"
proof -
  note T = pending_slot_keys_and_resets
  have k1: "keys_within {''department'', ''city'', ''date''} init_session"
    and k2: "keys_within {''department'', ''city'', ''hospital_id''} init_session"
    and k3: "keys_within {''department'', ''city''} init_session"
    by (simp_all add: init_keys)
  have u: "user demo_session \<noteq> None" and ne: "pending_booking demo_session \<noteq> []"
    by code_simp+
  have c: "created (snd (chat_turn demo_catalog demo_predict demo_reply demo_user demo_ext
                           ''book at 5 pm on dec 15'' demo_session)) =
             Some \<lparr>b_id = ''A3F9C21'', b_patient = ''Demo User'', b_age = Some 25,
                    b_gender = Some ''Male'', b_hospital = ''City Care'',
                    b_department = ''Cardiology'', b_doctor = ''Dr. Nair'',
                    b_date = ''2026-12-15'', b_time = ''17:00''\<rparr>"
    by code_simp
  have a: "created (snd (app_turn demo_catalog demo_predict demo_user demo_ext ''book at 9am''
                           demo_session)) =
             Some \<lparr>b_id = ''A3F9C21'', b_patient = ''Demo User'', b_age = Some 25,
                    b_gender = Some ''Male'', b_hospital = ''City Care'',
                    b_department = ''Cardiology'', b_doctor = ''Dr. Nair'',
                    b_date = ''2026-12-15'', b_time = ''09:00''\<rparr>"
    by code_simp
  have b: "created (snd (chatbot_turn demo_catalog demo_predict demo_user demo_ext
                           ''book at 23:30'' demo_session)) =
             Some \<lparr>b_id = ''A3F9C21'', b_patient = ''Demo User'', b_age = Some 25,
                    b_gender = Some ''Male'', b_hospital = ''City Care'',
                    b_department = ''Cardiology'', b_doctor = ''Dr. Nair'',
                    b_date = ''2026-12-15'', b_time = ''23:30''\<rparr>"
    by code_simp
  have pd: "parsed_date demo_ext = Some ''2026-12-15''" by code_simp
  from T[of init_session demo_catalog demo_predict
           "[Login demo_user, Message ''I have chest pain'' no_date_ext,
             Message ''book at 11pm'' demo_ext]"] k1
  have K1: "keys_within {''department'', ''city'', ''date''}
     (fst (run (app_step demo_catalog demo_predict)
             [Login demo_user, Message ''I have chest pain'' no_date_ext,
              Message ''book at 11pm'' demo_ext] init_session))" by blast
  from T[of init_session demo_catalog demo_predict
           "[Login demo_user, Message ''I have chest pain'' no_date_ext,
             Message ''book an appointment'' demo_ext]" demo_reply] k2
  have K2: "keys_within {''department'', ''city'', ''hospital_id''}
     (fst (run (chat_step demo_catalog demo_predict demo_reply)
             [Login demo_user, Message ''I have chest pain'' no_date_ext,
              Message ''book an appointment'' demo_ext] init_session))" by blast
  from T[of init_session demo_catalog demo_predict
           "[Login demo_user, Message ''I have chest pain'' no_date_ext]"] k3
  have K3: "keys_within {''department'', ''city''}
     (fst (run (chatbot_step demo_catalog demo_predict)
             [Login demo_user, Message ''I have chest pain'' no_date_ext] init_session))"
    by blast
  from T[of demo_session demo_catalog demo_predict _ demo_reply] u
  have R: "pending_booking (fst (app_step demo_catalog demo_predict Logout demo_session)) = [] \<and>
   pending_booking (fst (chat_step demo_catalog demo_predict demo_reply Logout demo_session)) =
     [] \<and>
   pending_booking (fst (chat_step demo_catalog demo_predict demo_reply Clear_conversation
                           demo_session)) = [] \<and>
   pending_booking (fst (chatbot_step demo_catalog demo_predict Logout demo_session)) = []"
    by blast
  from T[where s = demo_session and cat = demo_catalog and predict = demo_predict
           and reply = demo_reply and u = demo_user and x = demo_ext
           and m = "''book at 5 pm on dec 15''"
           and b = "\<lparr>b_id = ''A3F9C21'', b_patient = ''Demo User'', b_age = Some 25,
                    b_gender = Some ''Male'', b_hospital = ''City Care'',
                    b_department = ''Cardiology'', b_doctor = ''Dr. Nair'',
                    b_date = ''2026-12-15'', b_time = ''17:00''\<rparr>"] c
  have C: "pending_booking (fst (chat_turn demo_catalog demo_predict demo_reply demo_user
                                   demo_ext ''book at 5 pm on dec 15'' demo_session)) = []"
    by simp
  from T[where s = demo_session and cat = demo_catalog and predict = demo_predict
           and u = demo_user and x = demo_ext and m = "''book at 9am''"
           and b' = "\<lparr>b_id = ''A3F9C21'', b_patient = ''Demo User'', b_age = Some 25,
                    b_gender = Some ''Male'', b_hospital = ''City Care'',
                    b_department = ''Cardiology'', b_doctor = ''Dr. Nair'',
                    b_date = ''2026-12-15'', b_time = ''09:00''\<rparr>"] a pd
  have A: "pending_booking (fst (app_turn demo_catalog demo_predict demo_user demo_ext
                                   ''book at 9am'' demo_session)) =
             AList.update ''date'' ''2026-12-15'' (pending_booking demo_session)"
    by simp
  from T[where s = demo_session and cat = demo_catalog and predict = demo_predict
           and u = demo_user and x = demo_ext and m = "''book at 23:30''"
           and b' = "\<lparr>b_id = ''A3F9C21'', b_patient = ''Demo User'', b_age = Some 25,
                    b_gender = Some ''Male'', b_hospital = ''City Care'',
                    b_department = ''Cardiology'', b_doctor = ''Dr. Nair'',
                    b_date = ''2026-12-15'', b_time = ''23:30''\<rparr>"] b
  have B: "pending_booking (fst (chatbot_turn demo_catalog demo_predict demo_user demo_ext
                           ''book at 23:30'' demo_session)) = pending_booking demo_session"
    by simp
  from k1 K1 K2 K3 u ne R c C A B show ?thesis by simp
qed

text \<open>
  A booking is made in \<open>app.py\<close> and in \<open>chatbot.py\<close>, and the mapping is not emptied:
  it still holds department and city (and the date in \<open>app.py\<close>). In \<open>chat.py\<close> a turn
  that asks for the missing time stores the key hospital_id, which is none of department,
  city, hospital, date and time.
\<close>

theorem booking_keeps_slots_counterexample:
  "created (snd (app_turn demo_catalog demo_predict demo_user demo_ext ''book at 9am''
                   demo_session)) \<noteq> None \<and>
   pending_booking (fst (app_turn demo_catalog demo_predict demo_user demo_ext ''book at 9am''
                           demo_session)) =
     [(''department'', ''Cardiology''), (''city'', ''Kochi''), (''date'', ''2026-12-15'')] \<and>
   created (snd (chatbot_turn demo_catalog demo_predict demo_user demo_ext ''book at 9:00''
                   demo_session)) \<noteq> None \<and>
   pending_booking (fst (chatbot_turn demo_catalog demo_predict demo_user demo_ext
                           ''book at 9:00'' demo_session)) =
     [(''department'', ''Cardiology''), (''city'', ''Kochi'')] \<and>
   map fst (pending_booking (fst (chat_turn demo_catalog demo_predict demo_reply demo_user
                                    demo_ext ''book an appointment'' demo_session))) =
     [''department'', ''city'', ''hospital_id''] \<and>
   ''hospital_id'' \<notin> set [''department'', ''city'', ''hospital'', ''date'', ''time'']"
  by code_simp

section \<open>Slots from one turn to the next\<close>

subsection \<open>What a turn does to the slots\<close>

lemma app_turn_booking_pending:
  assumes "app_intent (lower m) (last_intent s) = Booking"
    and "map_of (pending_booking s) ''city'' = Some c"
    and "map_of (pending_booking s) ''department'' = Some d"
  shows "pending_booking (fst (app_turn cat predict u x m s)) =
           (case parsed_date x of
              Some dt \<Rightarrow> AList.update ''date'' dt (pending_booking s)
            | None \<Rightarrow> pending_booking s)"
proof -
  have ne: "pending_booking s \<noteq> []" using assms(2) by auto
  have "pending_booking (fst (app_booking_branch cat u x (lower m) (app_enter cat m s))) =
          pending_booking (app_store_date x (app_enter cat m s))"
    using assms(2,3)
    by (simp add: app_booking_branch_def Let_def enter_frame split: option.splits outcome.splits)
  then show ?thesis
    unfolding app_turn_booking[OF assms(1) ne]
    by (simp add: record_reply_simps app_date_enter enter_frame split: option.splits)
qed

lemma app_turn_symptom_pending:
  assumes "app_intent (lower m) (last_intent s) = Symptom"
    and "hospitals_for (hospitals cat) (app_city cat u m s) (predict m) \<noteq> []"
  shows "pending_booking (fst (app_turn cat predict u x m s)) =
           [(''department'', predict m), (''city'', app_city cat u m s)]"
  using assms
  by (simp add: app_turn_def Let_def enter_frame record_reply_simps app_symptom_branch_def)

lemma chat_booking_info_plain:
  assumes "detect_department hs msg_l = None" and "chat_selected_hospital hs msg_l = None"
  shows "chat_booking_info hs msg_l s = pending_booking s"
  using assms by (simp add: chat_booking_info_def Let_def)

lemma chat_city_search_plain:
  assumes "detect_department hs msg_l = None" and "chat_selected_hospital hs msg_l = None"
    and "map_of (pending_booking s) ''city'' = Some c" and "c \<noteq> []"
  shows "chat_city_search hs u msg_l (chat_enter cat m s) = c"
  using assms
  by (simp add: chat_city_search_def chat_booking_info_plain chat_booking_info_enter or_str_def)

lemma map_of_three_updates:
  "map_of (AList.update ''city'' c (AList.update ''department'' d
             (AList.update ''hospital_id'' i p))) k =
     (if k = ''city'' then Some c else if k = ''department'' then Some d
      else if k = ''hospital_id'' then Some i else map_of p k)"
  by (simp add: update_conv')

lemma chat_booking_branch_ask:
  assumes "snd (chat_booking_branch cat u x msg msg_l s) = Reply (Ask_missing ms) None"
  shows "\<exists>i. pending_booking (fst (chat_booking_branch cat u x msg msg_l s)) =
           AList.update ''city'' (chat_city_search (hospitals cat) u msg_l s)
             (AList.update ''department''
                (the (map_of (chat_booking_info (hospitals cat) msg_l s) ''department''))
                (AList.update ''hospital_id'' i (pending_booking s)))"
  using assms
  by (auto simp: chat_booking_branch_def Let_def chat_check_and_book_def
        split: option.splits if_splits)

lemma app_turn_symptom_frame:
  assumes "app_intent (lower m) (last_intent s) = Symptom"
  shows "pending_booking (fst (app_turn cat predict u x m s)) =
           (if hospitals_for (hospitals cat) (app_city cat u m s) (predict m) \<noteq> []
            then [(''department'', predict m), (''city'', app_city cat u m s)]
            else pending_booking s)"
  using assms
  by (simp add: app_turn_def Let_def enter_frame record_reply_simps app_symptom_branch_def)

lemma app_doctor_branch_frame:
  "(snd (app_doctor_branch cat cty msg s) = Reply (Doctors_in dd cc l) None \<longrightarrow>
      pending_booking (fst (app_doctor_branch cat cty msg s)) =
        [(''department'', dd), (''city'', cc)]) \<and>
   ((\<forall>dd cc l. snd (app_doctor_branch cat cty msg s) \<noteq> Reply (Doctors_in dd cc l) None) \<longrightarrow>
      pending_booking (fst (app_doctor_branch cat cty msg s)) = pending_booking s)"
  by (simp add: app_doctor_branch_def Let_def)

lemma app_turn_doctor_frame:
  assumes "app_intent (lower m) (last_intent s) = Doctor_list"
  shows "(snd (app_turn cat predict u x m s) = Reply (Doctors_in dd cc l) None \<longrightarrow>
            pending_booking (fst (app_turn cat predict u x m s)) =
              [(''department'', dd), (''city'', cc)]) \<and>
         ((\<forall>dd cc l. snd (app_turn cat predict u x m s) \<noteq> Reply (Doctors_in dd cc l) None) \<longrightarrow>
            pending_booking (fst (app_turn cat predict u x m s)) = pending_booking s)"
proof -
  have t: "app_turn cat predict u x m s =
             record_reply (app_doctor_branch cat (app_city cat u m s) (lower m)
                             (app_enter cat m s))"
    using assms by (simp add: app_turn_def Let_def enter_frame)
  show ?thesis
    unfolding t record_reply_simps
    using app_doctor_branch_frame[of cat "app_city cat u m s" "lower m" "app_enter cat m s"
            dd cc l]
    by (simp add: enter_frame)
qed

lemma app_booking_branch_missing_key:
  assumes "map_of (pending_booking s) ''city'' = None \<or>
           map_of (pending_booking s) ''department'' = None"
  shows "app_booking_branch cat u x msg s = (s, Raised KeyError)"
  using assms by (auto simp: app_booking_branch_def split: option.splits)

lemma app_turn_other_frame:
  assumes "app_intent (lower m) (last_intent s) \<noteq> Symptom"
    and "app_intent (lower m) (last_intent s) \<noteq> Doctor_list"
    and "\<not> (app_intent (lower m) (last_intent s) = Booking \<and>
            map_of (pending_booking s) ''city'' \<noteq> None \<and>
            map_of (pending_booking s) ''department'' \<noteq> None)"
  shows "pending_booking (fst (app_turn cat predict u x m s)) = pending_booking s"
proof (cases "app_intent (lower m) (last_intent s) = Booking \<and> pending_booking s \<noteq> []")
  case True
  then have k: "map_of (pending_booking (app_enter cat m s)) ''city'' = None \<or>
                map_of (pending_booking (app_enter cat m s)) ''department'' = None"
    using assms(3) by (simp add: enter_frame)
  show ?thesis
    using True
    by (simp add: app_turn_booking app_booking_branch_missing_key[OF k] record_reply_simps
          enter_frame)
next
  case False
  then show ?thesis
    using assms(1,2)
    by (auto simp: app_turn_def Let_def enter_frame record_reply_simps app_hospital_branch_def)
qed

lemma chatbot_turn_symptom_frame:
  assumes "chatbot_intent (lower m) (last_intent s) = Symptom"
  shows "pending_booking (fst (chatbot_turn cat predict u x m s)) =
           [(''department'', predict m), (''city'', chatbot_city cat u m)]"
  using assms
  by (simp add: chatbot_turn_def Let_def enter_frame record_reply_simps
        chatbot_symptom_branch_def)

lemma chatbot_booking_branch_frame:
  "pending_booking (fst (chatbot_booking_branch cat u x cty msg s)) = pending_booking s"
  by (simp add: chatbot_booking_branch_def Let_def split: option.splits)

lemma chatbot_turn_other_frame:
  assumes "chatbot_intent (lower m) (last_intent s) \<noteq> Symptom"
  shows "pending_booking (fst (chatbot_turn cat predict u x m s)) = pending_booking s"
  using assms
  by (simp add: chatbot_turn_def Let_def enter_frame record_reply_simps
        chatbot_hospital_branch_def chatbot_doctor_branch_def chatbot_booking_branch_frame)

lemma chat_turn_symptom_frame:
  assumes "chat_intent (lower (strip m)) = Symptom"
  shows "pending_booking (fst (chat_turn cat predict reply u x m s)) =
           [(''department'', predict (strip m)),
            (''city'', or_str (city (chat_enter cat m s)) (user_city u))]"
  using assms
  by (simp add: chat_turn_def Let_def record_reply_simps chat_symptom_branch_def)

lemma chat_doctor_branch_frame:
  "(snd (chat_doctor_branch cat u msg_l s) = Reply (Doctors_in dd cc l) None \<longrightarrow>
      pending_booking (fst (chat_doctor_branch cat u msg_l s)) =
        [(''department'', dd), (''city'', cc)]) \<and>
   ((\<forall>dd cc l. snd (chat_doctor_branch cat u msg_l s) \<noteq> Reply (Doctors_in dd cc l) None) \<longrightarrow>
      pending_booking (fst (chat_doctor_branch cat u msg_l s)) = pending_booking s)"
  by (simp add: chat_doctor_branch_def Let_def)

lemma chat_turn_doctor_frame:
  assumes "chat_intent (lower (strip m)) = Doctor_list"
  shows "(snd (chat_turn cat predict reply u x m s) = Reply (Doctors_in dd cc l) None \<longrightarrow>
            pending_booking (fst (chat_turn cat predict reply u x m s)) =
              [(''department'', dd), (''city'', cc)]) \<and>
         ((\<forall>dd cc l. snd (chat_turn cat predict reply u x m s) \<noteq>
                        Reply (Doctors_in dd cc l) None) \<longrightarrow>
            pending_booking (fst (chat_turn cat predict reply u x m s)) = pending_booking s)"
proof -
  have t: "chat_turn cat predict reply u x m s =
             record_reply (chat_doctor_branch cat u (lower (strip m)) (chat_enter cat m s))"
    using assms by (simp add: chat_turn_def Let_def)
  show ?thesis
    unfolding t record_reply_simps
    using chat_doctor_branch_frame[of cat u "lower (strip m)" "chat_enter cat m s" dd cc l]
    by (simp add: enter_frame)
qed

lemma chat_turn_other_frame:
  assumes "chat_intent (lower (strip m)) \<noteq> Symptom"
    and "chat_intent (lower (strip m)) \<noteq> Doctor_list"
    and "chat_intent (lower (strip m)) \<noteq> Booking"
  shows "pending_booking (fst (chat_turn cat predict reply u x m s)) = pending_booking s"
  using assms
  by (simp add: chat_turn_def Let_def record_reply_simps enter_frame chat_hospital_branch_def)

lemma chat_turn_need:
  assumes "chat_intent (lower (strip m)) = Booking"
    and "\<not> truthy (map_of (chat_booking_info (hospitals cat) (lower (strip m)) s)
                     ''department'') \<or>
         chat_city_search (hospitals cat) u (lower (strip m)) (chat_enter cat m s) = []"
  shows "snd (chat_turn cat predict reply u x m s) = Reply Need_department_and_city None"
    and "pending_booking (fst (chat_turn cat predict reply u x m s)) = pending_booking s"
proof -
  have b: "chat_booking_branch cat u x (strip m) (lower (strip m)) (chat_enter cat m s) =
             (chat_enter cat m s, Reply Need_department_and_city None)"
    using assms(2) by (auto simp: chat_booking_branch_def Let_def chat_booking_info_enter)
  show "snd (chat_turn cat predict reply u x m s) = Reply Need_department_and_city None"
    unfolding chat_turn_booking[OF assms(1)] b by (simp add: record_reply_simps)
  show "pending_booking (fst (chat_turn cat predict reply u x m s)) = pending_booking s"
    unfolding chat_turn_booking[OF assms(1)] b by (simp add: record_reply_simps enter_frame)
qed

lemma chat_turn_ask:
  assumes "chat_intent (lower (strip m)) = Booking"
    and "snd (chat_turn cat predict reply u x m s) = Reply (Ask_missing ms) None"
  shows "\<exists>i. pending_booking (fst (chat_turn cat predict reply u x m s)) =
           AList.update ''city''
             (chat_city_search (hospitals cat) u (lower (strip m)) (chat_enter cat m s))
             (AList.update ''department''
                (the (map_of (chat_booking_info (hospitals cat) (lower (strip m)) s)
                        ''department''))
                (AList.update ''hospital_id'' i (pending_booking s)))"
proof -
  from assms(2) have "snd (chat_booking_branch cat u x (strip m) (lower (strip m))
                   (chat_enter cat m s)) = Reply (Ask_missing ms) None"
    unfolding chat_turn_booking[OF assms(1)] by (simp add: record_reply_simps)
  from chat_booking_branch_ask[OF this] show ?thesis
    unfolding chat_turn_booking[OF assms(1)]
    by (simp add: record_reply_simps chat_booking_info_enter enter_frame)
qed

lemma chat_check_and_book_frame:
  "pending_booking (fst (chat_check_and_book u x t doc d dt ts s)) =
     (case created (snd (chat_check_and_book u x t doc d dt ts s)) of
        None \<Rightarrow> pending_booking s
      | Some b \<Rightarrow> if b_age b = None then pending_booking s else [])"
  by (auto simp: chat_check_and_book_def created_simps split: option.splits)

lemma chat_booking_branch_frame:
  assumes "\<forall>ms. snd (chat_booking_branch cat u x msg msg_l s) \<noteq> Reply (Ask_missing ms) None"
  shows "pending_booking (fst (chat_booking_branch cat u x msg msg_l s)) =
     (case created (snd (chat_booking_branch cat u x msg msg_l s)) of
        None \<Rightarrow> pending_booking s
      | Some b \<Rightarrow> if b_age b = None then pending_booking s else [])"
  using assms
  by (auto simp: chat_booking_branch_def Let_def created_simps chat_check_and_book_frame
        split: option.splits)

lemma chat_booking_branch_ask_created:
  "snd (chat_booking_branch cat u x msg msg_l s) = Reply (Ask_missing ms) None \<Longrightarrow>
     created (snd (chat_booking_branch cat u x msg msg_l s)) = None"
  by (simp add: created_simps)

lemma chat_turn_booking_frame:
  assumes "chat_intent (lower (strip m)) = Booking"
  shows "(created (snd (chat_turn cat predict reply u x m s)) = Some b \<longrightarrow>
            pending_booking (fst (chat_turn cat predict reply u x m s)) =
              (if b_age b = None then pending_booking s else [])) \<and>
         (created (snd (chat_turn cat predict reply u x m s)) = None \<and>
          (\<forall>ms. snd (chat_turn cat predict reply u x m s) \<noteq> Reply (Ask_missing ms) None) \<longrightarrow>
            pending_booking (fst (chat_turn cat predict reply u x m s)) = pending_booking s)"
proof (intro conjI impI)
  let ?B = "chat_booking_branch cat u x (strip m) (lower (strip m)) (chat_enter cat m s)"
  note t = chat_turn_booking[OF assms, of cat predict reply u x s]
  {
    assume c: "created (snd (chat_turn cat predict reply u x m s)) = Some b"
    then have cb: "created (snd ?B) = Some b" unfolding t by (simp add: record_reply_simps)
    then have "\<forall>ms. snd ?B \<noteq> Reply (Ask_missing ms) None"
      by (auto simp: created_simps)
    from chat_booking_branch_frame[OF this] cb
    show "pending_booking (fst (chat_turn cat predict reply u x m s)) =
              (if b_age b = None then pending_booking s else [])"
      unfolding t by (simp add: record_reply_simps enter_frame)
  }
  {
    assume c: "created (snd (chat_turn cat predict reply u x m s)) = None \<and>
          (\<forall>ms. snd (chat_turn cat predict reply u x m s) \<noteq> Reply (Ask_missing ms) None)"
    then have cb: "created (snd ?B) = None" and na: "\<forall>ms. snd ?B \<noteq> Reply (Ask_missing ms) None"
      unfolding t by (simp_all add: record_reply_simps)
    from chat_booking_branch_frame[OF na] cb
    show "pending_booking (fst (chat_turn cat predict reply u x m s)) = pending_booking s"
      unfolding t by (simp add: record_reply_simps enter_frame)
  }
qed

lemma app_turn_no_hospital:
  assumes "app_intent (lower m) (last_intent s) = Booking"
    and "map_of (pending_booking s) ''city'' = Some c"
    and "map_of (pending_booking s) ''department'' = Some d"
    and "hospitals_for (hospitals cat) c d = []"
  shows "snd (app_turn cat predict u x m s) = Reply (No_hospitals_for d c) None"
proof -
  have ne: "pending_booking s \<noteq> []" using assms(2) by auto
  show ?thesis
    unfolding app_turn_booking[OF assms(1) ne]
    using assms(2-4)
    by (simp add: record_reply_simps app_booking_branch_def Let_def enter_frame)
qed

text \<open>
  C5, as the code has it: what each kind of turn does to the pending mapping.

  Booking turns. In \<open>app.py\<close> a booking turn reads department and city from the mapping,
  looks the hospital up with them, and leaves every slot as it was, the date being
  overwritten when the message carries one. So after a turn has stored department and
  city, a booking turn that only brings a time reuses them. In \<open>chatbot.py\<close> a booking
  turn leaves the mapping as it was and reuses the stored department, but it looks the
  hospital up in the city of the turn (the first city of the table named in the message,
  else the city of the profile), not in the stored city. In \<open>chat.py\<close> a booking turn
  whose message names no department and no hospital takes department and city from the
  mapping. When it asks for a missing date or time it writes department, city and the
  hospital's identifier into the mapping and keeps every other slot; with no department
  and no hospital named, department and city keep their values. When it asks for
  department and city, which it does exactly when it has no department or no city, it
  leaves the mapping untouched. When it creates a booking record after the availability
  check it empties the mapping. Every other booking turn of \<open>chat.py\<close> leaves the
  mapping as it was.

  Other turns. A symptom turn replaces the whole mapping by the newly resolved department
  and the city of the turn, so that any other slot, such as a stored date, is dropped; in
  \<open>app.py\<close> it does so only when hospitals are found and leaves the mapping as it was
  otherwise. A doctor-listing turn of \<open>app.py\<close> or \<open>chat.py\<close> that lists doctors
  replaces the mapping by the department and city it lists them for. Every other turn
  leaves the mapping as it was.
\<close>

theorem booking_turn_keeps_slots:
  "(app_intent (lower m) (last_intent s) = Booking \<and>
    map_of (pending_booking s) ''city'' = Some c \<and>
    map_of (pending_booking s) ''department'' = Some d \<longrightarrow>
      pending_booking (fst (app_turn cat predict u x m s)) =
        (case parsed_date x of
           Some dt \<Rightarrow> AList.update ''date'' dt (pending_booking s)
         | None \<Rightarrow> pending_booking s) \<and>
      map_of (pending_booking (fst (app_turn cat predict u x m s))) ''city'' = Some c \<and>
      map_of (pending_booking (fst (app_turn cat predict u x m s))) ''department'' = Some d \<and>
      (top_hospital (hospitals_for (hospitals cat) c d) = Some t \<and>
       first_doctor (doctors cat) t d = Some doc \<longrightarrow>
         snd (app_turn cat predict u x m s) =
           app_check_and_book u x t doc d (app_date_str x s) (app_time_str (lower m))) \<and>
      (hospitals_for (hospitals cat) c d = [] \<longrightarrow>
         snd (app_turn cat predict u x m s) = Reply (No_hospitals_for d c) None)) \<and>
   (app_intent (lower m) (last_intent s) = Symptom \<longrightarrow>
      pending_booking (fst (app_turn cat predict u x m s)) =
        (if hospitals_for (hospitals cat) (app_city cat u m s) (predict m) \<noteq> []
         then [(''department'', predict m), (''city'', app_city cat u m s)]
         else pending_booking s)) \<and>
   (app_intent (lower m) (last_intent s) = Doctor_list \<longrightarrow>
      (snd (app_turn cat predict u x m s) = Reply (Doctors_in dd cc l) None \<longrightarrow>
         pending_booking (fst (app_turn cat predict u x m s)) =
           [(''department'', dd), (''city'', cc)]) \<and>
      ((\<forall>dd cc l. snd (app_turn cat predict u x m s) \<noteq> Reply (Doctors_in dd cc l) None) \<longrightarrow>
         pending_booking (fst (app_turn cat predict u x m s)) = pending_booking s)) \<and>
   (app_intent (lower m) (last_intent s) \<noteq> Symptom \<and>
    app_intent (lower m) (last_intent s) \<noteq> Doctor_list \<and>
    \<not> (app_intent (lower m) (last_intent s) = Booking \<and>
       map_of (pending_booking s) ''city'' \<noteq> None \<and>
       map_of (pending_booking s) ''department'' \<noteq> None) \<longrightarrow>
      pending_booking (fst (app_turn cat predict u x m s)) = pending_booking s) \<and>
   (chatbot_intent (lower m) (last_intent s) = Booking \<and>
    map_of (pending_booking s) ''department'' = Some d \<longrightarrow>
      (top_hospital (hospitals_for (hospitals cat) (chatbot_city cat u m) d) = Some t \<and>
       first_doctor (doctors cat) t d = Some doc \<longrightarrow>
         snd (chatbot_turn cat predict u x m s) =
           Reply (Booked (doctor_name doc) (hospital_name t)
                    (case parsed_date x of Some dt \<Rightarrow> dt | None \<Rightarrow> today x)
                    (chatbot_time_str (lower m)))
             (Some \<lparr>b_id = new_booking_id x, b_patient = user_name u,
                     b_age = Some (user_age u), b_gender = Some (user_gender u),
                     b_hospital = hospital_name t, b_department = d,
                     b_doctor = doctor_name doc,
                     b_date = (case parsed_date x of Some dt \<Rightarrow> dt | None \<Rightarrow> today x),
                     b_time = chatbot_time_str (lower m)\<rparr>)) \<and>
      (hospitals_for (hospitals cat) (chatbot_city cat u m) d = [] \<longrightarrow>
         snd (chatbot_turn cat predict u x m s) = Reply Empty_response None)) \<and>
   (chatbot_intent (lower m) (last_intent s) = Symptom \<longrightarrow>
      pending_booking (fst (chatbot_turn cat predict u x m s)) =
        [(''department'', predict m), (''city'', chatbot_city cat u m)]) \<and>
   (chatbot_intent (lower m) (last_intent s) \<noteq> Symptom \<longrightarrow>
      pending_booking (fst (chatbot_turn cat predict u x m s)) = pending_booking s) \<and>
   (chat_intent (lower (strip m)) = Booking \<and>
    detect_department (hospitals cat) (lower (strip m)) = None \<and>
    chat_selected_hospital (hospitals cat) (lower (strip m)) = None \<and>
    map_of (pending_booking s) ''city'' = Some c \<and> c \<noteq> [] \<and>
    map_of (pending_booking s) ''department'' = Some d \<longrightarrow>
      chat_booking_info (hospitals cat) (lower (strip m)) s = pending_booking s \<and>
      chat_city_search (hospitals cat) u (lower (strip m)) (chat_enter cat m s) = c \<and>
      (d \<noteq> [] \<and> top_hospital (hospitals_for (hospitals cat) c d) = Some t \<longrightarrow>
         snd (chat_turn cat predict reply u x m s) =
           (case first_doctor (doctors cat) t d of
              None \<Rightarrow> Reply (No_doctors_listed d (hospital_name t)) None
            | Some doc \<Rightarrow>
                if parsed_date x = None \<or> chat_parsed_time (strip m) = None
                then Reply (Ask_missing
                              ((if parsed_date x = None then [''date''] else []) @
                               (if chat_parsed_time (strip m) = None then [''time''] else [])))
                       None
                else snd (chat_check_and_book u x t doc d (the (parsed_date x))
                            (the (chat_parsed_time (strip m))) (chat_enter cat m s)))) \<and>
      (snd (chat_turn cat predict reply u x m s) = Reply (Ask_missing ms) None \<longrightarrow>
         (\<forall>k. k \<noteq> ''hospital_id'' \<longrightarrow>
            map_of (pending_booking (fst (chat_turn cat predict reply u x m s))) k =
              map_of (pending_booking s) k))) \<and>
   (chat_intent (lower (strip m)) = Booking \<and>
    (\<not> truthy (map_of (chat_booking_info (hospitals cat) (lower (strip m)) s)
                 ''department'') \<or>
     chat_city_search (hospitals cat) u (lower (strip m)) (chat_enter cat m s) = []) \<longrightarrow>
      snd (chat_turn cat predict reply u x m s) = Reply Need_department_and_city None \<and>
      pending_booking (fst (chat_turn cat predict reply u x m s)) = pending_booking s) \<and>
   (chat_intent (lower (strip m)) = Booking \<and>
    snd (chat_turn cat predict reply u x m s) = Reply Need_department_and_city None \<longrightarrow>
      (\<not> truthy (map_of (chat_booking_info (hospitals cat) (lower (strip m)) s)
                   ''department'') \<or>
       chat_city_search (hospitals cat) u (lower (strip m)) (chat_enter cat m s) = [])) \<and>
   (chat_intent (lower (strip m)) = Booking \<and>
    snd (chat_turn cat predict reply u x m s) = Reply (Ask_missing ms) None \<longrightarrow>
      (\<exists>i. pending_booking (fst (chat_turn cat predict reply u x m s)) =
         AList.update ''city''
           (chat_city_search (hospitals cat) u (lower (strip m)) (chat_enter cat m s))
           (AList.update ''department''
              (the (map_of (chat_booking_info (hospitals cat) (lower (strip m)) s)
                      ''department''))
              (AList.update ''hospital_id'' i (pending_booking s))))) \<and>
   (chat_intent (lower (strip m)) = Booking \<longrightarrow>
      (created (snd (chat_turn cat predict reply u x m s)) = Some b \<longrightarrow>
         pending_booking (fst (chat_turn cat predict reply u x m s)) =
           (if b_age b = None then pending_booking s else [])) \<and>
      (created (snd (chat_turn cat predict reply u x m s)) = None \<and>
       (\<forall>ms. snd (chat_turn cat predict reply u x m s) \<noteq> Reply (Ask_missing ms) None) \<longrightarrow>
         pending_booking (fst (chat_turn cat predict reply u x m s)) = pending_booking s)) \<and>
   (chat_intent (lower (strip m)) = Symptom \<longrightarrow>
      pending_booking (fst (chat_turn cat predict reply u x m s)) =
        [(''department'', predict (strip m)),
         (''city'', or_str (city (chat_enter cat m s)) (user_city u))]) \<and>
   (chat_intent (lower (strip m)) = Doctor_list \<longrightarrow>
      (snd (chat_turn cat predict reply u x m s) = Reply (Doctors_in dd cc l) None \<longrightarrow>
         pending_booking (fst (chat_turn cat predict reply u x m s)) =
           [(''department'', dd), (''city'', cc)]) \<and>
      ((\<forall>dd cc l. snd (chat_turn cat predict reply u x m s) \<noteq>
                     Reply (Doctors_in dd cc l) None) \<longrightarrow>
         pending_booking (fst (chat_turn cat predict reply u x m s)) = pending_booking s)) \<and>
   (chat_intent (lower (strip m)) \<noteq> Symptom \<and>
    chat_intent (lower (strip m)) \<noteq> Doctor_list \<and>
    chat_intent (lower (strip m)) \<noteq> Booking \<longrightarrow>
      pending_booking (fst (chat_turn cat predict reply u x m s)) = pending_booking s)"
proof -
  have a1: "app_intent (lower m) (last_intent s) = Booking \<and>
    map_of (pending_booking s) ''city'' = Some c \<and>
    map_of (pending_booking s) ''department'' = Some d \<longrightarrow>
      pending_booking (fst (app_turn cat predict u x m s)) =
        (case parsed_date x of
           Some dt \<Rightarrow> AList.update ''date'' dt (pending_booking s)
         | None \<Rightarrow> pending_booking s) \<and>
      map_of (pending_booking (fst (app_turn cat predict u x m s))) ''city'' = Some c \<and>
      map_of (pending_booking (fst (app_turn cat predict u x m s))) ''department'' = Some d \<and>
      (top_hospital (hospitals_for (hospitals cat) c d) = Some t \<and>
       first_doctor (doctors cat) t d = Some doc \<longrightarrow>
         snd (app_turn cat predict u x m s) =
           app_check_and_book u x t doc d (app_date_str x s) (app_time_str (lower m))) \<and>
      (hospitals_for (hospitals cat) c d = [] \<longrightarrow>
         snd (app_turn cat predict u x m s) = Reply (No_hospitals_for d c) None)"
  proof (intro impI conjI)
    assume a: "app_intent (lower m) (last_intent s) = Booking \<and>
      map_of (pending_booking s) ''city'' = Some c \<and>
      map_of (pending_booking s) ''department'' = Some d"
    then show p: "pending_booking (fst (app_turn cat predict u x m s)) =
        (case parsed_date x of
           Some dt \<Rightarrow> AList.update ''date'' dt (pending_booking s)
         | None \<Rightarrow> pending_booking s)"
      using app_turn_booking_pending by blast
    show "map_of (pending_booking (fst (app_turn cat predict u x m s))) ''city'' = Some c"
      using a by (simp add: p map_of_store_date)
    show "map_of (pending_booking (fst (app_turn cat predict u x m s))) ''department'' = Some d"
      using a by (simp add: p map_of_store_date)
    {
      assume "top_hospital (hospitals_for (hospitals cat) c d) = Some t \<and>
              first_doctor (doctors cat) t d = Some doc"
      then show "snd (app_turn cat predict u x m s) =
           app_check_and_book u x t doc d (app_date_str x s) (app_time_str (lower m))"
        using a app_turn_check(1)[of m s c d cat t doc predict u x] by blast
    }
    {
      assume "hospitals_for (hospitals cat) c d = []"
      then show "snd (app_turn cat predict u x m s) = Reply (No_hospitals_for d c) None"
        using a app_turn_no_hospital[of m s c d cat predict u x] by blast
    }
  qed
  have a2: "app_intent (lower m) (last_intent s) = Symptom \<longrightarrow>
      pending_booking (fst (app_turn cat predict u x m s)) =
        (if hospitals_for (hospitals cat) (app_city cat u m s) (predict m) \<noteq> []
         then [(''department'', predict m), (''city'', app_city cat u m s)]
         else pending_booking s)"
    using app_turn_symptom_frame[of m s cat predict u x] by blast
  have a3: "app_intent (lower m) (last_intent s) = Doctor_list \<longrightarrow>
      (snd (app_turn cat predict u x m s) = Reply (Doctors_in dd cc l) None \<longrightarrow>
         pending_booking (fst (app_turn cat predict u x m s)) =
           [(''department'', dd), (''city'', cc)]) \<and>
      ((\<forall>dd cc l. snd (app_turn cat predict u x m s) \<noteq> Reply (Doctors_in dd cc l) None) \<longrightarrow>
         pending_booking (fst (app_turn cat predict u x m s)) = pending_booking s)"
    using app_turn_doctor_frame[of m s cat predict u x dd cc l] by blast
  have a4: "app_intent (lower m) (last_intent s) \<noteq> Symptom \<and>
    app_intent (lower m) (last_intent s) \<noteq> Doctor_list \<and>
    \<not> (app_intent (lower m) (last_intent s) = Booking \<and>
       map_of (pending_booking s) ''city'' \<noteq> None \<and>
       map_of (pending_booking s) ''department'' \<noteq> None) \<longrightarrow>
      pending_booking (fst (app_turn cat predict u x m s)) = pending_booking s"
    using app_turn_other_frame[of m s cat predict u x] by blast
  have b1: "chatbot_intent (lower m) (last_intent s) = Booking \<and>
    map_of (pending_booking s) ''department'' = Some d \<longrightarrow>
      (top_hospital (hospitals_for (hospitals cat) (chatbot_city cat u m) d) = Some t \<and>
       first_doctor (doctors cat) t d = Some doc \<longrightarrow>
         snd (chatbot_turn cat predict u x m s) =
           Reply (Booked (doctor_name doc) (hospital_name t)
                    (case parsed_date x of Some dt \<Rightarrow> dt | None \<Rightarrow> today x)
                    (chatbot_time_str (lower m)))
             (Some \<lparr>b_id = new_booking_id x, b_patient = user_name u,
                     b_age = Some (user_age u), b_gender = Some (user_gender u),
                     b_hospital = hospital_name t, b_department = d,
                     b_doctor = doctor_name doc,
                     b_date = (case parsed_date x of Some dt \<Rightarrow> dt | None \<Rightarrow> today x),
                     b_time = chatbot_time_str (lower m)\<rparr>)) \<and>
      (hospitals_for (hospitals cat) (chatbot_city cat u m) d = [] \<longrightarrow>
         snd (chatbot_turn cat predict u x m s) = Reply Empty_response None)"
  proof (intro impI conjI)
    assume a: "chatbot_intent (lower m) (last_intent s) = Booking \<and>
      map_of (pending_booking s) ''department'' = Some d"
    {
      assume "top_hospital (hospitals_for (hospitals cat) (chatbot_city cat u m) d) = Some t \<and>
              first_doctor (doctors cat) t d = Some doc"
      then show "snd (chatbot_turn cat predict u x m s) =
           Reply (Booked (doctor_name doc) (hospital_name t)
                    (case parsed_date x of Some dt \<Rightarrow> dt | None \<Rightarrow> today x)
                    (chatbot_time_str (lower m)))
             (Some \<lparr>b_id = new_booking_id x, b_patient = user_name u,
                     b_age = Some (user_age u), b_gender = Some (user_gender u),
                     b_hospital = hospital_name t, b_department = d,
                     b_doctor = doctor_name doc,
                     b_date = (case parsed_date x of Some dt \<Rightarrow> dt | None \<Rightarrow> today x),
                     b_time = chatbot_time_str (lower m)\<rparr>)"
        using a chatbot_turn_selects[of m s d cat u t predict x] by simp
    }
    {
      assume "hospitals_for (hospitals cat) (chatbot_city cat u m) d = []"
      then show "snd (chatbot_turn cat predict u x m s) = Reply Empty_response None"
        using a chatbot_turn_no_hospital[of m s d cat u predict x] by blast
    }
  qed
  have b2: "chatbot_intent (lower m) (last_intent s) = Symptom \<longrightarrow>
      pending_booking (fst (chatbot_turn cat predict u x m s)) =
        [(''department'', predict m), (''city'', chatbot_city cat u m)]"
    using chatbot_turn_symptom_frame[of m s cat predict u x] by blast
  have b3: "chatbot_intent (lower m) (last_intent s) \<noteq> Symptom \<longrightarrow>
      pending_booking (fst (chatbot_turn cat predict u x m s)) = pending_booking s"
    using chatbot_turn_other_frame[of m s cat predict u x] by blast
  have c1: "chat_intent (lower (strip m)) = Booking \<and>
    detect_department (hospitals cat) (lower (strip m)) = None \<and>
    chat_selected_hospital (hospitals cat) (lower (strip m)) = None \<and>
    map_of (pending_booking s) ''city'' = Some c \<and> c \<noteq> [] \<and>
    map_of (pending_booking s) ''department'' = Some d \<longrightarrow>
      chat_booking_info (hospitals cat) (lower (strip m)) s = pending_booking s \<and>
      chat_city_search (hospitals cat) u (lower (strip m)) (chat_enter cat m s) = c \<and>
      (d \<noteq> [] \<and> top_hospital (hospitals_for (hospitals cat) c d) = Some t \<longrightarrow>
         snd (chat_turn cat predict reply u x m s) =
           (case first_doctor (doctors cat) t d of
              None \<Rightarrow> Reply (No_doctors_listed d (hospital_name t)) None
            | Some doc \<Rightarrow>
                if parsed_date x = None \<or> chat_parsed_time (strip m) = None
                then Reply (Ask_missing
                              ((if parsed_date x = None then [''date''] else []) @
                               (if chat_parsed_time (strip m) = None then [''time''] else [])))
                       None
                else snd (chat_check_and_book u x t doc d (the (parsed_date x))
                            (the (chat_parsed_time (strip m))) (chat_enter cat m s)))) \<and>
      (snd (chat_turn cat predict reply u x m s) = Reply (Ask_missing ms) None \<longrightarrow>
         (\<forall>k. k \<noteq> ''hospital_id'' \<longrightarrow>
            map_of (pending_booking (fst (chat_turn cat predict reply u x m s))) k =
              map_of (pending_booking s) k))"
  proof (intro impI conjI allI)
    assume a: "chat_intent (lower (strip m)) = Booking \<and>
      detect_department (hospitals cat) (lower (strip m)) = None \<and>
      chat_selected_hospital (hospitals cat) (lower (strip m)) = None \<and>
      map_of (pending_booking s) ''city'' = Some c \<and> c \<noteq> [] \<and>
      map_of (pending_booking s) ''department'' = Some d"
    then show bi: "chat_booking_info (hospitals cat) (lower (strip m)) s = pending_booking s"
      using chat_booking_info_plain by blast
    from a show cs:
      "chat_city_search (hospitals cat) u (lower (strip m)) (chat_enter cat m s) = c"
      using chat_city_search_plain by blast
    {
      assume "d \<noteq> [] \<and> top_hospital (hospitals_for (hospitals cat) c d) = Some t"
      then show "snd (chat_turn cat predict reply u x m s) =
           (case first_doctor (doctors cat) t d of
              None \<Rightarrow> Reply (No_doctors_listed d (hospital_name t)) None
            | Some doc \<Rightarrow>
                if parsed_date x = None \<or> chat_parsed_time (strip m) = None
                then Reply (Ask_missing
                              ((if parsed_date x = None then [''date''] else []) @
                               (if chat_parsed_time (strip m) = None then [''time''] else [])))
                       None
                else snd (chat_check_and_book u x t doc d (the (parsed_date x))
                            (the (chat_parsed_time (strip m))) (chat_enter cat m s)))"
        using a cs chat_turn_selects[of m cat s d u c t predict reply x] by (simp add: bi)
    }
    {
      fix k :: string
      assume r: "snd (chat_turn cat predict reply u x m s) = Reply (Ask_missing ms) None"
        and k: "k \<noteq> ''hospital_id''"
      from a have i: "chat_intent (lower (strip m)) = Booking" by simp
      from chat_turn_ask[OF i r] obtain i where
        "pending_booking (fst (chat_turn cat predict reply u x m s)) =
           AList.update ''city'' c (AList.update ''department'' d
             (AList.update ''hospital_id'' i (pending_booking s)))"
        using a by (auto simp: cs bi)
      then show "map_of (pending_booking (fst (chat_turn cat predict reply u x m s))) k =
              map_of (pending_booking s) k"
        using a k by (simp add: map_of_three_updates)
    }
  qed
  have c2: "chat_intent (lower (strip m)) = Booking \<and>
    (\<not> truthy (map_of (chat_booking_info (hospitals cat) (lower (strip m)) s)
                 ''department'') \<or>
     chat_city_search (hospitals cat) u (lower (strip m)) (chat_enter cat m s) = []) \<longrightarrow>
      snd (chat_turn cat predict reply u x m s) = Reply Need_department_and_city None \<and>
      pending_booking (fst (chat_turn cat predict reply u x m s)) = pending_booking s"
    using chat_turn_need[of m cat s u predict reply x] by blast
  have c2': "chat_intent (lower (strip m)) = Booking \<and>
    snd (chat_turn cat predict reply u x m s) = Reply Need_department_and_city None \<longrightarrow>
      (\<not> truthy (map_of (chat_booking_info (hospitals cat) (lower (strip m)) s)
                   ''department'') \<or>
       chat_city_search (hospitals cat) u (lower (strip m)) (chat_enter cat m s) = [])"
  proof
    assume a: "chat_intent (lower (strip m)) = Booking \<and>
      snd (chat_turn cat predict reply u x m s) = Reply Need_department_and_city None"
    then have i: "chat_intent (lower (strip m)) = Booking"
      and r: "snd (chat_turn cat predict reply u x m s) = Reply Need_department_and_city None"
      by simp_all
    from r have "snd (chat_booking_branch cat u x (strip m) (lower (strip m))
                 (chat_enter cat m s)) = Reply Need_department_and_city None"
      unfolding chat_turn_booking[OF i] by (simp add: record_reply_simps)
    then show "\<not> truthy (map_of (chat_booking_info (hospitals cat) (lower (strip m)) s)
                   ''department'') \<or>
       chat_city_search (hospitals cat) u (lower (strip m)) (chat_enter cat m s) = []"
      by (auto simp: chat_booking_branch_def Let_def chat_booking_info_enter
            chat_check_and_book_def split: option.splits if_splits)
  qed
  have c3: "chat_intent (lower (strip m)) = Booking \<and>
    snd (chat_turn cat predict reply u x m s) = Reply (Ask_missing ms) None \<longrightarrow>
      (\<exists>i. pending_booking (fst (chat_turn cat predict reply u x m s)) =
         AList.update ''city''
           (chat_city_search (hospitals cat) u (lower (strip m)) (chat_enter cat m s))
           (AList.update ''department''
              (the (map_of (chat_booking_info (hospitals cat) (lower (strip m)) s)
                      ''department''))
              (AList.update ''hospital_id'' i (pending_booking s))))"
    using chat_turn_ask[of m cat predict reply u x s ms] by blast
  have c4: "chat_intent (lower (strip m)) = Booking \<longrightarrow>
      (created (snd (chat_turn cat predict reply u x m s)) = Some b \<longrightarrow>
         pending_booking (fst (chat_turn cat predict reply u x m s)) =
           (if b_age b = None then pending_booking s else [])) \<and>
      (created (snd (chat_turn cat predict reply u x m s)) = None \<and>
       (\<forall>ms. snd (chat_turn cat predict reply u x m s) \<noteq> Reply (Ask_missing ms) None) \<longrightarrow>
         pending_booking (fst (chat_turn cat predict reply u x m s)) = pending_booking s)"
    using chat_turn_booking_frame[of m cat predict reply u x s b] by blast
  have c5: "chat_intent (lower (strip m)) = Symptom \<longrightarrow>
      pending_booking (fst (chat_turn cat predict reply u x m s)) =
        [(''department'', predict (strip m)),
         (''city'', or_str (city (chat_enter cat m s)) (user_city u))]"
    using chat_turn_symptom_frame[of m cat predict reply u x s] by blast
  have c6: "chat_intent (lower (strip m)) = Doctor_list \<longrightarrow>
      (snd (chat_turn cat predict reply u x m s) = Reply (Doctors_in dd cc l) None \<longrightarrow>
         pending_booking (fst (chat_turn cat predict reply u x m s)) =
           [(''department'', dd), (''city'', cc)]) \<and>
      ((\<forall>dd cc l. snd (chat_turn cat predict reply u x m s) \<noteq>
                     Reply (Doctors_in dd cc l) None) \<longrightarrow>
         pending_booking (fst (chat_turn cat predict reply u x m s)) = pending_booking s)"
    using chat_turn_doctor_frame[of m cat predict reply u x s dd cc l] by blast
  have c7: "chat_intent (lower (strip m)) \<noteq> Symptom \<and>
    chat_intent (lower (strip m)) \<noteq> Doctor_list \<and>
    chat_intent (lower (strip m)) \<noteq> Booking \<longrightarrow>
      pending_booking (fst (chat_turn cat predict reply u x m s)) = pending_booking s"
    using chat_turn_other_frame[of m cat predict reply u x s] by blast
  show ?thesis
    by (intro conjI; fact a1 a2 a3 a4 b1 b2 b3 c1 c2 c2' c3 c4 c5 c6 c7)
qed

theorem booking_turn_keeps_slots_witness:
  "app_intent (lower ''I have chest pain'') (last_intent fresh_session) = Symptom \<and>
   pending_booking (fst (app_turn demo_catalog demo_predict demo_user no_date_ext
                           ''I have chest pain'' fresh_session)) =
     [(''department'', ''Cardiology''), (''city'', ''Kochi'')] \<and>
   pending_booking demo_session = [(''department'', ''Cardiology''), (''city'', ''Kochi'')] \<and>
   app_intent (lower ''book at 11am'') (last_intent demo_session) = Booking \<and>
   pending_booking (fst (app_turn demo_catalog demo_predict demo_user no_date_ext
                           ''book at 11am'' demo_session)) = pending_booking demo_session \<and>
   map_of (pending_booking (fst (app_turn demo_catalog demo_predict demo_user no_date_ext
                                   ''book at 11am'' demo_session))) ''city'' = Some ''Kochi'' \<and>
   map_of (pending_booking (fst (app_turn demo_catalog demo_predict demo_user no_date_ext
                                   ''book at 11am'' demo_session))) ''department'' =
     Some ''Cardiology'' \<and>
   snd (app_turn demo_catalog demo_predict demo_user no_date_ext ''book at 11am''
          demo_session) =
     app_check_and_book demo_user no_date_ext city_care dr_nair ''Cardiology''
       (app_date_str no_date_ext demo_session) (app_time_str (lower ''book at 11am'')) \<and>
   map b_department (snd (run (app_step demo_catalog demo_predict)
                            [Message ''I have chest pain'' no_date_ext,
                             Message ''book at 11am'' no_date_ext] fresh_session)) =
     [''Cardiology''] \<and>
   chatbot_intent (lower ''book at 11:00'') (last_intent demo_session) = Booking \<and>
   chatbot_city demo_catalog demo_user ''book at 11:00'' = ''Kochi'' \<and>
   snd (chatbot_turn demo_catalog demo_predict demo_user no_date_ext ''book at 11:00''
          demo_session) =
     Reply (Booked ''Dr. Nair'' ''City Care'' ''2026-11-04'' ''11:00'')
       (Some \<lparr>b_id = ''A3F9C21'', b_patient = ''Demo User'', b_age = Some 25,
               b_gender = Some ''Male'', b_hospital = ''City Care'',
               b_department = ''Cardiology'', b_doctor = ''Dr. Nair'',
               b_date = ''2026-11-04'', b_time = ''11:00''\<rparr>) \<and>
   pending_booking (fst (chatbot_turn demo_catalog demo_predict demo_user no_date_ext
                           ''book at 11:00'' demo_session)) = pending_booking demo_session \<and>
   snd (chat_turn demo_catalog demo_predict demo_reply demo_user no_date_ext
          ''book an appointment'' demo_session) =
     Reply (Ask_missing [''date'', ''time'']) None \<and>
   map_of (pending_booking (fst (chat_turn demo_catalog demo_predict demo_reply demo_user
                                   no_date_ext ''book an appointment'' demo_session)))
     ''department'' = Some ''Cardiology'' \<and>
   map_of (pending_booking (fst (chat_turn demo_catalog demo_predict demo_reply demo_user
                                   no_date_ext ''book an appointment'' demo_session)))
     ''city'' = Some ''Kochi'' \<and>
   pending_booking fresh_session = [] \<and>
   snd (chat_turn demo_catalog demo_predict demo_reply demo_user no_date_ext
          ''book an appointment'' fresh_session) = Reply Need_department_and_city None \<and>
   pending_booking (fst (chat_turn demo_catalog demo_predict demo_reply demo_user no_date_ext
                           ''book an appointment'' fresh_session)) = [] \<and>
   b_age (the (created (snd (chat_turn demo_catalog demo_predict demo_reply demo_user demo_ext
                               ''book at 5 pm on dec 15'' demo_session)))) = Some 25 \<and>
   pending_booking (fst (chat_turn demo_catalog demo_predict demo_reply demo_user demo_ext
                           ''book at 5 pm on dec 15'' demo_session)) = [] \<and>
   snd (app_turn demo_catalog demo_predict demo_user no_date_ext ''cardiology doctors''
          fresh_session) = Reply (Doctors_in ''Cardiology'' ''Kochi'' [dr_nair, dr_menon]) None \<and>
   pending_booking (fst (app_turn demo_catalog demo_predict demo_user no_date_ext
                           ''cardiology doctors'' fresh_session)) =
     [(''department'', ''Cardiology''), (''city'', ''Kochi'')] \<and>
   snd (app_turn chennai_catalog demo_predict demo_user no_date_ext ''doctors''
          demo_session) = Reply (No_doctors_for ''Cardiology'' ''Kochi'') None \<and>
   pending_booking (fst (app_turn chennai_catalog demo_predict demo_user no_date_ext
                           ''doctors'' demo_session)) = pending_booking demo_session \<and>
   app_intent (lower ''hospitals nearby'') (last_intent demo_session) = Hospital_list \<and>
   pending_booking (fst (app_turn demo_catalog demo_predict demo_user no_date_ext
                           ''hospitals nearby'' demo_session)) = pending_booking demo_session \<and>
   pending_booking (fst (chatbot_turn demo_catalog neuro_predict demo_user no_date_ext
                           ''headache in chennai'' demo_session)) =
     [(''department'', ''Neurology''), (''city'', ''Chennai'')] \<and>
   chat_city_search (hospitals demo_catalog) demo_user
     (lower (strip ''book an appointment''))
     (chat_enter demo_catalog ''book an appointment'' fresh_session) = ''Kochi'' \<and>
   \<not> truthy (map_of (chat_booking_info (hospitals demo_catalog)
                       (lower (strip ''book an appointment'')) fresh_session)
               ''department'') \<and>
   (\<exists>i. pending_booking (fst (chat_turn demo_catalog demo_predict demo_reply demo_user
                                 no_date_ext ''book an appointment'' demo_session)) =
      AList.update ''city'' ''Kochi''
        (AList.update ''department'' ''Cardiology''
           (AList.update ''hospital_id'' i (pending_booking demo_session)))) \<and>
   chat_intent (lower (strip ''I have chest pain'')) = Symptom \<and>
   pending_booking (fst (chat_turn demo_catalog demo_predict demo_reply demo_user no_date_ext
                           ''I have chest pain'' fresh_session)) =
     [(''department'', ''Cardiology''), (''city'', ''Kochi'')] \<and>
   snd (chat_turn demo_catalog demo_predict demo_reply demo_user no_date_ext
          ''list doctors for cardiology'' fresh_session) =
     Reply (Doctors_in ''Cardiology'' ''Kochi'' [dr_nair, dr_menon]) None \<and>
   pending_booking (fst (chat_turn demo_catalog demo_predict demo_reply demo_user no_date_ext
                           ''list doctors for cardiology'' fresh_session)) =
     [(''department'', ''Cardiology''), (''city'', ''Kochi'')] \<and>
   snd (chat_turn chennai_catalog demo_predict demo_reply demo_user no_date_ext
          ''list doctors'' demo_session) = Reply (No_doctors_for ''Cardiology'' ''Kochi'') None \<and>
   pending_booking (fst (chat_turn chennai_catalog demo_predict demo_reply demo_user
                           no_date_ext ''list doctors'' demo_session)) =
     pending_booking demo_session \<and>
   chat_intent (lower (strip ''hospitals nearby'')) = Hospital_list \<and>
   pending_booking (fst (chat_turn demo_catalog demo_predict demo_reply demo_user no_date_ext
                           ''hospitals nearby'' demo_session)) = pending_booking demo_session"
proof -
  note T = booking_turn_keeps_slots
  have s1: "app_intent (lower ''I have chest pain'') (last_intent fresh_session) = Symptom"
    by code_simp
  have s2: "demo_predict ''I have chest pain'' = ''Cardiology''"
    "app_city demo_catalog demo_user ''I have chest pain'' fresh_session = ''Kochi''"
    "hospitals_for (hospitals demo_catalog) ''Kochi'' ''Cardiology'' \<noteq> []"
    by code_simp+
  from T[where cat = demo_catalog and predict = demo_predict and u = demo_user
           and x = no_date_ext, THEN conjunct2, THEN conjunct1, THEN mp, OF s1]
  have S: "pending_booking (fst (app_turn demo_catalog demo_predict demo_user no_date_ext
                           ''I have chest pain'' fresh_session)) =
     [(''department'', ''Cardiology''), (''city'', ''Kochi'')]"
    by (simp add: s2)
  have p: "pending_booking demo_session =
             [(''department'', ''Cardiology''), (''city'', ''Kochi'')]" by code_simp
  have pf: "pending_booking fresh_session = []" by code_simp
  have nd: "parsed_date no_date_ext = None" by code_simp
  have a: "app_intent (lower ''book at 11am'') (last_intent demo_session) = Booking \<and>
    map_of (pending_booking demo_session) ''city'' = Some ''Kochi'' \<and>
    map_of (pending_booking demo_session) ''department'' = Some ''Cardiology''" by code_simp
  have tf: "top_hospital (hospitals_for (hospitals demo_catalog) ''Kochi'' ''Cardiology'') =
              Some city_care \<and>
            first_doctor (doctors demo_catalog) city_care ''Cardiology'' = Some dr_nair"
    by code_simp
  note TA = T[where cat = demo_catalog and predict = demo_predict and u = demo_user
           and x = no_date_ext and t = city_care and doc = dr_nair,
           THEN conjunct1, THEN mp, OF a]
  from TA[THEN conjunct1]
  have A0: "pending_booking (fst (app_turn demo_catalog demo_predict demo_user no_date_ext
                           ''book at 11am'' demo_session)) = pending_booking demo_session"
    by (simp add: nd)
  note A1 = TA[THEN conjunct2, THEN conjunct1]
  note A2 = TA[THEN conjunct2, THEN conjunct2, THEN conjunct1]
  note A3 = TA[THEN conjunct2, THEN conjunct2, THEN conjunct2, THEN conjunct1, THEN mp, OF tf]
  have two: "map b_department (snd (run (app_step demo_catalog demo_predict)
                            [Message ''I have chest pain'' no_date_ext,
                             Message ''book at 11am'' no_date_ext] fresh_session)) =
     [''Cardiology'']" by code_simp
  have b: "chatbot_intent (lower ''book at 11:00'') (last_intent demo_session) = Booking \<and>
    map_of (pending_booking demo_session) ''department'' = Some ''Cardiology''" by code_simp
  have bc: "chatbot_city demo_catalog demo_user ''book at 11:00'' = ''Kochi''" by code_simp
  have btf: "top_hospital (hospitals_for (hospitals demo_catalog)
                             (chatbot_city demo_catalog demo_user ''book at 11:00'')
                             ''Cardiology'') = Some city_care \<and>
             first_doctor (doctors demo_catalog) city_care ''Cardiology'' = Some dr_nair"
    by code_simp
  have f: "doctor_name dr_nair = ''Dr. Nair''" "hospital_name city_care = ''City Care''"
    "today no_date_ext = ''2026-11-04''"
    "chatbot_time_str (lower ''book at 11:00'') = ''11:00''"
    "new_booking_id no_date_ext = ''A3F9C21''"
    "user_name demo_user = ''Demo User''" "user_age demo_user = 25"
    "user_gender demo_user = ''Male''"
    by code_simp+
  from T[where cat = demo_catalog and predict = demo_predict and u = demo_user
           and x = no_date_ext and t = city_care and doc = dr_nair,
           THEN conjunct2, THEN conjunct2, THEN conjunct2, THEN conjunct2, THEN conjunct1, THEN mp, OF b, THEN conjunct1, THEN mp, OF btf]
  have B: "snd (chatbot_turn demo_catalog demo_predict demo_user no_date_ext ''book at 11:00''
          demo_session) =
     Reply (Booked ''Dr. Nair'' ''City Care'' ''2026-11-04'' ''11:00'')
       (Some \<lparr>b_id = ''A3F9C21'', b_patient = ''Demo User'', b_age = Some 25,
               b_gender = Some ''Male'', b_hospital = ''City Care'',
               b_department = ''Cardiology'', b_doctor = ''Dr. Nair'',
               b_date = ''2026-11-04'', b_time = ''11:00''\<rparr>)"
    by (simp add: f nd)
  have bi: "chatbot_intent (lower ''book at 11:00'') (last_intent demo_session) \<noteq> Symptom"
    by code_simp
  note B2 = T[where cat = demo_catalog and predict = demo_predict and u = demo_user
           and x = no_date_ext, THEN conjunct2, THEN conjunct2, THEN conjunct2, THEN conjunct2, THEN conjunct2, THEN conjunct2, THEN conjunct1, THEN mp, OF bi]
  have c: "chat_intent (lower (strip ''book an appointment'')) = Booking \<and>
    detect_department (hospitals demo_catalog) (lower (strip ''book an appointment'')) = None \<and>
    chat_selected_hospital (hospitals demo_catalog) (lower (strip ''book an appointment'')) =
      None \<and>
    map_of (pending_booking demo_session) ''city'' = Some ''Kochi'' \<and> ''Kochi'' \<noteq> [] \<and>
    map_of (pending_booking demo_session) ''department'' = Some ''Cardiology''" by code_simp
  have r: "snd (chat_turn demo_catalog demo_predict demo_reply demo_user no_date_ext
                  ''book an appointment'' demo_session) =
             Reply (Ask_missing [''date'', ''time'']) None"
    by code_simp
  note TC = T[where cat = demo_catalog and predict = demo_predict and reply = demo_reply
           and u = demo_user and x = no_date_ext and ms = "[''date'', ''time'']",
           THEN conjunct2, THEN conjunct2, THEN conjunct2, THEN conjunct2, THEN conjunct2, THEN conjunct2, THEN conjunct2, THEN conjunct1, THEN mp, OF c]
  note C = TC[THEN conjunct2, THEN conjunct2, THEN conjunct2, THEN mp, OF r]
  have C1: "map_of (pending_booking (fst (chat_turn demo_catalog demo_predict demo_reply
              demo_user no_date_ext ''book an appointment'' demo_session))) ''department'' =
              Some ''Cardiology''"
    and C2: "map_of (pending_booking (fst (chat_turn demo_catalog demo_predict demo_reply
              demo_user no_date_ext ''book an appointment'' demo_session))) ''city'' =
              Some ''Kochi''"
    using C c by simp_all
  have n: "chat_intent (lower (strip ''book an appointment'')) = Booking \<and>
    (\<not> truthy (map_of (chat_booking_info (hospitals demo_catalog)
                         (lower (strip ''book an appointment'')) fresh_session)
                 ''department'') \<or>
     chat_city_search (hospitals demo_catalog) demo_user
       (lower (strip ''book an appointment''))
       (chat_enter demo_catalog ''book an appointment'' fresh_session) = [])"
    by code_simp
  from T[where cat = demo_catalog and predict = demo_predict and reply = demo_reply
           and u = demo_user and x = no_date_ext, THEN conjunct2, THEN conjunct2, THEN conjunct2, THEN conjunct2, THEN conjunct2, THEN conjunct2, THEN conjunct2, THEN conjunct2, THEN conjunct1, THEN mp, OF n]
  have N: "snd (chat_turn demo_catalog demo_predict demo_reply demo_user no_date_ext
              ''book an appointment'' fresh_session) = Reply Need_department_and_city None \<and>
           pending_booking (fst (chat_turn demo_catalog demo_predict demo_reply demo_user
              no_date_ext ''book an appointment'' fresh_session)) = []"
    by (simp add: pf)
  have k: "chat_intent (lower (strip ''book at 5 pm on dec 15'')) = Booking" by code_simp
  have kb: "created (snd (chat_turn demo_catalog demo_predict demo_reply demo_user demo_ext
                            ''book at 5 pm on dec 15'' demo_session)) =
     Some \<lparr>b_id = ''A3F9C21'', b_patient = ''Demo User'', b_age = Some 25,
            b_gender = Some ''Male'', b_hospital = ''City Care'',
            b_department = ''Cardiology'', b_doctor = ''Dr. Nair'',
            b_date = ''2026-12-15'', b_time = ''17:00''\<rparr>"
    by code_simp
  from T[where cat = demo_catalog and predict = demo_predict and reply = demo_reply
           and u = demo_user and x = demo_ext and s = demo_session,
           THEN conjunct2, THEN conjunct2, THEN conjunct2, THEN conjunct2, THEN conjunct2, THEN conjunct2, THEN conjunct2, THEN conjunct2, THEN conjunct2, THEN conjunct2, THEN conjunct2, THEN conjunct1, THEN mp, OF k, THEN conjunct1, THEN mp, OF kb]
  have K: "pending_booking (fst (chat_turn demo_catalog demo_predict demo_reply demo_user
             demo_ext ''book at 5 pm on dec 15'' demo_session)) = []"
    by simp
  have K0: "b_age (the (created (snd (chat_turn demo_catalog demo_predict demo_reply demo_user
              demo_ext ''book at 5 pm on dec 15'' demo_session)))) = Some 25"
    by (simp add: kb)
  have d0: "app_intent (lower ''cardiology doctors'') (last_intent fresh_session) =
              Doctor_list" by code_simp
  have d1: "snd (app_turn demo_catalog demo_predict demo_user no_date_ext
                   ''cardiology doctors'' fresh_session) =
              Reply (Doctors_in ''Cardiology'' ''Kochi'' [dr_nair, dr_menon]) None"
    by code_simp
  note D = T[where cat = demo_catalog and predict = demo_predict and u = demo_user
           and x = no_date_ext, THEN conjunct2, THEN conjunct2, THEN conjunct1, THEN mp, OF d0, THEN conjunct1, THEN mp, OF d1]
  have e0: "app_intent (lower ''doctors'') (last_intent demo_session) = Doctor_list"
    by code_simp
  have e1: "snd (app_turn chennai_catalog demo_predict demo_user no_date_ext ''doctors''
                   demo_session) = Reply (No_doctors_for ''Cardiology'' ''Kochi'') None"
    by code_simp
  have e2: "\<forall>dd cc l. snd (app_turn chennai_catalog demo_predict demo_user no_date_ext
                             ''doctors'' demo_session) \<noteq> Reply (Doctors_in dd cc l) None"
    by (simp add: e1)
  note E = T[where cat = chennai_catalog and predict = demo_predict and u = demo_user
           and x = no_date_ext, THEN conjunct2, THEN conjunct2, THEN conjunct1, THEN mp, OF e0, THEN conjunct2, THEN mp, OF e2]
  have o0: "app_intent (lower ''hospitals nearby'') (last_intent demo_session) \<noteq> Symptom \<and>
    app_intent (lower ''hospitals nearby'') (last_intent demo_session) \<noteq> Doctor_list \<and>
    \<not> (app_intent (lower ''hospitals nearby'') (last_intent demo_session) = Booking \<and>
       map_of (pending_booking demo_session) ''city'' \<noteq> None \<and>
       map_of (pending_booking demo_session) ''department'' \<noteq> None)"
    by code_simp
  have o1: "app_intent (lower ''hospitals nearby'') (last_intent demo_session) = Hospital_list"
    by code_simp
  note O = T[where cat = demo_catalog and predict = demo_predict and u = demo_user
           and x = no_date_ext, THEN conjunct2, THEN conjunct2, THEN conjunct2, THEN conjunct1, THEN mp, OF o0]
  have q0: "chatbot_intent (lower ''headache in chennai'') (last_intent demo_session) = Symptom"
    by code_simp
  have q1: "neuro_predict ''headache in chennai'' = ''Neurology''"
    "chatbot_city demo_catalog demo_user ''headache in chennai'' = ''Chennai''"
    by code_simp+
  from T[where cat = demo_catalog and predict = neuro_predict and u = demo_user
           and x = no_date_ext, THEN conjunct2, THEN conjunct2, THEN conjunct2, THEN conjunct2, THEN conjunct2, THEN conjunct1, THEN mp, OF q0]
  have Q: "pending_booking (fst (chatbot_turn demo_catalog neuro_predict demo_user no_date_ext
                           ''headache in chennai'' demo_session)) =
     [(''department'', ''Neurology''), (''city'', ''Chennai'')]"
    by (simp add: q1)
  have k0: "chat_intent (lower (strip ''book an appointment'')) = Booking" by code_simp
  from k0 N have n10: "chat_intent (lower (strip ''book an appointment'')) = Booking \<and>
    snd (chat_turn demo_catalog demo_predict demo_reply demo_user no_date_ext
           ''book an appointment'' fresh_session) = Reply Need_department_and_city None"
    by blast
  note N10 = T[where cat = demo_catalog and predict = demo_predict and reply = demo_reply
           and u = demo_user and x = no_date_ext, THEN conjunct2, THEN conjunct2, THEN conjunct2, THEN conjunct2, THEN conjunct2, THEN conjunct2, THEN conjunct2, THEN conjunct2, THEN conjunct2, THEN conjunct1, THEN mp, OF n10]
  have cs: "chat_city_search (hospitals demo_catalog) demo_user
     (lower (strip ''book an appointment''))
     (chat_enter demo_catalog ''book an appointment'' fresh_session) = ''Kochi''"
    by code_simp
  from N10 cs have N10': "\<not> truthy (map_of (chat_booking_info (hospitals demo_catalog)
                       (lower (strip ''book an appointment'')) fresh_session)
               ''department'')"
    by auto
  from k0 r have n11: "chat_intent (lower (strip ''book an appointment'')) = Booking \<and>
    snd (chat_turn demo_catalog demo_predict demo_reply demo_user no_date_ext
           ''book an appointment'' demo_session) = Reply (Ask_missing [''date'', ''time'']) None"
    by blast
  have g: "chat_city_search (hospitals demo_catalog) demo_user
             (lower (strip ''book an appointment''))
             (chat_enter demo_catalog ''book an appointment'' demo_session) = ''Kochi''"
    "the (map_of (chat_booking_info (hospitals demo_catalog)
                    (lower (strip ''book an appointment'')) demo_session) ''department'') =
       ''Cardiology''"
    by code_simp+
  note N11 = T[where cat = demo_catalog and predict = demo_predict and reply = demo_reply
           and u = demo_user and x = no_date_ext, THEN conjunct2, THEN conjunct2, THEN conjunct2, THEN conjunct2, THEN conjunct2, THEN conjunct2, THEN conjunct2, THEN conjunct2, THEN conjunct2, THEN conjunct2, THEN conjunct1, THEN mp, OF n11,
           unfolded g]
  have y0: "chat_intent (lower (strip ''I have chest pain'')) = Symptom" by code_simp
  have y1: "demo_predict (strip ''I have chest pain'') = ''Cardiology''"
    "or_str (city (chat_enter demo_catalog ''I have chest pain'' fresh_session))
       (user_city demo_user) = ''Kochi''"
    by code_simp+
  from T[where cat = demo_catalog and predict = demo_predict and reply = demo_reply
           and u = demo_user and x = no_date_ext, THEN conjunct2, THEN conjunct2, THEN conjunct2, THEN conjunct2, THEN conjunct2, THEN conjunct2, THEN conjunct2, THEN conjunct2, THEN conjunct2, THEN conjunct2, THEN conjunct2, THEN conjunct2, THEN conjunct1, THEN mp, OF y0]
  have Y: "pending_booking (fst (chat_turn demo_catalog demo_predict demo_reply demo_user
             no_date_ext ''I have chest pain'' fresh_session)) =
     [(''department'', ''Cardiology''), (''city'', ''Kochi'')]"
    by (simp add: y1)
  have z0: "chat_intent (lower (strip ''list doctors for cardiology'')) = Doctor_list"
    by code_simp
  have z1: "snd (chat_turn demo_catalog demo_predict demo_reply demo_user no_date_ext
          ''list doctors for cardiology'' fresh_session) =
     Reply (Doctors_in ''Cardiology'' ''Kochi'' [dr_nair, dr_menon]) None"
    by code_simp
  note Z = T[where cat = demo_catalog and predict = demo_predict and reply = demo_reply
           and u = demo_user and x = no_date_ext, THEN conjunct2, THEN conjunct2, THEN conjunct2, THEN conjunct2, THEN conjunct2, THEN conjunct2, THEN conjunct2, THEN conjunct2, THEN conjunct2, THEN conjunct2, THEN conjunct2, THEN conjunct2, THEN conjunct2, THEN conjunct1, THEN mp, OF z0,
           THEN conjunct1, THEN mp, OF z1]
  have z2: "chat_intent (lower (strip ''list doctors'')) = Doctor_list" by code_simp
  have z3: "snd (chat_turn chennai_catalog demo_predict demo_reply demo_user no_date_ext
          ''list doctors'' demo_session) = Reply (No_doctors_for ''Cardiology'' ''Kochi'') None"
    by code_simp
  have z4: "\<forall>dd cc l. snd (chat_turn chennai_catalog demo_predict demo_reply demo_user
                             no_date_ext ''list doctors'' demo_session) \<noteq>
                        Reply (Doctors_in dd cc l) None"
    by (simp add: z3)
  note Z2 = T[where cat = chennai_catalog and predict = demo_predict and reply = demo_reply
           and u = demo_user and x = no_date_ext, THEN conjunct2, THEN conjunct2, THEN conjunct2, THEN conjunct2, THEN conjunct2, THEN conjunct2, THEN conjunct2, THEN conjunct2, THEN conjunct2, THEN conjunct2, THEN conjunct2, THEN conjunct2, THEN conjunct2, THEN conjunct1, THEN mp, OF z2,
           THEN conjunct2, THEN mp, OF z4]
  have v0: "chat_intent (lower (strip ''hospitals nearby'')) \<noteq> Symptom \<and>
    chat_intent (lower (strip ''hospitals nearby'')) \<noteq> Doctor_list \<and>
    chat_intent (lower (strip ''hospitals nearby'')) \<noteq> Booking" by code_simp
  have v1: "chat_intent (lower (strip ''hospitals nearby'')) = Hospital_list" by code_simp
  note V = T[where cat = demo_catalog and predict = demo_predict and reply = demo_reply
           and u = demo_user and x = no_date_ext and s = demo_session, THEN conjunct2, THEN conjunct2, THEN conjunct2, THEN conjunct2, THEN conjunct2, THEN conjunct2, THEN conjunct2, THEN conjunct2, THEN conjunct2, THEN conjunct2, THEN conjunct2, THEN conjunct2, THEN conjunct2, THEN conjunct2, THEN mp, OF v0]
  from s1 S p a A0 A1 A2 A3 two b bc B B2 r C1 C2 pf N K0 K
  have part1: "app_intent (lower ''I have chest pain'') (last_intent fresh_session) = Symptom \<and>
   pending_booking (fst (app_turn demo_catalog demo_predict demo_user no_date_ext
                           ''I have chest pain'' fresh_session)) =
     [(''department'', ''Cardiology''), (''city'', ''Kochi'')] \<and>
   pending_booking demo_session = [(''department'', ''Cardiology''), (''city'', ''Kochi'')] \<and>
   app_intent (lower ''book at 11am'') (last_intent demo_session) = Booking \<and>
   pending_booking (fst (app_turn demo_catalog demo_predict demo_user no_date_ext
                           ''book at 11am'' demo_session)) = pending_booking demo_session \<and>
   map_of (pending_booking (fst (app_turn demo_catalog demo_predict demo_user no_date_ext
                                   ''book at 11am'' demo_session))) ''city'' = Some ''Kochi'' \<and>
   map_of (pending_booking (fst (app_turn demo_catalog demo_predict demo_user no_date_ext
                                   ''book at 11am'' demo_session))) ''department'' =
     Some ''Cardiology'' \<and>
   snd (app_turn demo_catalog demo_predict demo_user no_date_ext ''book at 11am''
          demo_session) =
     app_check_and_book demo_user no_date_ext city_care dr_nair ''Cardiology''
       (app_date_str no_date_ext demo_session) (app_time_str (lower ''book at 11am'')) \<and>
   map b_department (snd (run (app_step demo_catalog demo_predict)
                            [Message ''I have chest pain'' no_date_ext,
                             Message ''book at 11am'' no_date_ext] fresh_session)) =
     [''Cardiology''] \<and>
   chatbot_intent (lower ''book at 11:00'') (last_intent demo_session) = Booking \<and>
   chatbot_city demo_catalog demo_user ''book at 11:00'' = ''Kochi'' \<and>
   snd (chatbot_turn demo_catalog demo_predict demo_user no_date_ext ''book at 11:00''
          demo_session) =
     Reply (Booked ''Dr. Nair'' ''City Care'' ''2026-11-04'' ''11:00'')
       (Some \<lparr>b_id = ''A3F9C21'', b_patient = ''Demo User'', b_age = Some 25,
               b_gender = Some ''Male'', b_hospital = ''City Care'',
               b_department = ''Cardiology'', b_doctor = ''Dr. Nair'',
               b_date = ''2026-11-04'', b_time = ''11:00''\<rparr>) \<and>
   pending_booking (fst (chatbot_turn demo_catalog demo_predict demo_user no_date_ext
                           ''book at 11:00'' demo_session)) = pending_booking demo_session \<and>
   snd (chat_turn demo_catalog demo_predict demo_reply demo_user no_date_ext
          ''book an appointment'' demo_session) =
     Reply (Ask_missing [''date'', ''time'']) None \<and>
   map_of (pending_booking (fst (chat_turn demo_catalog demo_predict demo_reply demo_user
                                   no_date_ext ''book an appointment'' demo_session)))
     ''department'' = Some ''Cardiology'' \<and>
   map_of (pending_booking (fst (chat_turn demo_catalog demo_predict demo_reply demo_user
                                   no_date_ext ''book an appointment'' demo_session)))
     ''city'' = Some ''Kochi'' \<and>
   pending_booking fresh_session = [] \<and>
   snd (chat_turn demo_catalog demo_predict demo_reply demo_user no_date_ext
          ''book an appointment'' fresh_session) = Reply Need_department_and_city None \<and>
   pending_booking (fst (chat_turn demo_catalog demo_predict demo_reply demo_user no_date_ext
                           ''book an appointment'' fresh_session)) = [] \<and>
   b_age (the (created (snd (chat_turn demo_catalog demo_predict demo_reply demo_user demo_ext
                               ''book at 5 pm on dec 15'' demo_session)))) = Some 25 \<and>
   pending_booking (fst (chat_turn demo_catalog demo_predict demo_reply demo_user demo_ext
                           ''book at 5 pm on dec 15'' demo_session)) = []"
    by blast
  from part1 d1 D e1 E o1 O Q cs N10' N11 y0 Y z1 Z z3 Z2 v1 V show ?thesis by blast
qed

text \<open>
  In \<open>app.py\<close> a booking turn with a time outside the window stores the parsed date in
  the pending mapping. The next message describes a symptom and carries no date: the
  turn replaces the mapping by department and city, and the stored date is gone although
  no new date was extracted. In \<open>chatbot.py\<close> a symptom turn that names Chennai stores
  Neurology and Chennai; the booking turn that follows brings only a time, keeps the
  mapping, but looks for hospitals in Kochi, the city of the profile, finds none and
  replies with the empty string, although a hospital matches the stored department and
  city. In \<open>chat.py\<close> a booking turn that creates the booking empties the mapping.
\<close>

theorem symptom_turn_drops_date_counterexample:
  "app_intent (lower ''tomorrow at 11pm'') (last_intent demo_session) = Booking \<and>
   map_of (pending_booking (fst (run (app_step demo_catalog demo_predict)
                                   [Message ''tomorrow at 11pm'' tomorrow_ext] demo_session)))
     ''date'' = Some ''2026-11-05'' \<and>
   app_intent (lower ''I have chest pain'') (Some Booking) = Symptom \<and>
   parsed_date no_date_ext = None \<and>
   map_of (pending_booking (fst (run (app_step demo_catalog demo_predict)
                                   [Message ''tomorrow at 11pm'' tomorrow_ext,
                                    Message ''I have chest pain'' no_date_ext] demo_session)))
     ''date'' = None \<and>
   pending_booking (fst (run (app_step demo_catalog demo_predict)
                           [Message ''tomorrow at 11pm'' tomorrow_ext,
                            Message ''I have chest pain'' no_date_ext] demo_session)) =
     [(''department'', ''Cardiology''), (''city'', ''Kochi'')] \<and>
   chatbot_intent (lower ''headache in chennai'') (last_intent fresh_session) = Symptom \<and>
   pending_booking (fst (chatbot_turn demo_catalog neuro_predict demo_user no_date_ext
                           ''headache in chennai'' fresh_session)) =
     [(''department'', ''Neurology''), (''city'', ''Chennai'')] \<and>
   hospitals_for (hospitals demo_catalog) ''Chennai'' ''Neurology'' = [apollo] \<and>
   chatbot_intent (lower ''book at 10:00'') (Some Symptom) = Booking \<and>
   chatbot_turn demo_catalog neuro_predict demo_user no_date_ext ''book at 10:00''
     (fst (chatbot_turn demo_catalog neuro_predict demo_user no_date_ext
             ''headache in chennai'' fresh_session)) =
     (fresh_session
        \<lparr>chat_history := [User_msg ''headache in chennai'',
                           Assistant_msg (Symptom_hospitals ''Neurology'' ''Neurology''
                                            ''Chennai'' [apollo]),
                           User_msg ''book at 10:00'', Assistant_msg Empty_response],
          city := Some ''Chennai'',
          pending_booking := [(''department'', ''Neurology''), (''city'', ''Chennai'')],
          last_intent := Some Booking\<rparr>,
      Reply Empty_response None) \<and>
   pending_booking demo_session = [(''department'', ''Cardiology''), (''city'', ''Kochi'')] \<and>
   pending_booking (fst (chat_turn demo_catalog demo_predict demo_reply demo_user demo_ext
                           ''book at 5 pm on dec 15'' demo_session)) = []"
  by code_simp

end
